theory Spec2Isabelle
  imports Complex_Main
begin

section \<open>Data model (src/types/index.ts)\<close>

text \<open>
  Strings are ASCII character lists. Identifiers that the source builds from
  \<^verbatim>\<open>Date.now()\<close> and \<^verbatim>\<open>Math.random()\<close> are either parameters
  (job and checkpoint identifiers) or drawn from a counter (fault identifiers), so that a
  new fault never reuses an identifier. Timestamps are clock readings in milliseconds,
  supplied by the environment.
\<close>

datatype MigrationPhase =
    preparation | schema_migration | data_migration | storage_migration
  | configuration_migration | edge_functions_migration | security_migration
  | realtime_setup | validation | cutover

datatype severity = low | medium | high | critical

datatype job_status = pending | running | completed | failed | cancelled

datatype phase_status = ph_pending | ph_running | ph_completed | ph_failed | ph_skipped

record MigrationError =
  error_id :: nat
  timestamp :: nat
  phase :: MigrationPhase
  severity :: severity
  error_code :: string
  message :: string
  auto_recoverable :: bool
  recovery_attempted :: bool

text \<open>
  \<^verbatim>\<open>MigrationProgress\<close>: the scalar fields that \<^verbatim>\<open>{ ...progress }\<close> copies.
  The \<^verbatim>\<open>phases\<close> array is shared by reference between every progress object of a
  job (the spread copies the reference), so it is a field of the job below; the
  \<^verbatim>\<open>stats\<close> counters are never read by a decision and are left out.
\<close>

record MigrationProgress =
  overall_percentage :: rat
  current_phase :: MigrationPhase

text \<open>An entry of the \<^verbatim>\<open>phases\<close> array, without its two timestamps.\<close>

record phase_entry =
  name :: MigrationPhase
  ph_status :: phase_status
  percentage :: rat

section \<open>Error recovery engine (src/lib/error-recovery.ts)\<close>

datatype action = retry | skip | rollback | manual_intervention

datatype backoff = linear | exponential | fixed

datatype strategy_executor =
    ConnectionRetry | ResourceCleanup | PermissionEscalation
  | DataIntegrityRepair | PartialRollback | GracefulDegradation

record RecoveryStrategy =
  strategy_id :: string
  applicableErrors :: "string list"
  maxRetries :: nat
  backoffStrategy :: backoff
  baseDelay :: nat
  maxDelay :: nat
  execute :: strategy_executor

record RecoveryAttempt =
  attempt_strategy :: string
  attempt_success :: bool
  attempt_error :: "string option"

record RecoveryContext =
  context_phase :: MigrationPhase
  attemptNumber :: nat
  previousAttempts :: "RecoveryAttempt list"
  errorHistory :: "MigrationError list"

record RecoveryResult =
  success :: bool
  action :: action
  result_message :: string
  delayBeforeRetry :: "nat option"
  rollbackToPhase :: "MigrationPhase option"
  requiresManualIntervention :: bool

record Checkpoint =
  checkpoint_id :: string
  checkpoint_jobId :: string
  checkpoint_phase :: MigrationPhase
  checkpoint_timestamp :: nat
  checkpoint_progress :: MigrationProgress
  canRollback :: bool
  rollbackInstructions :: "string list"

datatype recovery_event =
    RecoveryStarted string
  | RecoveryAttempted string string bool
  | RecoverySuccess string string
  | RecoveryFailed string string
  | CheckpointCreated string string
  | RollbackStarted string string
  | RollbackCompleted string string
  | RollbackFailed string string

record ErrorRecoveryEngine =
  checkpoints :: "string \<rightharpoonup> Checkpoint list"
  activeRecoveries :: "string \<rightharpoonup> RecoveryContext"
  recovery_emitted :: "recovery_event list"

text \<open>
  What the environment decides during one call of the engine: whether an awaited rollback
  instruction completes (\<^verbatim>\<open>executeRollbackInstruction\<close>; \<open>False\<close> is a rejection
  of the awaited promise), and the comparison \<^verbatim>\<open>Math.random() > 0.3\<close> of the data
  repair.
\<close>

record recovery_env =
  instruction_completes :: "string \<Rightarrow> Checkpoint \<Rightarrow> bool"
  random_above_03 :: bool

text \<open>The body in the source only awaits a timer: it always completes.\<close>

definition executeRollbackInstruction :: "string \<Rightarrow> Checkpoint \<Rightarrow> bool" where
  "executeRollbackInstruction instruction checkpoint = True"

definition emitR :: "recovery_event \<Rightarrow> ErrorRecoveryEngine \<Rightarrow> ErrorRecoveryEngine" where
  "emitR ev eng = eng\<lparr>recovery_emitted := recovery_emitted eng @ [ev]\<rparr>"

definition new_ErrorRecoveryEngine :: ErrorRecoveryEngine where
  "new_ErrorRecoveryEngine =
     \<lparr>checkpoints = Map.empty, activeRecoveries = Map.empty, recovery_emitted = []\<rparr>"

text \<open>
  \<^verbatim>\<open>initializeDefaultStrategies\<close>: the registry is private, filled once by the
  constructor and never written again, so it is a constant (in insertion order).
\<close>

definition initializeDefaultStrategies :: "RecoveryStrategy list" where
  "initializeDefaultStrategies =
    [\<lparr>strategy_id = ''connection-retry'',
      applicableErrors = [''CONNECTION_TIMEOUT'', ''CONNECTION_REFUSED'', ''NETWORK_ERROR''],
      maxRetries = 5, backoffStrategy = exponential, baseDelay = 1000, maxDelay = 30000,
      execute = ConnectionRetry\<rparr>,
     \<lparr>strategy_id = ''resource-cleanup'',
      applicableErrors = [''RESOURCE_CONFLICT'', ''RESOURCE_LOCKED'', ''RESOURCE_EXISTS''],
      maxRetries = 3, backoffStrategy = linear, baseDelay = 2000, maxDelay = 10000,
      execute = ResourceCleanup\<rparr>,
     \<lparr>strategy_id = ''permission-escalation'',
      applicableErrors = [''PERMISSION_DENIED'', ''INSUFFICIENT_PRIVILEGES'', ''AUTH_FAILED''],
      maxRetries = 2, backoffStrategy = fixed, baseDelay = 5000, maxDelay = 5000,
      execute = PermissionEscalation\<rparr>,
     \<lparr>strategy_id = ''data-integrity-repair'',
      applicableErrors = [''DATA_CORRUPTION'', ''CONSTRAINT_VIOLATION'', ''FOREIGN_KEY_ERROR''],
      maxRetries = 2, backoffStrategy = fixed, baseDelay = 3000, maxDelay = 3000,
      execute = DataIntegrityRepair\<rparr>,
     \<lparr>strategy_id = ''partial-rollback'',
      applicableErrors = [''CRITICAL_ERROR'', ''SYSTEM_ERROR'', ''UNEXPECTED_ERROR''],
      maxRetries = 1, backoffStrategy = fixed, baseDelay = 0, maxDelay = 0,
      execute = PartialRollback\<rparr>,
     \<lparr>strategy_id = ''graceful-degradation'',
      applicableErrors = [''OPTIONAL_COMPONENT_ERROR'', ''FEATURE_NOT_SUPPORTED''],
      maxRetries = 0, backoffStrategy = fixed, baseDelay = 0, maxDelay = 0,
      execute = GracefulDegradation\<rparr>]"

text \<open>\<^verbatim>\<open>Array.prototype.indexOf\<close> and \<^verbatim>\<open>findIndex\<close>: \<open>-1\<close> when absent.\<close>

fun findIndex :: "('a \<Rightarrow> bool) \<Rightarrow> 'a list \<Rightarrow> int" where
  "findIndex P [] = -1"
| "findIndex P (x # xs) =
     (if P x then 0 else (let r = findIndex P xs in if r = -1 then -1 else r + 1))"

definition indexOf :: "'a list \<Rightarrow> 'a \<Rightarrow> int" where
  "indexOf xs x = findIndex (\<lambda>y. y = x) xs"

definition priority :: "string list" where
  "priority = [''connection-retry'', ''resource-cleanup'', ''data-integrity-repair'',
               ''permission-escalation'', ''graceful-degradation'', ''partial-rollback'']"

text \<open>The comparator sort of the source is stable, as \<open>sort_key\<close> is.\<close>

definition findApplicableStrategies :: "MigrationError \<Rightarrow> RecoveryStrategy list" where
  "findApplicableStrategies error =
     sort_key (\<lambda>s. indexOf priority (strategy_id s))
       (filter (\<lambda>s. error_code error \<in> set (applicableErrors s)) initializeDefaultStrategies)"

text \<open>
  \<^verbatim>\<open>calculateBackoffDelay\<close>. \<open>attemptNumber\<close> is at least 1 wherever the engine
  calls it (a context starts at 1 and is only incremented), so the exponent is a natural
  number.
\<close>

definition calculateBackoffDelay :: "RecoveryStrategy \<Rightarrow> nat \<Rightarrow> nat" where
  "calculateBackoffDelay strategy n =
     (case backoffStrategy strategy of
        linear \<Rightarrow> min (baseDelay strategy * n) (maxDelay strategy)
      | exponential \<Rightarrow> min (baseDelay strategy * 2 ^ (n - 1)) (maxDelay strategy)
      | fixed \<Rightarrow> baseDelay strategy)"

definition canRollbackFromPhase :: "MigrationPhase \<Rightarrow> bool" where
  "canRollbackFromPhase ph = (ph \<notin> set [cutover, validation])"

fun generateRollbackInstructions :: "MigrationPhase \<Rightarrow> string list" where
  "generateRollbackInstructions preparation = [''Delete created target project'']"
| "generateRollbackInstructions schema_migration =
     [''Drop created tables and schemas'', ''Remove database extensions'']"
| "generateRollbackInstructions data_migration =
     [''Truncate migrated tables'', ''Reset sequences'']"
| "generateRollbackInstructions storage_migration =
     [''Delete created storage buckets'', ''Remove uploaded objects'']"
| "generateRollbackInstructions edge_functions_migration = [''Delete deployed functions'']"
| "generateRollbackInstructions security_migration =
     [''Remove RLS policies'', ''Drop custom roles'']"
| "generateRollbackInstructions realtime_setup = [''Remove realtime publications'']"
| "generateRollbackInstructions _ = []"

definition getJobCheckpoints :: "ErrorRecoveryEngine \<Rightarrow> string \<Rightarrow> Checkpoint list" where
  "getJobCheckpoints eng job = (case checkpoints eng job of None \<Rightarrow> [] | Some cps \<Rightarrow> cps)"

text \<open>
  \<^verbatim>\<open>createCheckpoint\<close>: push, then \<^verbatim>\<open>splice(0, length - 10)\<close> when more than ten
  are held. The identifier and the clock reading come from the caller's environment.
\<close>

definition createCheckpoint ::
  "string \<Rightarrow> nat \<Rightarrow> string \<Rightarrow> MigrationPhase \<Rightarrow> MigrationProgress \<Rightarrow> ErrorRecoveryEngine
     \<Rightarrow> string \<times> ErrorRecoveryEngine" where
  "createCheckpoint checkpointId now job ph progress eng =
     (let checkpoint = \<lparr>checkpoint_id = checkpointId, checkpoint_jobId = job, checkpoint_phase = ph,
                         checkpoint_timestamp = now, checkpoint_progress = progress,
                         canRollback = canRollbackFromPhase ph,
                         rollbackInstructions = generateRollbackInstructions ph\<rparr>;
          pushed = getJobCheckpoints eng job @ [checkpoint];
          kept = (if length pushed > 10 then drop (length pushed - 10) pushed else pushed)
      in (checkpointId,
          emitR (CheckpointCreated job checkpointId)
            (eng\<lparr>checkpoints := (checkpoints eng)(job \<mapsto> kept)\<rparr>)))"

text \<open>
  \<^verbatim>\<open>rollbackToCheckpoint\<close>. The instructions are awaited in order inside the
  \<^verbatim>\<open>try\<close>; the first one that rejects reaches the \<^verbatim>\<open>catch\<close>, before the splice.
\<close>

definition rollbackToCheckpoint ::
  "(string \<Rightarrow> Checkpoint \<Rightarrow> bool) \<Rightarrow> string \<Rightarrow> string \<Rightarrow> ErrorRecoveryEngine
     \<Rightarrow> bool \<times> ErrorRecoveryEngine" where
  "rollbackToCheckpoint exec job checkpointId eng =
     (case checkpoints eng job of
        None \<Rightarrow> (False, eng)
      | Some cps \<Rightarrow>
          (case find (\<lambda>cp. checkpoint_id cp = checkpointId) cps of
             None \<Rightarrow> (False, eng)
           | Some checkpoint \<Rightarrow>
               if \<not> canRollback checkpoint then (False, eng)
               else
                 let eng1 = emitR (RollbackStarted job checkpointId) eng in
                 if list_all (\<lambda>instruction. exec instruction checkpoint)
                      (rollbackInstructions checkpoint)
                 then
                   let rollbackIndex = findIndex (\<lambda>cp. checkpoint_id cp = checkpointId) cps;
                       cps' = (if rollbackIndex \<noteq> -1 then take (nat (rollbackIndex + 1)) cps
                               else cps)
                   in (True, emitR (RollbackCompleted job checkpointId)
                               (eng1\<lparr>checkpoints := (checkpoints eng1)(job \<mapsto> cps')\<rparr>))
                 else (False, emitR (RollbackFailed job checkpointId) eng1)))"

subsection \<open>Strategy executors and \<^verbatim>\<open>handleError\<close>\<close>

text \<open>\<^verbatim>\<open>this.recoveryStrategies.get('connection-retry')!\<close>\<close>

definition connection_retry_strategy :: RecoveryStrategy where
  "connection_retry_strategy =
     the (find (\<lambda>s. strategy_id s = ''connection-retry'') initializeDefaultStrategies)"

definition executeConnectionRetry :: "RecoveryContext \<Rightarrow> RecoveryResult" where
  "executeConnectionRetry context =
     \<lparr>success = True, action = retry, result_message = ''Retrying after connection error'',
      delayBeforeRetry =
        Some (calculateBackoffDelay connection_retry_strategy (attemptNumber context)),
      rollbackToPhase = None, requiresManualIntervention = False\<rparr>"

definition executeResourceCleanup :: RecoveryResult where
  "executeResourceCleanup =
     \<lparr>success = True, action = retry,
      result_message = ''Resources cleaned up, retrying operation'',
      delayBeforeRetry = Some 2000, rollbackToPhase = None,
      requiresManualIntervention = False\<rparr>"

definition executePermissionEscalation :: RecoveryResult where
  "executePermissionEscalation =
     \<lparr>success = False, action = manual_intervention,
      result_message = ''Permission issue requires manual intervention'',
      delayBeforeRetry = None, rollbackToPhase = None,
      requiresManualIntervention = True\<rparr>"

definition executeDataIntegrityRepair :: "bool \<Rightarrow> RecoveryResult" where
  "executeDataIntegrityRepair rnd =
     \<lparr>success = rnd, action = retry, result_message = ''Attempted data integrity repair'',
      delayBeforeRetry = None, rollbackToPhase = None,
      requiresManualIntervention = False\<rparr>"

definition executePartialRollback ::
  "(string \<Rightarrow> Checkpoint \<Rightarrow> bool) \<Rightarrow> string \<Rightarrow> ErrorRecoveryEngine
     \<Rightarrow> RecoveryResult \<times> ErrorRecoveryEngine" where
  "executePartialRollback exec job eng =
     (case checkpoints eng job of
        None \<Rightarrow>
          (\<lparr>success = False, action = manual_intervention,
            result_message = ''No checkpoints available for rollback'',
            delayBeforeRetry = None, rollbackToPhase = None,
            requiresManualIntervention = True\<rparr>, eng)
      | Some cps \<Rightarrow>
          if cps = [] then
            (\<lparr>success = False, action = manual_intervention,
              result_message = ''No checkpoints available for rollback'',
              delayBeforeRetry = None, rollbackToPhase = None,
              requiresManualIntervention = True\<rparr>, eng)
          else
            let lastCheckpoint = last cps;
                (rollbackSuccess, eng') =
                   rollbackToCheckpoint exec job (checkpoint_id lastCheckpoint) eng
            in (\<lparr>success = rollbackSuccess,
                 action = (if rollbackSuccess then retry else manual_intervention),
                 result_message = (if rollbackSuccess then ''Rolled back'' else ''Rollback failed''),
                 delayBeforeRetry = None,
                 rollbackToPhase =
                   (if rollbackSuccess then Some (checkpoint_phase lastCheckpoint) else None),
                 requiresManualIntervention = (\<not> rollbackSuccess)\<rparr>, eng'))"

definition executeGracefulDegradation :: RecoveryResult where
  "executeGracefulDegradation =
     \<lparr>success = True, action = skip,
      result_message = ''Skipping optional component due to error'',
      delayBeforeRetry = None, rollbackToPhase = None,
      requiresManualIntervention = False\<rparr>"

text \<open>\<^verbatim>\<open>strategy.execute(error, context)\<close>: the bound method of the strategy.\<close>

definition run_strategy ::
  "recovery_env \<Rightarrow> RecoveryStrategy \<Rightarrow> string \<Rightarrow> RecoveryContext \<Rightarrow> ErrorRecoveryEngine
     \<Rightarrow> RecoveryResult \<times> ErrorRecoveryEngine" where
  "run_strategy env strategy job context eng =
     (case execute strategy of
        ConnectionRetry \<Rightarrow> (executeConnectionRetry context, eng)
      | ResourceCleanup \<Rightarrow> (executeResourceCleanup, eng)
      | PermissionEscalation \<Rightarrow> (executePermissionEscalation, eng)
      | DataIntegrityRepair \<Rightarrow> (executeDataIntegrityRepair (random_above_03 env), eng)
      | PartialRollback \<Rightarrow> executePartialRollback (instruction_completes env) job eng
      | GracefulDegradation \<Rightarrow> (executeGracefulDegradation, eng))"

definition no_strategy_result :: RecoveryResult where
  "no_strategy_result =
     \<lparr>success = False, action = manual_intervention,
      result_message = ''No recovery strategy available for this error'',
      delayBeforeRetry = None, rollbackToPhase = None,
      requiresManualIntervention = True\<rparr>"

definition all_failed_result :: RecoveryResult where
  "all_failed_result =
     \<lparr>success = False, action = manual_intervention,
      result_message = ''All recovery strategies failed'',
      delayBeforeRetry = None, rollbackToPhase = None,
      requiresManualIntervention = True\<rparr>"

text \<open>
  The \<^verbatim>\<open>for\<close> loop of \<^verbatim>\<open>handleError\<close> over the applicable strategies. The
  context is the object held in \<^verbatim>\<open>activeRecoveries\<close>; the push onto
  \<^verbatim>\<open>previousAttempts\<close> is written back to the map. No executor of the source throws
  (the rollback catches its own faults), so the \<^verbatim>\<open>catch\<close> of the loop has no branch.
\<close>

fun try_strategies ::
  "recovery_env \<Rightarrow> string \<Rightarrow> RecoveryContext \<Rightarrow> RecoveryStrategy list \<Rightarrow> ErrorRecoveryEngine
     \<Rightarrow> RecoveryResult \<times> ErrorRecoveryEngine" where
  "try_strategies env job context [] eng =
     (all_failed_result, eng\<lparr>activeRecoveries := (activeRecoveries eng)(job := None)\<rparr>)"
| "try_strategies env job context (strategy # rest) eng =
     (if attemptNumber context > maxRetries strategy
      then try_strategies env job context rest eng
      else
        let (result, eng1) = run_strategy env strategy job context eng;
            attempt = \<lparr>attempt_strategy = strategy_id strategy,
                       attempt_success = success result,
                       attempt_error =
                         (if success result then None else Some (result_message result))\<rparr>;
            context1 = context\<lparr>previousAttempts := previousAttempts context @ [attempt]\<rparr>;
            eng2 = emitR (RecoveryAttempted job (strategy_id strategy) (success result))
                     (eng1\<lparr>activeRecoveries := (activeRecoveries eng1)(job \<mapsto> context1)\<rparr>)
        in if success result then
             (result, emitR (RecoverySuccess job (strategy_id strategy))
                        (eng2\<lparr>activeRecoveries := (activeRecoveries eng2)(job := None)\<rparr>))
           else if action result \<noteq> retry then
             (result, emitR (RecoveryFailed job (strategy_id strategy)) eng2)
           else try_strategies env job context1 rest eng2)"

definition handleError ::
  "recovery_env \<Rightarrow> string \<Rightarrow> MigrationError \<Rightarrow> MigrationPhase \<Rightarrow> ErrorRecoveryEngine
     \<Rightarrow> RecoveryResult \<times> ErrorRecoveryEngine" where
  "handleError env job error ph eng =
     (let eng1 = emitR (RecoveryStarted job) eng;
          applicableStrategies = findApplicableStrategies error
      in if length applicableStrategies = 0 then (no_strategy_result, eng1)
         else
           let context =
                 (case activeRecoveries eng1 job of
                    None \<Rightarrow> \<lparr>context_phase = ph, attemptNumber = 1, previousAttempts = [],
                              errorHistory = [error]\<rparr>
                  | Some c \<Rightarrow> c\<lparr>attemptNumber := attemptNumber c + 1,
                                errorHistory := errorHistory c @ [error]\<rparr>);
               eng2 = eng1\<lparr>activeRecoveries := (activeRecoveries eng1)(job \<mapsto> context)\<rparr>
           in try_strategies env job context applicableStrategies eng2)"

text \<open>The number of strategy executions an event log records.\<close>

definition attempts_executed :: "recovery_event list \<Rightarrow> nat" where
  "attempts_executed evs =
     length (filter (\<lambda>ev. case ev of RecoveryAttempted _ _ _ \<Rightarrow> True | _ \<Rightarrow> False) evs)"

section \<open>Error monitoring system\<close>

datatype alert_type = threshold_exceeded | pattern_detected | critical_error | system_health

record ErrorPattern =
  pattern_id :: string
  frequency :: nat
  lastOccurrence :: nat
  pattern_severity :: severity

record ErrorAlert =
  alert_type :: alert_type
  alert_severity :: severity
  alert_timestamp :: nat
  alert_jobId :: "string option"
  alert_errorId :: "nat option"
  acknowledged :: bool
  resolvedAt :: "nat option"
  alert_patternId :: "string option"
  alert_count :: "nat option"

text \<open>
  The alerts map is keyed by a fresh identifier per alert, so it is the list of the alerts
  in the order of their creation; the fault map is keyed by the fault identifier.
\<close>

record ErrorMonitoringSystem =
  errors :: "(nat \<times> MigrationError) list"
  errorPatterns :: "string \<rightharpoonup> ErrorPattern"
  alerts :: "ErrorAlert list"

definition new_ErrorMonitoringSystem :: ErrorMonitoringSystem where
  "new_ErrorMonitoringSystem = \<lparr>errors = [], errorPatterns = Map.empty, alerts = []\<rparr>"

definition criticalErrorThreshold :: nat where
  "criticalErrorThreshold = 3"

fun phase_name :: "MigrationPhase \<Rightarrow> string" where
  "phase_name preparation = ''preparation''"
| "phase_name schema_migration = ''schema_migration''"
| "phase_name data_migration = ''data_migration''"
| "phase_name storage_migration = ''storage_migration''"
| "phase_name configuration_migration = ''configuration_migration''"
| "phase_name edge_functions_migration = ''edge_functions_migration''"
| "phase_name security_migration = ''security_migration''"
| "phase_name realtime_setup = ''realtime_setup''"
| "phase_name validation = ''validation''"
| "phase_name cutover = ''cutover''"

text \<open>\<^verbatim>\<open>Map.prototype.set\<close> on a map kept in insertion order.\<close>

fun map_set :: "'k \<Rightarrow> 'v \<Rightarrow> ('k \<times> 'v) list \<Rightarrow> ('k \<times> 'v) list" where
  "map_set k v [] = [(k, v)]"
| "map_set k v ((k', v') # rest) =
     (if k' = k then (k, v) # rest else (k', v') # map_set k v rest)"

definition createAlert ::
  "nat \<Rightarrow> alert_type \<Rightarrow> severity \<Rightarrow> string option \<Rightarrow> nat option \<Rightarrow> string option
     \<Rightarrow> nat option \<Rightarrow> ErrorMonitoringSystem \<Rightarrow> ErrorMonitoringSystem" where
  "createAlert now ty sev job err pat cnt mon =
     mon\<lparr>alerts := alerts mon @
       [\<lparr>alert_type = ty, alert_severity = sev, alert_timestamp = now, alert_jobId = job,
         alert_errorId = err, acknowledged = False, resolvedAt = None,
         alert_patternId = pat, alert_count = cnt\<rparr>]\<rparr>"

definition patternKey :: "MigrationError \<Rightarrow> string" where
  "patternKey error = error_code error @ ''_'' @ phase_name (phase error)"

definition updateErrorPatterns ::
  "nat \<Rightarrow> MigrationError \<Rightarrow> ErrorMonitoringSystem \<Rightarrow> ErrorMonitoringSystem" where
  "updateErrorPatterns now error mon =
     (let key = patternKey error;
          pattern0 = (case errorPatterns mon key of
                        None \<Rightarrow> \<lparr>pattern_id = key, frequency = 0,
                                  lastOccurrence = timestamp error,
                                  pattern_severity = severity error\<rparr>
                      | Some p \<Rightarrow> p);
          pattern = pattern0\<lparr>frequency := frequency pattern0 + 1,
                             lastOccurrence := timestamp error\<rparr>;
          mon1 = mon\<lparr>errorPatterns := (errorPatterns mon)(key \<mapsto> pattern)\<rparr>
      in if frequency pattern \<ge> 5 \<and> pattern_severity pattern = high
         then createAlert now pattern_detected high None None
                (Some (pattern_id pattern)) (Some (frequency pattern)) mon1
         else mon1)"

text \<open>
  The only figure of \<^verbatim>\<open>getErrorMetrics(timeWindow)\<close> that a decision reads: the
  number of recorded critical faults whose timestamp is later than the cutoff.
\<close>

definition critical_in_window :: "nat \<Rightarrow> nat \<Rightarrow> ErrorMonitoringSystem \<Rightarrow> nat" where
  "critical_in_window now timeWindow mon =
     length (filter (\<lambda>(i, e). int (timestamp e) > int now - int timeWindow
                             \<and> severity e = critical) (errors mon))"

definition checkForAlerts ::
  "nat \<Rightarrow> MigrationError \<Rightarrow> string \<Rightarrow> ErrorMonitoringSystem \<Rightarrow> ErrorMonitoringSystem" where
  "checkForAlerts now error job mon =
     (let mon1 = (if severity error = critical
                  then createAlert now critical_error critical (Some job)
                         (Some (error_id error)) None None mon
                  else mon);
          n = critical_in_window now 600000 mon1
      in if n \<ge> criticalErrorThreshold
         then createAlert now threshold_exceeded high None None None (Some n) mon1
         else mon1)"

definition recordError ::
  "nat \<Rightarrow> MigrationError \<Rightarrow> string \<Rightarrow> ErrorMonitoringSystem \<Rightarrow> ErrorMonitoringSystem" where
  "recordError now error job mon =
     checkForAlerts now error job
       (updateErrorPatterns now error
          (mon\<lparr>errors := map_set (error_id error) error (errors mon)\<rparr>))"

definition pattern_alerts :: "string \<Rightarrow> ErrorMonitoringSystem \<Rightarrow> ErrorAlert list" where
  "pattern_alerts key mon =
     filter (\<lambda>a. alert_type a = pattern_detected \<and> alert_patternId a = Some key) (alerts mon)"

section \<open>Input validation (security-client: \<^verbatim>\<open>InputValidator\<close>, \<^verbatim>\<open>SecurityManager\<close>)\<close>

fun startsWith :: "string \<Rightarrow> string \<Rightarrow> bool" where
  "startsWith s [] = True"
| "startsWith [] (c # cs) = False"
| "startsWith (x # xs) (c # cs) = (x = c \<and> startsWith xs cs)"

text \<open>\<^verbatim>\<open>String.prototype.includes\<close>\<close>

fun js_includes :: "string \<Rightarrow> string \<Rightarrow> bool" where
  "js_includes [] sub = (sub = [])"
| "js_includes (x # xs) sub = (startsWith (x # xs) sub \<or> js_includes xs sub)"

definition char_between :: "char \<Rightarrow> char \<Rightarrow> char \<Rightarrow> bool" where
  "char_between lo hi c = ((of_char lo :: nat) \<le> of_char c \<and> (of_char c :: nat) \<le> of_char hi)"

definition toLowerChar :: "char \<Rightarrow> char" where
  "toLowerChar c = (if char_between CHR ''A'' CHR ''Z'' c then char_of (of_char c + (32::nat)) else c)"

definition toLowerCase :: "string \<Rightarrow> string" where
  "toLowerCase s = map toLowerChar s"

definition isLetter :: "char \<Rightarrow> bool" where
  "isLetter c = (char_between CHR ''a'' CHR ''z'' c \<or> char_between CHR ''A'' CHR ''Z'' c)"

definition isDigit :: "char \<Rightarrow> bool" where
  "isDigit c = char_between CHR ''0'' CHR ''9'' c"

text \<open>The class \<^verbatim>\<open>\w\<close> of the regular expressions.\<close>

definition isWordChar :: "char \<Rightarrow> bool" where
  "isWordChar c = (isLetter c \<or> isDigit c \<or> c = CHR ''_'')"

text \<open>\<^verbatim>\<open>/^[a-zA-Z0-9-_]{1,50}$/\<close>\<close>

definition isValidProjectName :: "string \<Rightarrow> bool" where
  "isValidProjectName nm =
     (1 \<le> length nm \<and> length nm \<le> 50
      \<and> list_all (\<lambda>c. isLetter c \<or> isDigit c \<or> c = CHR ''-'' \<or> c = CHR ''_'') nm)"

datatype uuid_class = Hex | Dash | Version | Variant

fun uuid_char :: "uuid_class \<Rightarrow> char \<Rightarrow> bool" where
  "uuid_char Hex c = (isDigit c \<or> char_between CHR ''a'' CHR ''f'' (toLowerChar c))"
| "uuid_char Dash c = (c = CHR ''-'')"
| "uuid_char Version c = char_between CHR ''1'' CHR ''5'' c"
| "uuid_char Variant c = (toLowerChar c \<in> set ''89ab'')"

text \<open>
  \<^verbatim>\<open>/^[0-9a-f]{8}-[0-9a-f]{4}-[1-5][0-9a-f]{3}-[89ab][0-9a-f]{3}-[0-9a-f]{12}$/i\<close>
\<close>

definition isValidOrganizationId :: "string \<Rightarrow> bool" where
  "isValidOrganizationId ident =
     list_all2 uuid_char
       (replicate 8 Hex @ [Dash] @ replicate 4 Hex @ [Dash] @ Version # replicate 3 Hex
          @ [Dash] @ Variant # replicate 3 Hex @ [Dash] @ replicate 12 Hex)
       ident"

text \<open>\<^verbatim>\<open>/^[a-zA-Z_][a-zA-Z0-9_]{0,62}$/\<close>\<close>

definition isValidTableName :: "string \<Rightarrow> bool" where
  "isValidTableName nm =
     (case nm of
        [] \<Rightarrow> False
      | c # cs \<Rightarrow> (isLetter c \<or> c = CHR ''_'') \<and> length cs \<le> 62 \<and> list_all isWordChar cs)"

text \<open>The maximal runs of word characters of a string, in order.\<close>

fun word_runs :: "string \<Rightarrow> string \<Rightarrow> string list" where
  "word_runs acc [] = (if acc = [] then [] else [acc])"
| "word_runs acc (c # cs) =
     (if isWordChar c then word_runs (acc @ [c]) cs
      else (if acc = [] then [] else [acc]) @ word_runs [] cs)"

definition sql_keywords :: "string list" where
  "sql_keywords = [''select'', ''insert'', ''update'', ''delete'', ''drop'', ''create'',
                   ''alter'', ''exec'', ''union'', ''script'']"

text \<open>
  \<^verbatim>\<open>validateSQLInput\<close>. A keyword between two \<^verbatim>\<open>\b\<close> is a maximal run of word
  characters, compared without case; the other two patterns are plain substrings
  (\<^verbatim>\<open>%2D\<close> without case). The regular expressions are created by each call, so their
  \<^verbatim>\<open>lastIndex\<close> starts at 0.
\<close>

definition validateSQLInput :: "string \<Rightarrow> bool" where
  "validateSQLInput input =
     (\<not> (list_ex (\<lambda>w. toLowerCase w \<in> set sql_keywords) (word_runs [] input)
         \<or> list_ex (js_includes input) [''--'', ''/*'', ''*/'', '';'']
         \<or> list_ex (js_includes (toLowerCase input)) [''%27'', [CHR 0x27], ''%2d'', ''--'']))"

definition isValidWhereClause :: "string \<Rightarrow> bool" where
  "isValidWhereClause clause =
     (if clause = [] \<or> length clause > 1000 then False else validateSQLInput clause)"

record MigrationConfiguration =
  clone_type :: string
  target_region :: string
  parallel_threads :: int
  batch_size :: int
  data_filters :: "(string \<times> string) list option"
  exclude_tables :: "string list option"
  include_storage :: bool
  include_edge_functions :: bool
  include_auth_config :: bool

datatype validation_error =
    Invalid_clone_type
  | Invalid_target_region
  | Invalid_parallel_threads
  | Invalid_batch_size
  | Invalid_filter_table nat
  | Invalid_filter_where_clause nat
  | Invalid_exclude_table nat

text \<open>
  \<^verbatim>\<open>validateMigrationConfig\<close>, on a configuration of the declared type (the two
  \<^verbatim>\<open>Array.isArray\<close> failures need an ill-typed value). The messages are the
  constructors of \<open>validation_error\<close>, in the order of the pushes; a filter is the pair
  of its table and its where clause.
\<close>

definition validateMigrationConfig :: "MigrationConfiguration \<Rightarrow> bool \<times> validation_error list" where
  "validateMigrationConfig config =
     (let errors =
            (if clone_type config = [] \<or>
                clone_type config \<notin> set [''full_clone'', ''schema_only'', ''data_subset'']
             then [Invalid_clone_type] else [])
          @ (if target_region config = [] then [Invalid_target_region] else [])
          @ (if parallel_threads config = 0 \<or> parallel_threads config < 1
                \<or> parallel_threads config > 20
             then [Invalid_parallel_threads] else [])
          @ (if batch_size config = 0 \<or> batch_size config < 100 \<or> batch_size config > 10000
             then [Invalid_batch_size] else [])
          @ (case data_filters config of
               None \<Rightarrow> []
             | Some filters \<Rightarrow>
                 concat (map (\<lambda>(index, (table, where_clause)).
                     (if table = [] \<or> \<not> isValidTableName table
                      then [Invalid_filter_table index] else [])
                   @ (if where_clause = [] \<or> \<not> isValidWhereClause where_clause
                      then [Invalid_filter_where_clause index] else []))
                   (enumerate 0 filters)))
          @ (case exclude_tables config of
               None \<Rightarrow> []
             | Some tables \<Rightarrow>
                 concat (map (\<lambda>(index, table).
                     if \<not> isValidTableName table then [Invalid_exclude_table index] else [])
                   (enumerate 0 tables)))
      in (length errors = 0, errors))"

section \<open>Migration engine (migration-engine)\<close>

record MigrationJobOptions =
  sourceProject :: string
  targetProjectName :: string
  options_configuration :: MigrationConfiguration
  organizationId :: string

text \<open>
  \<^verbatim>\<open>MigrationJob\<close>. \<open>phases\<close> is the array every progress object of the job
  shares. Timestamps, durations and the target project identifier are written but never
  read by a decision, and are left out.
\<close>

record MigrationJob =
  job_id :: string
  organization_id :: string
  status :: job_status
  job_type :: string
  progress :: MigrationProgress
  phases :: "phase_entry list"
  configuration :: MigrationConfiguration
  error_log :: "MigrationError list"

text \<open>A thrown value: an \<^verbatim>\<open>Error\<close> with its message, or anything else.\<close>

datatype thrown = Error string | NonError

datatype engine_event =
    MigrationStarted | MigrationCompleted | MigrationFailed | MigrationCancelled
  | MigrationProgressed | MigrationErrored
  | PhaseStarted MigrationPhase | PhaseCompleted MigrationPhase | PhaseSkipped MigrationPhase
  | ManualInterventionRequired MigrationPhase | RollbackCompletedTo MigrationPhase

text \<open>
  An emitted event with what a listener reads from the job in its payload at the moment
  of the emission.
\<close>

record emitted_event =
  event :: engine_event
  event_job :: string
  event_status :: job_status
  event_percentage :: rat

text \<open>
  The engine: the registry of job objects (a map in insertion order), its two
  components, the events emitted so far, the delays awaited before retries and the
  counter behind the fault identifiers. A function that receives the job object as a
  parameter in the source receives and returns it here.
\<close>

record MigrationEngine =
  activeJobs :: "(string \<times> MigrationJob) list"
  recoveryEngine :: ErrorRecoveryEngine
  monitoringSystem :: ErrorMonitoringSystem
  emitted :: "emitted_event list"
  timers :: "nat list"
  next_error_id :: nat

definition new_MigrationEngine :: MigrationEngine where
  "new_MigrationEngine =
     \<lparr>activeJobs = [], recoveryEngine = new_ErrorRecoveryEngine,
      monitoringSystem = new_ErrorMonitoringSystem, emitted = [], timers = [],
      next_error_id = 0\<rparr>"

definition maxConcurrentMigrations :: nat where
  "maxConcurrentMigrations = 5"

definition emit :: "engine_event \<Rightarrow> MigrationJob \<Rightarrow> MigrationEngine \<Rightarrow> MigrationEngine" where
  "emit e job eng =
     eng\<lparr>emitted := emitted eng @
       [\<lparr>event = e, event_job = job_id job, event_status = status job,
         event_percentage = overall_percentage (progress job)\<rparr>]\<rparr>"

definition all_phases :: "MigrationPhase list" where
  "all_phases = [preparation, schema_migration, data_migration, storage_migration,
                 configuration_migration, edge_functions_migration, security_migration,
                 realtime_setup, validation, cutover]"

definition initializeProgress :: "MigrationProgress \<times> phase_entry list" where
  "initializeProgress =
     (\<lparr>overall_percentage = 0, current_phase = preparation\<rparr>,
      map (\<lambda>p. \<lparr>name = p, ph_status = ph_pending, percentage = 0\<rparr>) all_phases)"

text \<open>
  \<^verbatim>\<open>updateProgress\<close>: a new progress object from the old one and the update (the
  percentage, and the current phase when the update has one), then the event.
\<close>

definition updateProgress ::
  "MigrationJob \<Rightarrow> rat \<Rightarrow> MigrationPhase option \<Rightarrow> MigrationEngine
     \<Rightarrow> MigrationJob \<times> MigrationEngine" where
  "updateProgress job pct ph eng =
     (let job' = job\<lparr>progress :=
                   \<lparr>overall_percentage = pct,
                    current_phase = (case ph of None \<Rightarrow> current_phase (progress job)
                                     | Some p \<Rightarrow> p)\<rparr>\<rparr>
      in (job', emit MigrationProgressed job' eng))"

definition updatePhaseStatus ::
  "MigrationJob \<Rightarrow> MigrationPhase \<Rightarrow> phase_status \<Rightarrow> MigrationJob" where
  "updatePhaseStatus job ph st =
     (let phaseIndex = findIndex (\<lambda>p. name p = ph) (phases job)
      in if phaseIndex \<noteq> -1
         then job\<lparr>phases := (phases job)[nat phaseIndex :=
                    ((phases job) ! nat phaseIndex)\<lparr>ph_status := st\<rparr>]\<rparr>
         else job)"

definition determineSeverity :: "thrown \<Rightarrow> severity" where
  "determineSeverity error =
     (case error of
        Error msg \<Rightarrow>
          if js_includes msg ''CRITICAL'' \<or> js_includes msg ''FATAL'' then critical
          else if js_includes msg ''CONNECTION'' \<or> js_includes msg ''TIMEOUT'' then high
          else if js_includes msg ''PERMISSION'' \<or> js_includes msg ''AUTH'' then medium
          else high
      | NonError \<Rightarrow> high)"

definition determineErrorCode :: "thrown \<Rightarrow> string" where
  "determineErrorCode error =
     (case error of
        Error msg \<Rightarrow>
          if js_includes msg ''timeout'' then ''CONNECTION_TIMEOUT''
          else if js_includes msg ''permission'' then ''PERMISSION_DENIED''
          else if js_includes msg ''conflict'' then ''RESOURCE_CONFLICT''
          else if js_includes msg ''not found'' then ''RESOURCE_NOT_FOUND''
          else if js_includes msg ''network'' then ''NETWORK_ERROR''
          else ''UNKNOWN_ERROR''
      | NonError \<Rightarrow> ''UNKNOWN_ERROR'')"

definition isAutoRecoverable :: "thrown \<Rightarrow> bool" where
  "isAutoRecoverable error =
     (case error of
        Error msg \<Rightarrow>
          list_ex (\<lambda>keyword. js_includes (toLowerCase msg) keyword)
            [''timeout'', ''network'', ''temporary'', ''retry'']
      | NonError \<Rightarrow> False)"

definition createMigrationError ::
  "thrown \<Rightarrow> MigrationPhase \<Rightarrow> nat \<Rightarrow> MigrationEngine \<Rightarrow> MigrationError \<times> MigrationEngine" where
  "createMigrationError error ph now eng =
     (\<lparr>error_id = next_error_id eng, timestamp = now, phase = ph,
       severity = determineSeverity error, error_code = determineErrorCode error,
       message = (case error of Error msg \<Rightarrow> msg | NonError \<Rightarrow> ''Unknown error''),
       auto_recoverable = isAutoRecoverable error, recovery_attempted = False\<rparr>,
      eng\<lparr>next_error_id := next_error_id eng + 1\<rparr>)"

definition handleMigrationError ::
  "MigrationJob \<Rightarrow> MigrationPhase \<Rightarrow> thrown \<Rightarrow> nat \<Rightarrow> MigrationEngine \<Rightarrow> MigrationEngine" where
  "handleMigrationError job ph error now eng =
     (let (migrationError, eng1) = createMigrationError error ph now eng;
          eng2 = eng1\<lparr>monitoringSystem :=
                   recordError now migrationError (job_id job) (monitoringSystem eng1)\<rparr>
      in emit MigrationErrored job eng2)"

text \<open>
  The part of \<^verbatim>\<open>cancelMigration\<close> after the lookup, on the job object.
\<close>

definition cancel_job ::
  "MigrationJob \<Rightarrow> MigrationEngine \<Rightarrow> (string + unit) \<times> MigrationJob \<times> MigrationEngine" where
  "cancel_job job eng =
     (if status job = completed \<or> status job = failed
      then (Inl ''Cannot cancel completed or failed migration'', job, eng)
      else
        let job1 = job\<lparr>status := cancelled\<rparr>;
            (job2, eng2) = updateProgress job1 0 None eng
        in (Inr (), job2, emit MigrationCancelled job2 eng2))"


definition getMigrationStatus :: "string \<Rightarrow> MigrationEngine \<Rightarrow> MigrationJob option" where
  "getMigrationStatus jobId eng = map_of (activeJobs eng) jobId"

datatype start_error =
    Configuration_validation_failed "validation_error list"
  | Invalid_target_project_name
  | Invalid_organization_id
  | Maximum_concurrent_migrations_reached

text \<open>
  \<^verbatim>\<open>startMigration\<close> up to the start of the background task; \<open>jobId\<close> is what
  \<^verbatim>\<open>generateJobId\<close> returns. The background task is \<open>background_task\<close> below. The
  audit log writes to the console only.
\<close>

definition startMigration ::
  "MigrationJobOptions \<Rightarrow> string \<Rightarrow> MigrationEngine \<Rightarrow> (start_error + string) \<times> MigrationEngine" where
  "startMigration options jobId eng =
     (let configValidation = validateMigrationConfig (options_configuration options) in
      if \<not> fst configValidation
      then (Inl (Configuration_validation_failed (snd configValidation)), eng)
      else if \<not> isValidProjectName (targetProjectName options)
      then (Inl Invalid_target_project_name, eng)
      else if \<not> isValidOrganizationId (organizationId options)
      then (Inl Invalid_organization_id, eng)
      else
        let activeMigrations =
              filter (\<lambda>job. status job = running
                             \<and> organization_id job = organizationId options)
                (map snd (activeJobs eng))
        in if length activeMigrations \<ge> maxConcurrentMigrations
           then (Inl Maximum_concurrent_migrations_reached, eng)
           else
             let job = \<lparr>job_id = jobId, organization_id = organizationId options,
                        status = pending,
                        job_type = clone_type (options_configuration options),
                        progress = fst initializeProgress, phases = snd initializeProgress,
                        configuration = options_configuration options, error_log = []\<rparr>
             in (Inr jobId, eng\<lparr>activeJobs := map_set jobId job (activeJobs eng)\<rparr>))"

subsection \<open>Phase bodies\<close>

text \<open>
  One call of a phase executor, as the phase runner sees it: the progress updates the
  body makes, in order, and the value it throws, if any. The body is suspended (a network
  call or a timer) between two consecutive updates and before a throw.
\<close>

record executor_run =
  updates :: "(rat \<times> MigrationPhase) list"
  raised :: "thrown option"

text \<open>
  The answers of the collaborators during one call of an executor. A failed answer of the
  management client is a tagged result (the client catches every fault of a request); the
  schema inspector may throw. The number of buckets and of functions stands for the
  returned arrays.
\<close>

record collaborators =
  createProject_ok :: bool
  createProject_message :: string
  project_healthy_at_poll :: "nat \<Rightarrow> bool"
  sourceDbConfig_ok :: bool
  getCompleteSchema_raises :: "thrown option"
  targetDbConfig_ok :: bool
  storageBuckets :: "nat option"
  projectConfig_ok :: bool
  edgeFunctions :: "nat option"
  validation_errors :: "string list"

text \<open>\<^verbatim>\<open>waitForProjectReady\<close>: at most 30 polls; \<open>False\<close> is the timeout fault.\<close>

definition waitForProjectReady :: "collaborators \<Rightarrow> bool" where
  "waitForProjectReady w = list_ex (project_healthy_at_poll w) [0..<30]"

definition prepareTargetProject :: "collaborators \<Rightarrow> executor_run" where
  "prepareTargetProject w =
     (if \<not> createProject_ok w then
        \<lparr>updates = [(5, preparation)],
         raised = Some (Error (''Failed to create target project: '' @ createProject_message w))\<rparr>
      else if \<not> waitForProjectReady w then
        \<lparr>updates = [(5, preparation)],
         raised = Some (Error ''Target project failed to become ready within timeout period'')\<rparr>
      else \<lparr>updates = [(5, preparation), (10, preparation)], raised = None\<rparr>)"

definition migrateSchema :: "collaborators \<Rightarrow> executor_run" where
  "migrateSchema w =
     (if \<not> sourceDbConfig_ok w then
        \<lparr>updates = [(15, schema_migration)],
         raised = Some (Error ''Failed to get source database configuration'')\<rparr>
      else case getCompleteSchema_raises w of
        Some e \<Rightarrow> \<lparr>updates = [(15, schema_migration)], raised = Some e\<rparr>
      | None \<Rightarrow>
          if \<not> targetDbConfig_ok w then
            \<lparr>updates = [(15, schema_migration)],
             raised = Some (Error ''Failed to get target database configuration'')\<rparr>
          else \<lparr>updates = [(15, schema_migration), (30, schema_migration)], raised = None\<rparr>)"

text \<open>The loop \<^verbatim>\<open>for (i = 0; i <= 100; i += 10)\<close> sets \<^verbatim>\<open>35 + i * 0.25\<close>.\<close>

definition migrateData :: "MigrationJobOptions \<Rightarrow> executor_run" where
  "migrateData options =
     (if clone_type (options_configuration options) = ''schema_only''
      then \<lparr>updates = [], raised = None\<rparr>
      else \<lparr>updates = (35, data_migration)
                       # map (\<lambda>k. (35 + of_nat (10 * k) * (1 / 4), data_migration)) [0..<11],
            raised = None\<rparr>)"

text \<open>
  After bucket \<open>i\<close> of \<open>n\<close> the percentage is \<^verbatim>\<open>60 + ((i + 1) / n) * 10\<close>; the
  quotient is a rational number here and a float in the source.
\<close>

definition migrateStorage :: "collaborators \<Rightarrow> executor_run" where
  "migrateStorage w =
     (case storageBuckets w of
        None \<Rightarrow> \<lparr>updates = [(60, storage_migration)],
                  raised = Some (Error ''Failed to get source storage buckets'')\<rparr>
      | Some n \<Rightarrow>
          \<lparr>updates = (60, storage_migration)
                      # map (\<lambda>i. (60 + (of_nat (i + 1) / of_nat n) * 10, storage_migration))
                          [0..<n],
           raised = None\<rparr>)"

definition migrateConfiguration :: "collaborators \<Rightarrow> executor_run" where
  "migrateConfiguration w =
     (if \<not> projectConfig_ok w then
        \<lparr>updates = [(70, configuration_migration)],
         raised = Some (Error ''Failed to get source project configuration'')\<rparr>
      else \<lparr>updates = [(70, configuration_migration), (75, configuration_migration)],
            raised = None\<rparr>)"

definition migrateEdgeFunctions :: "collaborators \<Rightarrow> executor_run" where
  "migrateEdgeFunctions w =
     (case edgeFunctions w of
        None \<Rightarrow> \<lparr>updates = [(75, edge_functions_migration)],
                  raised = Some (Error ''Failed to get source Edge Functions'')\<rparr>
      | Some n \<Rightarrow>
          \<lparr>updates = (75, edge_functions_migration)
                      # map (\<lambda>i. (75 + (of_nat (i + 1) / of_nat n) * 5,
                                    edge_functions_migration)) [0..<n],
           raised = None\<rparr>)"

definition migrateSecurity :: executor_run where
  "migrateSecurity =
     \<lparr>updates = [(80, security_migration), (85, security_migration)], raised = None\<rparr>"

definition setupRealtime :: executor_run where
  "setupRealtime = \<lparr>updates = [(85, realtime_setup), (90, realtime_setup)], raised = None\<rparr>"

fun join_comma :: "string list \<Rightarrow> string" where
  "join_comma [] = []"
| "join_comma [x] = x"
| "join_comma (x # y # ys) = x @ '', '' @ join_comma (y # ys)"

definition validateMigration :: "collaborators \<Rightarrow> executor_run" where
  "validateMigration w =
     (if validation_errors w \<noteq> [] then
        \<lparr>updates = [(90, validation)],
         raised = Some (Error (''Migration validation failed: ''
                                 @ join_comma (validation_errors w)))\<rparr>
      else \<lparr>updates = [(90, validation), (95, validation)], raised = None\<rparr>)"

definition performCutover :: executor_run where
  "performCutover = \<lparr>updates = [(95, cutover), (100, cutover)], raised = None\<rparr>"

text \<open>The closure \<^verbatim>\<open>executeMigration\<close> passes to the phase runner for each phase.\<close>

fun phase_executor :: "MigrationJobOptions \<Rightarrow> MigrationPhase \<Rightarrow> collaborators \<Rightarrow> executor_run" where
  "phase_executor options preparation w = prepareTargetProject w"
| "phase_executor options schema_migration w = migrateSchema w"
| "phase_executor options data_migration w = migrateData options"
| "phase_executor options storage_migration w = migrateStorage w"
| "phase_executor options configuration_migration w = migrateConfiguration w"
| "phase_executor options edge_functions_migration w = migrateEdgeFunctions w"
| "phase_executor options security_migration w = migrateSecurity"
| "phase_executor options realtime_setup w = setupRealtime"
| "phase_executor options validation w = validateMigration w"
| "phase_executor options cutover w = performCutover"

subsection \<open>The phase runner\<close>

text \<open>
  What the environment decides around one call of the executor: the clock when it
  settles, the choices of the recovery engine, and whether a \<^verbatim>\<open>cancelMigration\<close>
  call for the job is served while the body is suspended after its first update.
\<close>

record attempt_environment =
  settled_at :: nat
  recovery :: recovery_env
  cancel_served :: bool

record phase_environment =
  checkpointId :: string
  started :: nat
  world :: "nat \<Rightarrow> collaborators"
  attempt_env :: "nat \<Rightarrow> attempt_environment"

fun run_updates ::
  "(rat \<times> MigrationPhase) list \<Rightarrow> MigrationJob \<Rightarrow> MigrationEngine
     \<Rightarrow> MigrationJob \<times> MigrationEngine" where
  "run_updates [] job eng = (job, eng)"
| "run_updates (u # us) job eng =
     (let (job1, eng1) = updateProgress job (fst u) (Some (snd u)) eng
      in run_updates us job1 eng1)"

definition run_executor ::
  "executor_run \<Rightarrow> bool \<Rightarrow> MigrationJob \<Rightarrow> MigrationEngine \<Rightarrow> MigrationJob \<times> MigrationEngine" where
  "run_executor r cancel job eng =
     (case updates r of
        [] \<Rightarrow> (job, eng)
      | u # us \<Rightarrow>
          let (job1, eng1) = updateProgress job (fst u) (Some (snd u)) eng;
              (job2, eng2) = (if cancel then snd (cancel_job job1 eng1) else (job1, eng1))
          in run_updates us job2 eng2)"

definition await_delay :: "nat option \<Rightarrow> MigrationEngine \<Rightarrow> MigrationEngine" where
  "await_delay d eng =
     (case d of
        None \<Rightarrow> eng
      | Some ms \<Rightarrow> if ms = 0 then eng else eng\<lparr>timers := timers eng @ [ms]\<rparr>)"

definition engine_rollbackToPhase ::
  "(string \<Rightarrow> Checkpoint \<Rightarrow> bool) \<Rightarrow> MigrationJob \<Rightarrow> MigrationPhase \<Rightarrow> MigrationEngine
     \<Rightarrow> MigrationJob \<times> MigrationEngine" where
  "engine_rollbackToPhase exec job targetPhase eng =
     (case find (\<lambda>cp. checkpoint_phase cp = targetPhase)
             (getJobCheckpoints (recoveryEngine eng) (job_id job)) of
        None \<Rightarrow> (job, eng)
      | Some targetCheckpoint \<Rightarrow>
          let (ok, rec') = rollbackToCheckpoint exec (job_id job)
                             (checkpoint_id targetCheckpoint) (recoveryEngine eng);
              job' = job\<lparr>progress := checkpoint_progress targetCheckpoint\<rparr>
          in (job', emit (RollbackCompletedTo targetPhase) job' (eng\<lparr>recoveryEngine := rec'\<rparr>)))"

text \<open>
  The \<^verbatim>\<open>catch\<close> block of the retry loop. \<open>None\<close>: the loop goes on with
  \<open>retryCount + 1\<close>; \<open>Some (Inr ())\<close>: the runner returns; \<open>Some (Inl e)\<close>: it
  throws \<open>e\<close>.
\<close>

definition catch_block ::
  "thrown \<Rightarrow> attempt_environment \<Rightarrow> MigrationPhase \<Rightarrow> nat \<Rightarrow> MigrationJob \<Rightarrow> MigrationEngine
     \<Rightarrow> (thrown + unit) option \<times> MigrationJob \<times> MigrationEngine" where
  "catch_block error aenv ph retryCount job eng =
     (let (migrationError, eng1) = createMigrationError error ph (settled_at aenv) eng;
          eng2 = eng1\<lparr>monitoringSystem :=
                   recordError (settled_at aenv) migrationError (job_id job)
                     (monitoringSystem eng1)\<rparr>;
          job1 = job\<lparr>error_log := error_log job @ [migrationError]\<rparr>
      in if retryCount < 3 then
           let (recoveryResult, rec') =
                 handleError (recovery aenv) (job_id job1) migrationError ph (recoveryEngine eng2);
               eng3 = eng2\<lparr>recoveryEngine := rec'\<rparr>;
               after_recovery =
                 (if requiresManualIntervention recoveryResult then
                    let job2 = updatePhaseStatus job1 ph ph_failed
                    in (Some (Inl (Error (''Manual intervention required: ''
                                           @ result_message recoveryResult))),
                        job2, emit (ManualInterventionRequired ph) job2 eng3)
                  else (None, job1, eng3))
           in if success recoveryResult then
                (if action recoveryResult = retry then
                   (None, job1, await_delay (delayBeforeRetry recoveryResult) eng3)
                 else if action recoveryResult = skip then
                   let job2 = updatePhaseStatus job1 ph ph_completed
                   in (Some (Inr ()), job2, emit (PhaseSkipped ph) job2 eng3)
                 else if action recoveryResult = rollback then
                   (case rollbackToPhase recoveryResult of
                      Some target \<Rightarrow>
                        let (job2, eng4) =
                              engine_rollbackToPhase (instruction_completes (recovery aenv))
                                job1 target eng3
                        in (Some (Inl (Error (''Rolled back to '' @ phase_name target
                                               @ '' phase''))), job2, eng4)
                    | None \<Rightarrow> after_recovery)
                 else after_recovery)
              else after_recovery
         else
           let job2 = updatePhaseStatus job1 ph ph_failed
           in (Some (Inl error), job2,
               handleMigrationError job2 ph error (settled_at aenv) eng2))"

text \<open>
  One pass through the body of the retry loop: the \<^verbatim>\<open>try\<close> block with one call of
  the executor, and the \<^verbatim>\<open>catch\<close> block when the call throws.
\<close>

definition loop_body ::
  "executor_run \<Rightarrow> attempt_environment \<Rightarrow> MigrationPhase \<Rightarrow> nat \<Rightarrow> MigrationJob
     \<Rightarrow> MigrationEngine \<Rightarrow> (thrown + unit) option \<times> MigrationJob \<times> MigrationEngine" where
  "loop_body r a ph retryCount job eng =
     (let job1 = updatePhaseStatus job ph ph_running;
          eng1 = emit (PhaseStarted ph) job1 eng;
          (job2, eng2) = run_executor r (cancel_served a) job1 eng1
      in case raised r of
           None \<Rightarrow>
             let job3 = updatePhaseStatus job2 ph ph_completed
             in (Some (Inr ()), job3, emit (PhaseCompleted ph) job3 eng2)
         | Some error \<Rightarrow> catch_block error a ph retryCount job2 eng2)"

text \<open>The loop \<^verbatim>\<open>while (retryCount <= maxRetries)\<close> with \<^verbatim>\<open>maxRetries = 3\<close>.\<close>

function executePhase_loop ::
  "(nat \<Rightarrow> executor_run) \<Rightarrow> (nat \<Rightarrow> attempt_environment) \<Rightarrow> MigrationPhase \<Rightarrow> nat
     \<Rightarrow> MigrationJob \<Rightarrow> MigrationEngine \<Rightarrow> (thrown + unit) \<times> MigrationJob \<times> MigrationEngine" where
  "executePhase_loop executor aenv ph retryCount job eng =
     (if \<not> retryCount \<le> 3 then (Inr (), job, eng)
      else
        case loop_body (executor retryCount) (aenv retryCount) ph retryCount job eng of
          (None, job', eng') \<Rightarrow> executePhase_loop executor aenv ph (retryCount + 1) job' eng'
        | (Some r, job', eng') \<Rightarrow> (r, job', eng'))"
  by pat_completeness auto
termination
  by (relation "measure (\<lambda>(executor, aenv, ph, retryCount, job, eng). 4 - retryCount)") auto

declare executePhase_loop.simps [simp del]

definition executePhase ::
  "phase_environment \<Rightarrow> (nat \<Rightarrow> executor_run) \<Rightarrow> MigrationPhase \<Rightarrow> MigrationJob
     \<Rightarrow> MigrationEngine \<Rightarrow> (thrown + unit) \<times> MigrationJob \<times> MigrationEngine" where
  "executePhase penv executor ph job eng =
     (let (checkpointId', rec') =
            createCheckpoint (checkpointId penv) (started penv) (job_id job) ph (progress job)
              (recoveryEngine eng)
      in executePhase_loop executor (attempt_env penv) ph 0 job (eng\<lparr>recoveryEngine := rec'\<rparr>))"

subsection \<open>\<^verbatim>\<open>executeMigration\<close>\<close>

text \<open>The phases \<^verbatim>\<open>executeMigration\<close> runs for a configuration, in its order.\<close>

definition phase_plan :: "MigrationJobOptions \<Rightarrow> MigrationPhase list" where
  "phase_plan options =
     [preparation, schema_migration]
     @ (if clone_type (options_configuration options) \<noteq> ''schema_only''
        then [data_migration] else [])
     @ (if include_storage (options_configuration options) then [storage_migration] else [])
     @ [configuration_migration]
     @ (if include_edge_functions (options_configuration options)
        then [edge_functions_migration] else [])
     @ [security_migration, realtime_setup, validation, cutover]"

fun run_phases ::
  "(MigrationPhase \<Rightarrow> phase_environment) \<Rightarrow> MigrationJobOptions \<Rightarrow> MigrationPhase list
     \<Rightarrow> MigrationJob \<Rightarrow> MigrationEngine \<Rightarrow> (thrown + unit) \<times> MigrationJob \<times> MigrationEngine" where
  "run_phases env options [] job eng = (Inr (), job, eng)"
| "run_phases env options (ph # rest) job eng =
     (case executePhase (env ph) (\<lambda>k. phase_executor options ph (world (env ph) k)) ph job eng of
        (Inl e, job1, eng1) \<Rightarrow> (Inl e, job1, eng1)
      | (Inr u, job1, eng1) \<Rightarrow> run_phases env options rest job1 eng1)"

text \<open>\<^verbatim>\<open>Map.prototype.delete\<close>\<close>

definition map_delete :: "'k \<Rightarrow> ('k \<times> 'v) list \<Rightarrow> ('k \<times> 'v) list" where
  "map_delete k kvs = filter (\<lambda>(k', v). k' \<noteq> k) kvs"

definition executeMigration ::
  "(MigrationPhase \<Rightarrow> phase_environment) \<Rightarrow> MigrationJobOptions \<Rightarrow> MigrationJob
     \<Rightarrow> MigrationEngine \<Rightarrow> (thrown + unit) \<times> MigrationJob \<times> MigrationEngine" where
  "executeMigration env options job eng =
     (let job1 = job\<lparr>status := running\<rparr>;
          eng1 = emit MigrationStarted job1 eng
      in case run_phases env options (phase_plan options) job1 eng1 of
           (Inr u, job2, eng2) \<Rightarrow>
             let job3 = job2\<lparr>status := completed\<rparr>;
                 (job4, eng4) = updateProgress job3 100 None eng2;
                 eng5 = emit MigrationCompleted job4 eng4
             in (Inr (), job4, eng5\<lparr>activeJobs := map_delete (job_id job4) (activeJobs eng5)\<rparr>)
         | (Inl error, job2, eng2) \<Rightarrow>
             let job3 = job2\<lparr>status := failed\<rparr>
             in (Inl error, job3, emit MigrationFailed job3 eng2))"

text \<open>
  The task \<^verbatim>\<open>startMigration\<close> leaves in the background: \<^verbatim>\<open>executeMigration\<close>
  and the \<^verbatim>\<open>catch\<close> handler on its promise.
\<close>

definition background_task ::
  "(MigrationPhase \<Rightarrow> phase_environment) \<Rightarrow> nat \<Rightarrow> MigrationJobOptions \<Rightarrow> MigrationJob
     \<Rightarrow> MigrationEngine \<Rightarrow> MigrationJob \<times> MigrationEngine" where
  "background_task env now options job eng =
     (case executeMigration env options job eng of
        (Inr u, job', eng') \<Rightarrow> (job', eng')
      | (Inl error, job', eng') \<Rightarrow>
          (job', handleMigrationError job' preparation error now eng'))"

text \<open>What a run emitted: the events added to the log of the engine.\<close>

definition new_events :: "MigrationEngine \<Rightarrow> MigrationEngine \<Rightarrow> emitted_event list" where
  "new_events eng eng' = drop (length (emitted eng)) (emitted eng')"

section \<open>Sequences of calls\<close>

definition cleanupJob :: "string \<Rightarrow> ErrorRecoveryEngine \<Rightarrow> ErrorRecoveryEngine" where
  "cleanupJob job eng =
     eng\<lparr>activeRecoveries := (activeRecoveries eng)(job := None),
         checkpoints := (checkpoints eng)(job := None)\<rparr>"

text \<open>A call of the public interface of the recovery engine, with what the environment
  decides during the call.\<close>

datatype recovery_call =
    CreateCheckpoint string nat string MigrationPhase MigrationProgress
  | RollbackToCheckpoint "string \<Rightarrow> Checkpoint \<Rightarrow> bool" string string
  | HandleError recovery_env string MigrationError MigrationPhase
  | CleanupJob string

fun recovery_step :: "recovery_call \<Rightarrow> ErrorRecoveryEngine \<Rightarrow> ErrorRecoveryEngine" where
  "recovery_step (CreateCheckpoint cid now job ph pr) eng =
     snd (createCheckpoint cid now job ph pr eng)"
| "recovery_step (RollbackToCheckpoint exec job cid) eng =
     snd (rollbackToCheckpoint exec job cid eng)"
| "recovery_step (HandleError env job error ph) eng = snd (handleError env job error ph eng)"
| "recovery_step (CleanupJob job) eng = cleanupJob job eng"

definition recovery_run :: "recovery_call list \<Rightarrow> ErrorRecoveryEngine \<Rightarrow> ErrorRecoveryEngine" where
  "recovery_run calls eng = fold recovery_step calls eng"

text \<open>The checkpoints a sequence of calls creates for one job, in the order of creation.\<close>

fun created_for :: "string \<Rightarrow> recovery_call list \<Rightarrow> Checkpoint list" where
  "created_for job [] = []"
| "created_for job (CreateCheckpoint cid now job' ph pr # calls) =
     (if job' = job
      then \<lparr>checkpoint_id = cid, checkpoint_jobId = job', checkpoint_phase = ph,
            checkpoint_timestamp = now, checkpoint_progress = pr,
            canRollback = canRollbackFromPhase ph,
            rollbackInstructions = generateRollbackInstructions ph\<rparr> # created_for job calls
      else created_for job calls)"
| "created_for job (_ # calls) = created_for job calls"

fun is_create :: "recovery_call \<Rightarrow> bool" where
  "is_create (CreateCheckpoint _ _ _ _ _) = True"
| "is_create _ = False"

text \<open>The last \<open>n\<close> elements of a list.\<close>

definition last_n :: "nat \<Rightarrow> 'a list \<Rightarrow> 'a list" where
  "last_n n xs = drop (length xs - n) xs"

section \<open>Percentage bands and observations\<close>

text \<open>The first and the last percentage a phase body sets.\<close>

fun band_start :: "MigrationPhase \<Rightarrow> rat" where
  "band_start preparation = 5"
| "band_start schema_migration = 15"
| "band_start data_migration = 35"
| "band_start storage_migration = 60"
| "band_start configuration_migration = 70"
| "band_start edge_functions_migration = 75"
| "band_start security_migration = 80"
| "band_start realtime_setup = 85"
| "band_start validation = 90"
| "band_start cutover = 95"

fun band_end :: "MigrationPhase \<Rightarrow> rat" where
  "band_end preparation = 10"
| "band_end schema_migration = 30"
| "band_end data_migration = 60"
| "band_end storage_migration = 70"
| "band_end configuration_migration = 75"
| "band_end edge_functions_migration = 80"
| "band_end security_migration = 85"
| "band_end realtime_setup = 90"
| "band_end validation = 95"
| "band_end cutover = 100"

text \<open>The percentages of the events emitted while the status of the job is running.\<close>

definition running_percentages :: "emitted_event list \<Rightarrow> rat list" where
  "running_percentages evs =
     map event_percentage (filter (\<lambda>e. event_status e = running) evs)"

definition new_faults :: "MigrationJob \<Rightarrow> MigrationJob \<Rightarrow> MigrationError list" where
  "new_faults job job' = drop (length (error_log job)) (error_log job')"

text \<open>
  What holds of the events a run has emitted so far (\<open>evs\<close>), the status \<open>st\<close> and the
  percentage \<open>pct\<close> of its job, between two steps of the phases: the percentages
  emitted while running are in order, no event was emitted as completed, the job is
  running or cancelled, and while it is running its percentage is above every percentage
  emitted while running and at most \<open>L\<close>.
\<close>

definition obs_inv :: "rat \<Rightarrow> job_status \<Rightarrow> rat \<Rightarrow> emitted_event list \<Rightarrow> bool" where
  "obs_inv L st pct evs \<longleftrightarrow>
     sorted (running_percentages evs)
     \<and> (\<forall>e\<in>set evs. event_status e \<noteq> completed)
     \<and> (st = running \<or> st = cancelled)
     \<and> (st = running \<longrightarrow> (\<forall>x\<in>set (running_percentages evs). x \<le> pct) \<and> pct \<le> L)"

definition run_inv :: "nat \<Rightarrow> rat \<Rightarrow> MigrationJob \<Rightarrow> MigrationEngine \<Rightarrow> bool" where
  "run_inv n L job eng \<longleftrightarrow>
     n \<le> length (emitted eng)
     \<and> obs_inv L (status job) (overall_percentage (progress job)) (drop n (emitted eng))"

text \<open>
  A call of an executor stays in the band of its phase: its updates are in order and
  inside the band, and a call that throws has made the first update of the band only.
\<close>

definition executor_in_band :: "MigrationPhase \<Rightarrow> executor_run \<Rightarrow> bool" where
  "executor_in_band ph r \<longleftrightarrow>
     sorted (map fst (updates r))
     \<and> (\<forall>q\<in>set (map fst (updates r)). band_start ph \<le> q \<and> q \<le> band_end ph)
     \<and> (raised r \<noteq> None \<longrightarrow> map fst (updates r) = [band_start ph])"

text \<open>The bands of the phases of a plan follow one another, from \<open>L\<close> on.\<close>

fun plan_in_order :: "rat \<Rightarrow> MigrationPhase list \<Rightarrow> bool" where
  "plan_in_order L [] = True"
| "plan_in_order L (ph # rest) = (L \<le> band_start ph \<and> plan_in_order (band_end ph) rest)"

text \<open>The event of a progress update and the event of a cancellation, as emitted.\<close>

definition progress_event :: "string \<Rightarrow> job_status \<Rightarrow> rat \<Rightarrow> emitted_event" where
  "progress_event jid st pct =
     \<lparr>event = MigrationProgressed, event_job = jid, event_status = st, event_percentage = pct\<rparr>"

definition cancelled_event :: "string \<Rightarrow> emitted_event" where
  "cancelled_event jid =
     \<lparr>event = MigrationCancelled, event_job = jid, event_status = cancelled,
      event_percentage = 0\<rparr>"

section \<open>Scenarios\<close>

definition full_clone_options :: MigrationJobOptions where
  "full_clone_options =
     \<lparr>sourceProject = ''source'', targetProjectName = ''clone-1'',
      options_configuration =
        \<lparr>clone_type = ''full_clone'', target_region = ''us-east-1'', parallel_threads = 4,
         batch_size = 1000, data_filters = None, exclude_tables = None,
         include_storage = True, include_edge_functions = True, include_auth_config = True\<rparr>,
      organizationId = ''123e4567-e89b-12d3-a456-426614174000''\<rparr>"

text \<open>The job \<^verbatim>\<open>startMigration\<close> registers for these options under \<open>''job-1''\<close>.\<close>

definition job_1 :: MigrationJob where
  "job_1 =
     \<lparr>job_id = ''job-1'', organization_id = organizationId full_clone_options,
      status = pending, job_type = ''full_clone'', progress = fst initializeProgress,
      phases = snd initializeProgress,
      configuration = options_configuration full_clone_options, error_log = []\<rparr>"

text \<open>Every collaborator answers; two buckets and one function are found.\<close>

definition all_answer :: collaborators where
  "all_answer =
     \<lparr>createProject_ok = True, createProject_message = [],
      project_healthy_at_poll = (\<lambda>poll. True), sourceDbConfig_ok = True,
      getCompleteSchema_raises = None, targetDbConfig_ok = True, storageBuckets = Some 2,
      projectConfig_ok = True, edgeFunctions = Some 1, validation_errors = []\<rparr>"

text \<open>The target project is created but never reports healthy.\<close>

definition never_healthy :: collaborators where
  "never_healthy = all_answer\<lparr>project_healthy_at_poll := (\<lambda>poll. False)\<rparr>"

definition calm :: attempt_environment where
  "calm = \<lparr>settled_at = 0,
           recovery = \<lparr>instruction_completes = executeRollbackInstruction,
                       random_above_03 = True\<rparr>,
           cancel_served = False\<rparr>"

text \<open>A run in which every collaborator answers and nobody cancels.\<close>

definition smooth_run :: "MigrationPhase \<Rightarrow> phase_environment" where
  "smooth_run ph =
     \<lparr>checkpointId = ''checkpoint-'' @ phase_name ph, started = 0,
      world = (\<lambda>k. all_answer), attempt_env = (\<lambda>k. calm)\<rparr>"

text \<open>The same run, with a cancellation served while the schema migration is suspended.\<close>

definition cancelled_run :: "MigrationPhase \<Rightarrow> phase_environment" where
  "cancelled_run ph =
     (smooth_run ph)\<lparr>attempt_env :=
        (\<lambda>k. calm\<lparr>cancel_served := (ph = schema_migration \<and> k = 0)\<rparr>)\<rparr>"

text \<open>A run in which the target project never reports healthy.\<close>

definition timeout_run :: "MigrationPhase \<Rightarrow> phase_environment" where
  "timeout_run ph = (smooth_run ph)\<lparr>world := (\<lambda>k. never_healthy)\<rparr>"

text \<open>The creation of the target project is refused for want of a permission.\<close>

definition denied :: collaborators where
  "denied = all_answer\<lparr>createProject_ok := False, createProject_message := ''permission denied''\<rparr>"

definition denied_run :: "MigrationPhase \<Rightarrow> phase_environment" where
  "denied_run ph = (smooth_run ph)\<lparr>world := (\<lambda>k. denied)\<rparr>"

text \<open>
  \<^verbatim>\<open>startMigration\<close> together with the background task it leaves, run to its end: the
  task works on the registered job object, so the registry shows the job as the task left
  it, unless the task deleted the entry.
\<close>

definition start_and_run ::
  "(MigrationPhase \<Rightarrow> phase_environment) \<Rightarrow> nat \<Rightarrow> MigrationJobOptions \<Rightarrow> string
     \<Rightarrow> MigrationEngine \<Rightarrow> (start_error + string) \<times> MigrationEngine" where
  "start_and_run env now options jobId eng =
     (case startMigration options jobId eng of
        (Inl e, eng1) \<Rightarrow> (Inl e, eng1)
      | (Inr jid, eng1) \<Rightarrow>
          (case map_of (activeJobs eng1) jid of
             None \<Rightarrow> (Inr jid, eng1)
           | Some job \<Rightarrow>
               let (job', eng2) = background_task env now options job eng1
               in (Inr jid, eng2\<lparr>activeJobs :=
                     map (\<lambda>(k, j). if k = jid then (k, job') else (k, j)) (activeJobs eng2)\<rparr>)))"

text \<open>Five registered jobs of the organization of \<open>full_clone_options\<close>, all running.\<close>

definition five_running :: MigrationEngine where
  "five_running =
     new_MigrationEngine\<lparr>activeJobs :=
       map (\<lambda>jid. (jid, job_1\<lparr>job_id := jid, status := running\<rparr>))
         [''job-a'', ''job-b'', ''job-c'', ''job-d'', ''job-e'']\<rparr>"

text \<open>The \<open>k\<close>-th of a series of high-severity network faults of the data migration.\<close>

definition network_fault :: "nat \<Rightarrow> MigrationError" where
  "network_fault k =
     \<lparr>error_id = k, timestamp = 0, phase = data_migration, severity = high,
      error_code = ''NETWORK_ERROR'', message = ''network unreachable'',
      auto_recoverable = True, recovery_attempted = False\<rparr>"

text \<open>Recording a series of faults of one job, all at the same clock reading.\<close>

definition record_all ::
  "nat \<Rightarrow> string \<Rightarrow> MigrationError list \<Rightarrow> ErrorMonitoringSystem \<Rightarrow> ErrorMonitoringSystem" where
  "record_all now job es mon = fold (\<lambda>e. recordError now e job) es mon"


section \<open>The checkpoint store\<close>

lemma getJobCheckpoints_create:
  "getJobCheckpoints (snd (createCheckpoint cid now job ph pr eng)) j =
     (if j = job
      then last_n 10 (getJobCheckpoints eng job @
             [\<lparr>checkpoint_id = cid, checkpoint_jobId = job, checkpoint_phase = ph,
               checkpoint_timestamp = now, checkpoint_progress = pr,
               canRollback = canRollbackFromPhase ph,
               rollbackInstructions = generateRollbackInstructions ph\<rparr>])
      else getJobCheckpoints eng j)"
  by (simp add: createCheckpoint_def getJobCheckpoints_def emitR_def last_n_def Let_def)

lemma length_last_n: "length (last_n n xs) \<le> n"
  by (simp add: last_n_def)

lemma last_n_short: "length xs \<le> n \<Longrightarrow> last_n n xs = xs"
  by (simp add: last_n_def)

lemma last_n_append_last_n:
  "last_n n (last_n n xs @ ys) = last_n n (xs @ ys)"
proof (cases "length xs \<le> n")
  case True
  then show ?thesis by (simp add: last_n_short)
next
  case False
  then have "length xs - n + n = length xs" by simp
  then show ?thesis
    by (simp add: last_n_def add.commute)
qed

lemma getJobCheckpoints_rollback_length:
  "length (getJobCheckpoints (snd (rollbackToCheckpoint exec job cid eng)) j)
     \<le> length (getJobCheckpoints eng j)"
  by (auto simp: rollbackToCheckpoint_def getJobCheckpoints_def emitR_def Let_def
           split: option.splits)

lemma getJobCheckpoints_run_strategy_length:
  "length (getJobCheckpoints (snd (run_strategy env s job ctx eng)) j)
     \<le> length (getJobCheckpoints eng j)"
proof (cases "execute s")
  case PartialRollback
  have "length (getJobCheckpoints (snd (executePartialRollback ex job eng)) j)
          \<le> length (getJobCheckpoints eng j)" for ex
    using getJobCheckpoints_rollback_length[of ex job _ eng j]
    by (auto simp: executePartialRollback_def Let_def split: option.splits prod.splits)
       (metis snd_conv)
  with PartialRollback show ?thesis by (simp add: run_strategy_def)
qed (simp_all add: run_strategy_def)

lemma getJobCheckpoints_activeRecoveries [simp]:
  "getJobCheckpoints (eng\<lparr>activeRecoveries := a\<rparr>) j = getJobCheckpoints eng j"
  "getJobCheckpoints (emitR ev eng) j = getJobCheckpoints eng j"
  by (simp_all add: getJobCheckpoints_def emitR_def)

lemma getJobCheckpoints_try_strategies_length:
  "length (getJobCheckpoints (snd (try_strategies env job ctx ss eng)) j)
     \<le> length (getJobCheckpoints eng j)"
proof (induction ss arbitrary: ctx eng)
  case Nil
  then show ?case by simp
next
  case (Cons s ss)
  show ?case
  proof (cases "attemptNumber ctx > maxRetries s")
    case True
    then show ?thesis using Cons.IH by simp
  next
    case False
    obtain result eng1 where r: "run_strategy env s job ctx eng = (result, eng1)"
      by (cases "run_strategy env s job ctx eng")
    have l1: "length (getJobCheckpoints eng1 j) \<le> length (getJobCheckpoints eng j)"
      using getJobCheckpoints_run_strategy_length[of env s job ctx eng j] r by simp
    show ?thesis
      using False r l1
      by (auto simp: Let_def intro: order_trans[OF Cons.IH])
  qed
qed

lemma getJobCheckpoints_handleError_length:
  "length (getJobCheckpoints (snd (handleError env job e ph eng)) j)
     \<le> length (getJobCheckpoints eng j)"
  by (auto simp: handleError_def Let_def
      intro: order_trans[OF getJobCheckpoints_try_strategies_length])

lemma recovery_step_bound:
  assumes "length (getJobCheckpoints eng j) \<le> 10"
  shows "length (getJobCheckpoints (recovery_step c eng) j) \<le> 10"
proof (cases c)
  case (CreateCheckpoint cid now job ph pr)
  with assms show ?thesis by (simp add: getJobCheckpoints_create length_last_n)
next
  case (RollbackToCheckpoint exec job cid)
  with assms show ?thesis
    using getJobCheckpoints_rollback_length[of exec job cid eng j] by simp
next
  case (HandleError env job e ph)
  with assms show ?thesis
    using getJobCheckpoints_handleError_length[of env job e ph eng j] by simp
next
  case (CleanupJob job)
  with assms show ?thesis by (simp add: cleanupJob_def getJobCheckpoints_def)
qed

lemma recovery_run_bound:
  "length (getJobCheckpoints eng j) \<le> 10 \<Longrightarrow>
   length (getJobCheckpoints (recovery_run calls eng) j) \<le> 10"
  unfolding recovery_run_def
  by (induction calls arbitrary: eng) (simp_all add: recovery_step_bound)

lemma recovery_run_creates:
  "list_all is_create calls \<Longrightarrow>
   last_n 10 (getJobCheckpoints (recovery_run calls eng) j)
     = last_n 10 (getJobCheckpoints eng j @ created_for j calls)"
  unfolding recovery_run_def
proof (induction calls arbitrary: eng)
  case Nil
  then show ?case by simp
next
  case (Cons c calls)
  then obtain cid now job ph pr where c: "c = CreateCheckpoint cid now job ph pr"
    by (cases c) auto
  from Cons have IH: "last_n 10 (getJobCheckpoints (fold recovery_step calls (recovery_step c eng)) j)
     = last_n 10 (getJobCheckpoints (recovery_step c eng) j @ created_for j calls)"
    by simp
  show ?case
    using IH by (simp add: c getJobCheckpoints_create last_n_append_last_n)
qed

text \<open>
  Claim C7. Whatever calls the recovery engine has served since its construction, it holds
  at most 10 checkpoints for a job. After a sequence of \<^verbatim>\<open>createCheckpoint\<close> calls
  it holds, for each job, the last 10 of the checkpoints created for that job, in the
  order of creation. A creation for a job that has 10 checkpoints drops the oldest one and
  appends the new one.
\<close>

theorem checkpoint_store_keeps_last_ten:
  "length (getJobCheckpoints (recovery_run calls new_ErrorRecoveryEngine) job) \<le> 10
   \<and> (list_all is_create calls \<longrightarrow>
        getJobCheckpoints (recovery_run calls new_ErrorRecoveryEngine) job
          = last_n 10 (created_for job calls))
   \<and> (length (getJobCheckpoints eng job) = 10 \<longrightarrow>
        getJobCheckpoints (snd (createCheckpoint cid now job ph pr eng)) job
          = tl (getJobCheckpoints eng job)
            @ created_for job [CreateCheckpoint cid now job ph pr])"
proof -
  have new: "getJobCheckpoints new_ErrorRecoveryEngine job = []"
    by (simp add: getJobCheckpoints_def new_ErrorRecoveryEngine_def)
  have b: "length (getJobCheckpoints (recovery_run calls new_ErrorRecoveryEngine) job) \<le> 10"
    by (rule recovery_run_bound) (simp add: new)
  have c: "getJobCheckpoints (recovery_run calls new_ErrorRecoveryEngine) job
          = last_n 10 (created_for job calls)" if "list_all is_create calls"
    using recovery_run_creates[OF that, of new_ErrorRecoveryEngine job] b
    by (simp add: new last_n_short)
  have d: "getJobCheckpoints (snd (createCheckpoint cid now job ph pr eng)) job
          = tl (getJobCheckpoints eng job) @ created_for job [CreateCheckpoint cid now job ph pr]"
    if "length (getJobCheckpoints eng job) = 10"
    using that by (cases "getJobCheckpoints eng job") (simp_all add: getJobCheckpoints_create last_n_def)
  from b c d show ?thesis by blast
qed

theorem checkpoint_store_keeps_last_ten_witness:
  "list_all is_create
     (map (\<lambda>c. CreateCheckpoint c 0 ''job-1'' preparation (fst initializeProgress))
        [''c01'', ''c02'', ''c03'', ''c04'', ''c05'', ''c06'', ''c07'', ''c08'', ''c09'', ''c10''])
   \<and> length (getJobCheckpoints
        (recovery_run
          (map (\<lambda>c. CreateCheckpoint c 0 ''job-1'' preparation (fst initializeProgress))
            [''c01'', ''c02'', ''c03'', ''c04'', ''c05'', ''c06'', ''c07'', ''c08'', ''c09'', ''c10''])
          new_ErrorRecoveryEngine) ''job-1'') = 10
   \<and> map checkpoint_id (getJobCheckpoints
        (snd (createCheckpoint ''c11'' 1 ''job-1'' cutover (fst initializeProgress)
          (recovery_run
            (map (\<lambda>c. CreateCheckpoint c 0 ''job-1'' preparation (fst initializeProgress))
              [''c01'', ''c02'', ''c03'', ''c04'', ''c05'', ''c06'', ''c07'', ''c08'', ''c09'', ''c10''])
            new_ErrorRecoveryEngine))) ''job-1'')
      = [''c02'', ''c03'', ''c04'', ''c05'', ''c06'', ''c07'', ''c08'', ''c09'', ''c10'', ''c11'']"
proof -
  let ?calls = "map (\<lambda>c. CreateCheckpoint c 0 ''job-1'' preparation (fst initializeProgress))
        [''c01'', ''c02'', ''c03'', ''c04'', ''c05'', ''c06'', ''c07'', ''c08'', ''c09'', ''c10'']"
  let ?eng = "recovery_run ?calls new_ErrorRecoveryEngine"
  note inst = checkpoint_store_keeps_last_ten
               [of ?calls "''job-1''" ?eng "''c11''" 1 cutover "fst initializeProgress"]
  have creates: "list_all is_create ?calls" by simp
  with inst have held: "getJobCheckpoints ?eng ''job-1'' = last_n 10 (created_for ''job-1'' ?calls)"
    by blast
  then have ten: "length (getJobCheckpoints ?eng ''job-1'') = 10"
    by (simp add: last_n_def)
  with inst have "getJobCheckpoints
        (snd (createCheckpoint ''c11'' 1 ''job-1'' cutover (fst initializeProgress) ?eng)) ''job-1''
      = tl (getJobCheckpoints ?eng ''job-1'')
        @ created_for ''job-1''
            [CreateCheckpoint ''c11'' 1 ''job-1'' cutover (fst initializeProgress)]"
    by blast
  then have "map checkpoint_id (getJobCheckpoints
        (snd (createCheckpoint ''c11'' 1 ''job-1'' cutover (fst initializeProgress) ?eng)) ''job-1'')
      = [''c02'', ''c03'', ''c04'', ''c05'', ''c06'', ''c07'', ''c08'', ''c09'', ''c10'', ''c11'']"
    unfolding held by (simp add: last_n_def)
  with creates ten show ?thesis by blast
qed

section \<open>Rollback to a checkpoint\<close>

lemma find_findIndex_length:
  "find P xs = Some x \<Longrightarrow> findIndex P xs = int (length (takeWhile (\<lambda>y. \<not> P y) xs))"
  by (induction xs) (auto simp: Let_def split: if_splits)

lemma find_take_Suc:
  "find P xs = Some x \<Longrightarrow>
   take (Suc (length (takeWhile (\<lambda>y. \<not> P y) xs))) xs = takeWhile (\<lambda>y. \<not> P y) xs @ [x]"
  by (induction xs) (auto split: if_splits)

lemma find_findIndex:
  assumes "find P xs = Some x"
  shows "findIndex P xs \<noteq> -1
       \<and> take (nat (findIndex P xs + 1)) xs = takeWhile (\<lambda>y. \<not> P y) xs @ [x]"
proof -
  have "nat (findIndex P xs + 1) = Suc (length (takeWhile (\<lambda>y. \<not> P y) xs))"
    by (simp add: find_findIndex_length[OF assms])
  then show ?thesis
    using find_take_Suc[OF assms] by (simp add: find_findIndex_length[OF assms])
qed

lemma find_takeWhile_again:
  "find P xs = Some x \<Longrightarrow> find P (takeWhile (\<lambda>y. \<not> P y) xs @ [x]) = Some x"
  by (induction xs) (auto split: if_splits)

lemma takeWhile_takeWhile_again:
  "find P xs = Some x \<Longrightarrow>
   takeWhile (\<lambda>y. \<not> P y) (takeWhile (\<lambda>y. \<not> P y) xs @ [x]) = takeWhile (\<lambda>y. \<not> P y) xs"
  by (induction xs) (auto split: if_splits)

lemma rollback_success:
  assumes "checkpoints eng job = Some cps"
      and "find (\<lambda>cp. checkpoint_id cp = cid) cps = Some cp"
      and "canRollback cp"
      and "list_all (\<lambda>i. exec i cp) (rollbackInstructions cp)"
  shows "rollbackToCheckpoint exec job cid eng =
           (True, emitR (RollbackCompleted job cid)
                    ((emitR (RollbackStarted job cid) eng)
                       \<lparr>checkpoints := (checkpoints eng)
                          (job \<mapsto> takeWhile (\<lambda>c. checkpoint_id c \<noteq> cid) cps @ [cp])\<rparr>))"
  using assms find_findIndex[OF assms(2)]
  by (simp add: rollbackToCheckpoint_def Let_def emitR_def)

lemma rollback_failure:
  assumes "checkpoints eng job = Some cps"
      and "find (\<lambda>cp. checkpoint_id cp = cid) cps = Some cp"
      and "canRollback cp"
      and "\<not> list_all (\<lambda>i. exec i cp) (rollbackInstructions cp)"
  shows "rollbackToCheckpoint exec job cid eng =
           (False, emitR (RollbackFailed job cid) (emitR (RollbackStarted job cid) eng))"
  using assms by (simp add: rollbackToCheckpoint_def Let_def emitR_def)

text \<open>
  Claim C8. Let the store of a job hold a rollback-eligible checkpoint under the given
  identifier (the first checkpoint with that identifier). When every rollback instruction
  completes, \<^verbatim>\<open>rollbackToCheckpoint\<close> succeeds and keeps exactly the checkpoints up to
  and including that one: every checkpoint recorded after it is removed. A second
  rollback to the same checkpoint succeeds again and leaves the store as the first one
  left it. When an instruction fails, the rollback returns \<open>False\<close> and removes nothing.
\<close>

theorem rollback_discards_later_checkpoints:
  assumes "checkpoints eng job = Some cps"
      and "find (\<lambda>c. checkpoint_id c = cid) cps = Some cp"
      and "canRollback cp"
  shows "(list_all (\<lambda>i. exec i cp) (rollbackInstructions cp) \<longrightarrow>
            fst (rollbackToCheckpoint exec job cid eng)
          \<and> getJobCheckpoints (snd (rollbackToCheckpoint exec job cid eng)) job
              = takeWhile (\<lambda>c. checkpoint_id c \<noteq> cid) cps @ [cp]
          \<and> cps = getJobCheckpoints (snd (rollbackToCheckpoint exec job cid eng)) job
                    @ tl (dropWhile (\<lambda>c. checkpoint_id c \<noteq> cid) cps)
          \<and> fst (rollbackToCheckpoint exec job cid (snd (rollbackToCheckpoint exec job cid eng)))
          \<and> checkpoints (snd (rollbackToCheckpoint exec job cid
                                 (snd (rollbackToCheckpoint exec job cid eng))))
              = checkpoints (snd (rollbackToCheckpoint exec job cid eng)))
       \<and> (\<not> list_all (\<lambda>i. exec i cp) (rollbackInstructions cp) \<longrightarrow>
            \<not> fst (rollbackToCheckpoint exec job cid eng)
          \<and> checkpoints (snd (rollbackToCheckpoint exec job cid eng)) = checkpoints eng)"
proof (intro conjI impI)
  assume ok: "list_all (\<lambda>i. exec i cp) (rollbackInstructions cp)"
  let ?kept = "takeWhile (\<lambda>c. checkpoint_id c \<noteq> cid) cps @ [cp]"
  let ?eng' = "snd (rollbackToCheckpoint exec job cid eng)"
  note first = rollback_success[of eng job cps cid cp exec, OF assms ok]
  show "fst (rollbackToCheckpoint exec job cid eng)" by (simp add: first)
  show kept: "getJobCheckpoints ?eng' job = ?kept"
    by (simp add: first getJobCheckpoints_def emitR_def)
  have "dropWhile (\<lambda>c. checkpoint_id c \<noteq> cid) cps = cp # tl (dropWhile (\<lambda>c. checkpoint_id c \<noteq> cid) cps)"
    using assms(2) by (induction cps) (auto split: if_splits)
  then have "cps = ?kept @ tl (dropWhile (\<lambda>c. checkpoint_id c \<noteq> cid) cps)"
    by (metis append.assoc append_Cons append_Nil takeWhile_dropWhile_id)
  then show "cps = getJobCheckpoints ?eng' job @ tl (dropWhile (\<lambda>c. checkpoint_id c \<noteq> cid) cps)"
    by (simp only: kept)
  have c': "checkpoints ?eng' job = Some ?kept"
    by (simp add: first emitR_def)
  have f': "find (\<lambda>c. checkpoint_id c = cid) ?kept = Some cp"
    using find_takeWhile_again[OF assms(2)] by simp
  note second = rollback_success[of ?eng' job ?kept cid cp exec, OF c' f' assms(3) ok]
  show "fst (rollbackToCheckpoint exec job cid ?eng')" by (simp add: second)
  have "takeWhile (\<lambda>c. checkpoint_id c \<noteq> cid) ?kept = takeWhile (\<lambda>c. checkpoint_id c \<noteq> cid) cps"
    using takeWhile_takeWhile_again[OF assms(2)] by simp
  then show "checkpoints (snd (rollbackToCheckpoint exec job cid ?eng')) = checkpoints ?eng'"
    using c' by (simp add: second emitR_def fun_upd_idem)
next
  assume bad: "\<not> list_all (\<lambda>i. exec i cp) (rollbackInstructions cp)"
  note r = rollback_failure[of eng job cps cid cp exec, OF assms bad]
  show "\<not> fst (rollbackToCheckpoint exec job cid eng)" by (simp add: r)
  show "checkpoints (snd (rollbackToCheckpoint exec job cid eng)) = checkpoints eng"
    by (simp add: r emitR_def)
qed

theorem rollback_discards_later_checkpoints_witness:
  "map checkpoint_id (getJobCheckpoints
      (snd (rollbackToCheckpoint executeRollbackInstruction ''job-1'' ''c1''
        (recovery_run
          [CreateCheckpoint ''c1'' 1 ''job-1'' preparation (fst initializeProgress),
           CreateCheckpoint ''c2'' 2 ''job-1'' schema_migration (fst initializeProgress),
           CreateCheckpoint ''c3'' 3 ''job-1'' data_migration (fst initializeProgress)]
          new_ErrorRecoveryEngine))) ''job-1'') = [''c1'']
   \<and> \<not> fst (rollbackToCheckpoint (\<lambda>instruction checkpoint. False) ''job-1'' ''c1''
        (recovery_run
          [CreateCheckpoint ''c1'' 1 ''job-1'' preparation (fst initializeProgress),
           CreateCheckpoint ''c2'' 2 ''job-1'' schema_migration (fst initializeProgress),
           CreateCheckpoint ''c3'' 3 ''job-1'' data_migration (fst initializeProgress)]
          new_ErrorRecoveryEngine))"
proof -
  let ?calls = "[CreateCheckpoint ''c1'' 1 ''job-1'' preparation (fst initializeProgress),
           CreateCheckpoint ''c2'' 2 ''job-1'' schema_migration (fst initializeProgress),
           CreateCheckpoint ''c3'' 3 ''job-1'' data_migration (fst initializeProgress)]"
  let ?eng = "recovery_run ?calls new_ErrorRecoveryEngine"
  let ?cps = "created_for ''job-1'' ?calls"
  let ?cp = "hd ?cps"
  have store: "checkpoints ?eng ''job-1'' = Some ?cps"
    by (simp add: recovery_run_def createCheckpoint_def getJobCheckpoints_def emitR_def
          new_ErrorRecoveryEngine_def Let_def)
  have found: "find (\<lambda>c. checkpoint_id c = ''c1'') ?cps = Some ?cp" by simp
  have eligible: "canRollback ?cp" by (simp add: canRollbackFromPhase_def)
  have ok: "list_all (\<lambda>i. executeRollbackInstruction i ?cp) (rollbackInstructions ?cp)"
    by (simp add: executeRollbackInstruction_def)
  have bad: "\<not> list_all (\<lambda>i. (\<lambda>instruction checkpoint. False) i ?cp) (rollbackInstructions ?cp)"
    by simp
  from rollback_discards_later_checkpoints
         [of ?eng "''job-1''" ?cps "''c1''" ?cp executeRollbackInstruction,
          OF store found eligible] ok
  have "getJobCheckpoints
          (snd (rollbackToCheckpoint executeRollbackInstruction ''job-1'' ''c1'' ?eng)) ''job-1''
        = takeWhile (\<lambda>c. checkpoint_id c \<noteq> ''c1'') ?cps @ [?cp]"
    by blast
  then have one: "map checkpoint_id (getJobCheckpoints
          (snd (rollbackToCheckpoint executeRollbackInstruction ''job-1'' ''c1'' ?eng)) ''job-1'')
        = [''c1'']"
    by simp
  from rollback_discards_later_checkpoints
         [of ?eng "''job-1''" ?cps "''c1''" ?cp "\<lambda>instruction checkpoint. False",
          OF store found eligible] bad
  have "\<not> fst (rollbackToCheckpoint (\<lambda>instruction checkpoint. False) ''job-1'' ''c1'' ?eng)"
    by blast
  with one show ?thesis by blast
qed

section \<open>The recovery engine and the phase runner\<close>

lemma executePhase_loop_rule:
  assumes body: "\<And>k job eng job' eng'. k \<le> 3 \<Longrightarrow> I k job eng \<Longrightarrow>
            loop_body (executor k) (aenv k) ph k job eng = (None, job', eng') \<Longrightarrow> I (k + 1) job' eng'"
      and stop: "\<And>k job eng r job' eng'. k \<le> 3 \<Longrightarrow> I k job eng \<Longrightarrow>
            loop_body (executor k) (aenv k) ph k job eng = (Some r, job', eng') \<Longrightarrow> Q r job' eng'"
      and out: "\<And>k job eng. \<not> k \<le> 3 \<Longrightarrow> I k job eng \<Longrightarrow> Q (Inr ()) job eng"
      and start: "I k job eng"
  shows "Q (fst (executePhase_loop executor aenv ph k job eng))
           (fst (snd (executePhase_loop executor aenv ph k job eng)))
           (snd (snd (executePhase_loop executor aenv ph k job eng)))"
  using start
proof (induction "4 - k" arbitrary: k job eng)
  case 0
  then have "\<not> k \<le> 3" by simp
  then show ?case
    using out[OF _ "0.prems"] by (subst (1 2 3) executePhase_loop.simps) simp
next
  case (Suc n)
  then have k: "k \<le> 3" by simp
  obtain o' job' eng' where lb:
    "loop_body (executor k) (aenv k) ph k job eng = (o', job', eng')"
    by (cases "loop_body (executor k) (aenv k) ph k job eng")
  show ?case
  proof (cases o')
    case None
    with lb have lb': "loop_body (executor k) (aenv k) ph k job eng = (None, job', eng')"
      by simp
    have I': "I (k + 1) job' eng'"
      by (rule body[OF k Suc.prems lb'])
    have "n = 4 - (k + 1)" using Suc.hyps(2) by simp
    from Suc.hyps(1)[OF this I']
    show ?thesis
      using k lb' by (subst (1 2 3) executePhase_loop.simps) simp
  next
    case (Some r)
    with lb have lb': "loop_body (executor k) (aenv k) ph k job eng = (Some r, job', eng')"
      by simp
    show ?thesis
      using stop[OF k Suc.prems lb'] k lb'
      by (subst (1 2 3) executePhase_loop.simps) simp
  qed
qed

lemma applicable_permission:
  "error_code e = ''PERMISSION_DENIED'' \<Longrightarrow>
   findApplicableStrategies e = [initializeDefaultStrategies ! 2]"
  by (auto simp: findApplicableStrategies_def initializeDefaultStrategies_def)

lemma attempts_executed_emitR:
  "attempts_executed (recovery_emitted (emitR ev eng)) =
     attempts_executed (recovery_emitted eng)
     + (case ev of RecoveryAttempted _ _ _ \<Rightarrow> 1 | _ \<Rightarrow> 0)"
  by (cases ev) (simp_all add: attempts_executed_def emitR_def)

lemma handleError_permission:
  assumes "error_code e = ''PERMISSION_DENIED''"
  shows "action (fst (handleError env job e ph eng)) = manual_intervention
       \<and> requiresManualIntervention (fst (handleError env job e ph eng))
       \<and> \<not> success (fst (handleError env job e ph eng))
       \<and> attempts_executed (recovery_emitted (snd (handleError env job e ph eng)))
           \<le> attempts_executed (recovery_emitted eng) + 1"
  by (simp add: handleError_def applicable_permission[OF assms] initializeDefaultStrategies_def
        Let_def all_failed_result_def attempts_executed_emitR run_strategy_def
        executePermissionEscalation_def split: option.splits)

lemma emit_fields [simp]:
  "activeJobs (emit e job eng) = activeJobs eng"
  "recoveryEngine (emit e job eng) = recoveryEngine eng"
  "monitoringSystem (emit e job eng) = monitoringSystem eng"
  "timers (emit e job eng) = timers eng"
  "next_error_id (emit e job eng) = next_error_id eng"
  by (simp_all add: emit_def)

lemma updatePhaseStatus_fields [simp]:
  "status (updatePhaseStatus job ph st) = status job"
  "progress (updatePhaseStatus job ph st) = progress job"
  "error_log (updatePhaseStatus job ph st) = error_log job"
  "job_id (updatePhaseStatus job ph st) = job_id job"
  by (simp_all add: updatePhaseStatus_def Let_def)

lemma createMigrationError_fields [simp]:
  "error_code (fst (createMigrationError error ph now eng)) = determineErrorCode error"
  "recoveryEngine (snd (createMigrationError error ph now eng)) = recoveryEngine eng"
  "emitted (snd (createMigrationError error ph now eng)) = emitted eng"
  "timers (snd (createMigrationError error ph now eng)) = timers eng"
  by (simp_all add: createMigrationError_def)

lemma handleMigrationError_fields [simp]:
  "recoveryEngine (handleMigrationError job ph error now eng) = recoveryEngine eng"
  "timers (handleMigrationError job ph error now eng) = timers eng"
  by (simp_all add: handleMigrationError_def createMigrationError_def Let_def)

lemma catch_block_permission:
  assumes "determineErrorCode error = ''PERMISSION_DENIED''"
  shows "\<exists>e job' eng'. catch_block error aenv ph k job eng = (Some (Inl e), job', eng')
           \<and> attempts_executed (recovery_emitted (recoveryEngine eng'))
               \<le> attempts_executed (recovery_emitted (recoveryEngine eng)) + 1
           \<and> status job' = status job
           \<and> error_log job' = error_log job
               @ [fst (createMigrationError error ph (settled_at aenv) eng)]"
proof -
  obtain me eng1 where c: "createMigrationError error ph (settled_at aenv) eng = (me, eng1)"
    by (cases "createMigrationError error ph (settled_at aenv) eng")
  have code: "error_code me = ''PERMISSION_DENIED''"
    using createMigrationError_fields(1)[of error ph "settled_at aenv" eng] c assms by simp
  have rec1: "recoveryEngine eng1 = recoveryEngine eng"
    using createMigrationError_fields(2)[of error ph "settled_at aenv" eng] c by simp
  obtain res rec' where h: "handleError (recovery aenv) (job_id job) me ph (recoveryEngine eng) = (res, rec')"
    by (cases "handleError (recovery aenv) (job_id job) me ph (recoveryEngine eng)")
  from handleError_permission[OF code, of "recovery aenv" "job_id job" ph "recoveryEngine eng"] h
  have res: "action res = manual_intervention" "requiresManualIntervention res" "\<not> success res"
    and att: "attempts_executed (recovery_emitted rec')
                \<le> attempts_executed (recovery_emitted (recoveryEngine eng)) + 1"
    by simp_all
  show ?thesis
    using c rec1 h res att by (simp add: catch_block_def Let_def)
qed


lemma run_strategy_not_rollback:
  "action (fst (run_strategy env s job ctx eng)) \<noteq> rollback"
  by (cases "execute s")
     (auto simp: run_strategy_def executeConnectionRetry_def executeResourceCleanup_def
        executePermissionEscalation_def executeDataIntegrityRepair_def
        executePartialRollback_def executeGracefulDegradation_def Let_def
        split: option.splits prod.splits)

lemma try_strategies_not_rollback:
  "action (fst (try_strategies env job ctx ss eng)) \<noteq> rollback"
proof (induction ss arbitrary: ctx eng)
  case Nil
  then show ?case by (simp add: all_failed_result_def)
next
  case (Cons s ss)
  obtain result eng1 where r: "run_strategy env s job ctx eng = (result, eng1)"
    by (cases "run_strategy env s job ctx eng")
  have "action result \<noteq> rollback"
    using run_strategy_not_rollback[of env s job ctx eng] r by simp
  then show ?case
    using Cons.IH r by (simp add: Let_def)
qed

lemma handleError_not_rollback:
  "action (fst (handleError env job e ph eng)) \<noteq> rollback"
  by (simp add: handleError_def Let_def no_strategy_result_def try_strategies_not_rollback)

lemma updateProgress_fields [simp]:
  "status (fst (updateProgress job q p eng)) = status job"
  "error_log (fst (updateProgress job q p eng)) = error_log job"
  "job_id (fst (updateProgress job q p eng)) = job_id job"
  "overall_percentage (progress (fst (updateProgress job q p eng))) = q"
  "activeJobs (snd (updateProgress job q p eng)) = activeJobs eng"
  "recoveryEngine (snd (updateProgress job q p eng)) = recoveryEngine eng"
  "monitoringSystem (snd (updateProgress job q p eng)) = monitoringSystem eng"
  "timers (snd (updateProgress job q p eng)) = timers eng"
  "next_error_id (snd (updateProgress job q p eng)) = next_error_id eng"
  by (simp_all add: updateProgress_def Let_def)

lemma run_updates_fields [simp]:
  "status (fst (run_updates us job eng)) = status job"
  "error_log (fst (run_updates us job eng)) = error_log job"
  "job_id (fst (run_updates us job eng)) = job_id job"
  "activeJobs (snd (run_updates us job eng)) = activeJobs eng"
  "recoveryEngine (snd (run_updates us job eng)) = recoveryEngine eng"
  "monitoringSystem (snd (run_updates us job eng)) = monitoringSystem eng"
  "timers (snd (run_updates us job eng)) = timers eng"
  "next_error_id (snd (run_updates us job eng)) = next_error_id eng"
  by (induction us arbitrary: job eng; simp add: split_beta Let_def)+

lemma cancel_job_fields [simp]:
  "error_log (fst (snd (cancel_job job eng))) = error_log job"
  "job_id (fst (snd (cancel_job job eng))) = job_id job"
  "activeJobs (snd (snd (cancel_job job eng))) = activeJobs eng"
  "recoveryEngine (snd (snd (cancel_job job eng))) = recoveryEngine eng"
  "monitoringSystem (snd (snd (cancel_job job eng))) = monitoringSystem eng"
  "timers (snd (snd (cancel_job job eng))) = timers eng"
  "next_error_id (snd (snd (cancel_job job eng))) = next_error_id eng"
  by (simp_all add: cancel_job_def split_beta Let_def)

lemma run_executor_fields [simp]:
  "error_log (fst (run_executor r c job eng)) = error_log job"
  "job_id (fst (run_executor r c job eng)) = job_id job"
  "activeJobs (snd (run_executor r c job eng)) = activeJobs eng"
  "recoveryEngine (snd (run_executor r c job eng)) = recoveryEngine eng"
  "monitoringSystem (snd (run_executor r c job eng)) = monitoringSystem eng"
  "timers (snd (run_executor r c job eng)) = timers eng"
  "next_error_id (snd (run_executor r c job eng)) = next_error_id eng"
  by (simp_all add: run_executor_def split_beta Let_def split: list.splits)

lemma catch_block_frame:
  assumes "catch_block error a ph k job eng = (out, job', eng')"
  shows "status job' = status job"
    and "progress job' = progress job"
    and "job_id job' = job_id job"
    and "error_log job' = error_log job @ [fst (createMigrationError error ph (settled_at a) eng)]"
    and "activeJobs eng' = activeJobs eng"
    and "\<exists>evs. emitted eng' = emitted eng @ evs
           \<and> (\<forall>e\<in>set evs. event_status e = status job
                 \<and> event_percentage e = overall_percentage (progress job))"
proof -
  obtain me eng1 where c: "createMigrationError error ph (settled_at a) eng = (me, eng1)"
    by (cases "createMigrationError error ph (settled_at a) eng")
  have eng1: "eng1 = eng\<lparr>next_error_id := next_error_id eng + 1\<rparr>"
    using c by (simp add: createMigrationError_def)
  let ?eng2 = "eng1\<lparr>monitoringSystem :=
                   recordError (settled_at a) me (job_id job) (monitoringSystem eng1)\<rparr>"
  obtain res rec' where h:
    "handleError (recovery a) (job_id job) me ph (recoveryEngine ?eng2) = (res, rec')"
    by (cases "handleError (recovery a) (job_id job) me ph (recoveryEngine ?eng2)")
  have nr: "action res \<noteq> rollback"
    using handleError_not_rollback[of "recovery a" "job_id job" me ph "recoveryEngine ?eng2"] h
    by simp
  note facts = assms c h nr eng1
  show "status job' = status job"
    using facts by (auto simp: catch_block_def Let_def split: if_splits)
  show "progress job' = progress job"
    using facts by (auto simp: catch_block_def Let_def split: if_splits)
  show "job_id job' = job_id job"
    using facts by (auto simp: catch_block_def Let_def split: if_splits)
  show "error_log job' = error_log job @ [fst (createMigrationError error ph (settled_at a) eng)]"
    using facts by (auto simp: catch_block_def Let_def split: if_splits)
  show "activeJobs eng' = activeJobs eng"
    using facts by (auto simp: catch_block_def Let_def await_delay_def handleMigrationError_def
        createMigrationError_def split: if_splits option.splits)
  show "\<exists>evs. emitted eng' = emitted eng @ evs
           \<and> (\<forall>e\<in>set evs. event_status e = status job
                 \<and> event_percentage e = overall_percentage (progress job))"
    using facts by (auto simp: catch_block_def Let_def await_delay_def handleMigrationError_def
        createMigrationError_def emit_def split: if_splits option.splits)
qed

section \<open>Strategy selection\<close>

lemma applicable_graceful:
  "error_code e = ''OPTIONAL_COMPONENT_ERROR'' \<or> error_code e = ''FEATURE_NOT_SUPPORTED'' \<Longrightarrow>
   findApplicableStrategies e = [last initializeDefaultStrategies]"
  by (auto simp: findApplicableStrategies_def initializeDefaultStrategies_def)

lemma applicable_timeout:
  "error_code e = ''CONNECTION_TIMEOUT'' \<Longrightarrow>
   findApplicableStrategies e = [initializeDefaultStrategies ! 0]"
  by (auto simp: findApplicableStrategies_def initializeDefaultStrategies_def)

lemma applicable_none:
  "error_code e = ''RESOURCE_NOT_FOUND'' \<or> error_code e = ''UNKNOWN_ERROR'' \<Longrightarrow>
   findApplicableStrategies e = []"
  by (auto simp: findApplicableStrategies_def initializeDefaultStrategies_def)

text \<open>
  Claim C3 (what the code does). For a fault whose code is OPTIONAL_COMPONENT_ERROR or
  FEATURE_NOT_SUPPORTED the only applicable strategy is graceful degradation, whose
  \<^verbatim>\<open>maxRetries\<close> is 0. The attempt number of a recovery context is at least 1, so the
  loop of \<^verbatim>\<open>handleError\<close> skips the strategy: whatever the state of the engine, no
  strategy is executed and the decision is manual intervention, never skip.
\<close>

theorem graceful_degradation_is_never_executed:
  "fst (handleError env job (e\<lparr>error_code := ''OPTIONAL_COMPONENT_ERROR''\<rparr>) ph eng)
     = all_failed_result
   \<and> fst (handleError env job (e\<lparr>error_code := ''FEATURE_NOT_SUPPORTED''\<rparr>) ph eng)
     = all_failed_result
   \<and> action all_failed_result = manual_intervention
   \<and> attempts_executed (recovery_emitted
        (snd (handleError env job (e\<lparr>error_code := ''OPTIONAL_COMPONENT_ERROR''\<rparr>) ph eng)))
      = attempts_executed (recovery_emitted eng)
   \<and> attempts_executed (recovery_emitted
        (snd (handleError env job (e\<lparr>error_code := ''FEATURE_NOT_SUPPORTED''\<rparr>) ph eng)))
      = attempts_executed (recovery_emitted eng)"
  by (simp add: handleError_def applicable_graceful initializeDefaultStrategies_def Let_def
        all_failed_result_def attempts_executed_emitR split: option.splits)

lemma handleError_unhandled:
  assumes "error_code e = ''RESOURCE_NOT_FOUND'' \<or> error_code e = ''UNKNOWN_ERROR''"
  shows "handleError env job e ph eng = (no_strategy_result, emitR (RecoveryStarted job) eng)"
  by (simp add: handleError_def applicable_none[OF assms] Let_def)

text \<open>
  Claim C10. The classifier returns one of six codes, and UNKNOWN_ERROR exactly when the
  thrown value is not an \<^verbatim>\<open>Error\<close> or its message has none of the five keywords. No
  registered strategy lists RESOURCE_NOT_FOUND or UNKNOWN_ERROR, and for a fault with
  one of these codes \<^verbatim>\<open>handleError\<close> returns the manual-intervention decision after
  the start event only: no strategy is executed and no recovery context is created.
\<close>

theorem classifier_codes_and_unhandled_codes:
  "determineErrorCode error \<in> set [''CONNECTION_TIMEOUT'', ''PERMISSION_DENIED'',
       ''RESOURCE_CONFLICT'', ''RESOURCE_NOT_FOUND'', ''NETWORK_ERROR'', ''UNKNOWN_ERROR'']
   \<and> (determineErrorCode error = ''UNKNOWN_ERROR'' \<longleftrightarrow>
        (case error of
           NonError \<Rightarrow> True
         | Error msg \<Rightarrow> \<not> list_ex (js_includes msg)
             [''timeout'', ''permission'', ''conflict'', ''not found'', ''network'']))
   \<and> (\<forall>s\<in>set initializeDefaultStrategies.
         ''RESOURCE_NOT_FOUND'' \<notin> set (applicableErrors s)
         \<and> ''UNKNOWN_ERROR'' \<notin> set (applicableErrors s))
   \<and> (error_code e = ''RESOURCE_NOT_FOUND'' \<or> error_code e = ''UNKNOWN_ERROR'' \<longrightarrow>
         handleError env job e ph eng = (no_strategy_result, emitR (RecoveryStarted job) eng)
         \<and> action no_strategy_result = manual_intervention
         \<and> requiresManualIntervention no_strategy_result
         \<and> attempts_executed (recovery_emitted (snd (handleError env job e ph eng)))
             = attempts_executed (recovery_emitted eng))"
proof (intro conjI impI)
  show "determineErrorCode error \<in> set [''CONNECTION_TIMEOUT'', ''PERMISSION_DENIED'',
       ''RESOURCE_CONFLICT'', ''RESOURCE_NOT_FOUND'', ''NETWORK_ERROR'', ''UNKNOWN_ERROR'']"
    by (cases error) (simp_all add: determineErrorCode_def)
  show "determineErrorCode error = ''UNKNOWN_ERROR'' \<longleftrightarrow>
        (case error of
           NonError \<Rightarrow> True
         | Error msg \<Rightarrow> \<not> list_ex (js_includes msg)
             [''timeout'', ''permission'', ''conflict'', ''not found'', ''network''])"
    by (cases error) (simp_all add: determineErrorCode_def)
  show "\<forall>s\<in>set initializeDefaultStrategies.
         ''RESOURCE_NOT_FOUND'' \<notin> set (applicableErrors s)
         \<and> ''UNKNOWN_ERROR'' \<notin> set (applicableErrors s)"
    by (simp add: initializeDefaultStrategies_def)
next
  assume c: "error_code e = ''RESOURCE_NOT_FOUND'' \<or> error_code e = ''UNKNOWN_ERROR''"
  note h = handleError_unhandled[OF c, of env job ph eng]
  show "handleError env job e ph eng = (no_strategy_result, emitR (RecoveryStarted job) eng)"
    by (rule h)
  show "action no_strategy_result = manual_intervention"
    by (simp add: no_strategy_result_def)
  show "requiresManualIntervention no_strategy_result"
    by (simp add: no_strategy_result_def)
  show "attempts_executed (recovery_emitted (snd (handleError env job e ph eng)))
             = attempts_executed (recovery_emitted eng)"
    by (simp add: h attempts_executed_emitR)
qed

theorem classifier_codes_and_unhandled_codes_witness:
  "determineErrorCode (Error ''disk quota exceeded'') = ''UNKNOWN_ERROR''
   \<and> determineErrorCode (Error ''bucket not found'') = ''RESOURCE_NOT_FOUND''
   \<and> handleError (recovery calm) ''job-1''
        (fst (createMigrationError (Error ''bucket not found'') storage_migration 0
               new_MigrationEngine)) storage_migration new_ErrorRecoveryEngine
      = (no_strategy_result, emitR (RecoveryStarted ''job-1'') new_ErrorRecoveryEngine)
   \<and> action no_strategy_result = manual_intervention"
proof -
  have u: "determineErrorCode (Error ''disk quota exceeded'') = ''UNKNOWN_ERROR''"
    by (simp add: determineErrorCode_def)
  have n: "determineErrorCode (Error ''bucket not found'') = ''RESOURCE_NOT_FOUND''"
    by (simp add: determineErrorCode_def)
  let ?e = "fst (createMigrationError (Error ''bucket not found'') storage_migration 0
               new_MigrationEngine)"
  have c: "error_code ?e = ''RESOURCE_NOT_FOUND'' \<or> error_code ?e = ''UNKNOWN_ERROR''"
    using n by simp
  from classifier_codes_and_unhandled_codes
         [of "Error ''bucket not found''" ?e "recovery calm" "''job-1''" storage_migration
             new_ErrorRecoveryEngine] c
  have "handleError (recovery calm) ''job-1'' ?e storage_migration new_ErrorRecoveryEngine
          = (no_strategy_result, emitR (RecoveryStarted ''job-1'') new_ErrorRecoveryEngine)
        \<and> action no_strategy_result = manual_intervention"
    by blast
  with u n show ?thesis by blast
qed

lemma handleError_timeout:
  assumes "error_code e = ''CONNECTION_TIMEOUT''" "activeRecoveries eng job = None"
  shows "fst (handleError env job e ph eng) = 
          \<lparr>success = True, action = retry, result_message = ''Retrying after connection error'',
            delayBeforeRetry = Some 1000, rollbackToPhase = None, requiresManualIntervention = False\<rparr>
         \<and> activeRecoveries (snd (handleError env job e ph eng)) job = None"
  using assms(2)
  by (simp add: handleError_def applicable_timeout[OF assms(1)] initializeDefaultStrategies_def
        Let_def run_strategy_def emitR_def executeConnectionRetry_def connection_retry_strategy_def
        calculateBackoffDelay_def split: option.splits)

section \<open>Faults that need manual intervention\<close>

lemma loop_body_log:
  assumes "loop_body r a ph k job eng = (out, job', eng')"
  shows "\<exists>new. error_log job' = error_log job @ new
           \<and> ((\<forall>x. out \<noteq> Some (Inl x)) \<longrightarrow> (\<forall>e\<in>set new. error_code e \<noteq> ''PERMISSION_DENIED''))"
proof (cases "raised r")
  case None
  with assms show ?thesis
    by (auto simp: loop_body_def Let_def split_beta)
next
  case (Some error)
  let ?job1 = "updatePhaseStatus job ph ph_running"
  let ?eng1 = "emit (PhaseStarted ph) ?job1 eng"
  let ?job2 = "fst (run_executor r (cancel_served a) ?job1 ?eng1)"
  let ?eng2 = "snd (run_executor r (cancel_served a) ?job1 ?eng1)"
  from assms Some have cb: "catch_block error a ph k ?job2 ?eng2 = (out, job', eng')"
    by (simp add: loop_body_def Let_def split_beta)
  have log: "error_log job' = error_log job @ [fst (createMigrationError error ph (settled_at a) ?eng2)]"
    using catch_block_frame(4)[OF cb] by simp
  have "determineErrorCode error \<noteq> ''PERMISSION_DENIED''" if "\<forall>x. out \<noteq> Some (Inl x)"
  proof
    assume "determineErrorCode error = ''PERMISSION_DENIED''"
    from catch_block_permission[OF this, of a ph k ?job2 ?eng2] cb that
    show False by auto
  qed
  with log show ?thesis by simp
qed

lemma executePhase_loop_log:
  "\<exists>new. error_log (fst (snd (executePhase_loop executor aenv ph k job eng))) = error_log job @ new
      \<and> (fst (executePhase_loop executor aenv ph k job eng) = Inr ()
           \<longrightarrow> (\<forall>e\<in>set new. error_code e \<noteq> ''PERMISSION_DENIED''))"
proof -
  let ?I = "\<lambda>(k::nat) j (e::MigrationEngine). \<exists>new. error_log j = error_log job @ new
              \<and> (\<forall>e\<in>set new. error_code e \<noteq> ''PERMISSION_DENIED'')"
  let ?Q = "\<lambda>r j (e::MigrationEngine). \<exists>new. error_log j = error_log job @ new
              \<and> (r = Inr () \<longrightarrow> (\<forall>e\<in>set new. error_code e \<noteq> ''PERMISSION_DENIED''))"
  have "?Q (fst (executePhase_loop executor aenv ph k job eng))
           (fst (snd (executePhase_loop executor aenv ph k job eng)))
           (snd (snd (executePhase_loop executor aenv ph k job eng)))"
  proof (rule executePhase_loop_rule[where I = ?I and Q = ?Q])
    fix k j e j' e'
    assume "?I k j e" and lb: "loop_body (executor k) (aenv k) ph k j e = (None, j', e')"
    then obtain new where n: "error_log j = error_log job @ new"
      "\<forall>e\<in>set new. error_code e \<noteq> ''PERMISSION_DENIED''" by blast
    from loop_body_log[OF lb] obtain new' where
      "error_log j' = error_log j @ new'" "\<forall>e\<in>set new'. error_code e \<noteq> ''PERMISSION_DENIED''"
      by auto
    with n show "?I (k + 1) j' e'"
      by (intro exI[of _ "new @ new'"]) auto
  next
    fix k j e r j' e'
    assume "?I k j e" and lb: "loop_body (executor k) (aenv k) ph k j e = (Some r, j', e')"
    then obtain new where n: "error_log j = error_log job @ new"
      "\<forall>e\<in>set new. error_code e \<noteq> ''PERMISSION_DENIED''" by blast
    from loop_body_log[OF lb] obtain new' where
      "error_log j' = error_log j @ new'"
      "r = Inr () \<longrightarrow> (\<forall>e\<in>set new'. error_code e \<noteq> ''PERMISSION_DENIED'')"
      by auto
    with n show "?Q r j' e'"
      by (intro exI[of _ "new @ new'"]) auto
  next
    fix k j e assume "?I k j e"
    then show "?Q (Inr ()) j e" by blast
  next
    show "?I k job eng" by simp
  qed
  then show ?thesis .
qed

lemma executePhase_log:
  "\<exists>new. error_log (fst (snd (executePhase penv executor ph job eng))) = error_log job @ new
      \<and> (fst (executePhase penv executor ph job eng) = Inr ()
           \<longrightarrow> (\<forall>e\<in>set new. error_code e \<noteq> ''PERMISSION_DENIED''))"
  by (simp add: executePhase_def split_beta executePhase_loop_log)

lemma run_phases_log:
  "\<exists>new. error_log (fst (snd (run_phases env options plan job eng))) = error_log job @ new
      \<and> (fst (run_phases env options plan job eng) = Inr ()
           \<longrightarrow> (\<forall>e\<in>set new. error_code e \<noteq> ''PERMISSION_DENIED''))"
proof (induction plan arbitrary: job eng)
  case Nil
  then show ?case by simp
next
  case (Cons ph rest)
  let ?ex = "executePhase (env ph) (\<lambda>k. phase_executor options ph (world (env ph) k)) ph job eng"
  obtain r job1 eng1 where ex: "?ex = (r, job1, eng1)" by (cases ?ex)
  from executePhase_log[of "env ph" "\<lambda>k. phase_executor options ph (world (env ph) k)" ph job eng] ex
  obtain new where n: "error_log job1 = error_log job @ new"
    "r = Inr () \<longrightarrow> (\<forall>e\<in>set new. error_code e \<noteq> ''PERMISSION_DENIED'')" by auto
  show ?case
  proof (cases r)
    case (Inl e)
    with ex n show ?thesis by simp
  next
    case (Inr u)
    from Cons.IH[of job1 eng1] obtain new' where
      n': "error_log (fst (snd (run_phases env options rest job1 eng1))) = error_log job1 @ new'"
      "fst (run_phases env options rest job1 eng1) = Inr ()
           \<longrightarrow> (\<forall>e\<in>set new'. error_code e \<noteq> ''PERMISSION_DENIED'')" by blast
    with ex n Inr show ?thesis
      by (intro exI[of _ "new @ new'"]) auto
  qed
qed

lemma executeMigration_status:
  "status (fst (snd (executeMigration env options job eng)))
     = (case fst (executeMigration env options job eng) of Inr u \<Rightarrow> completed | Inl e \<Rightarrow> failed)"
  by (simp add: executeMigration_def Let_def split_beta split: prod.splits sum.splits)

lemma executeMigration_log:
  "\<exists>new. error_log (fst (snd (executeMigration env options job eng))) = error_log job @ new
      \<and> (fst (executeMigration env options job eng) = Inr ()
           \<longrightarrow> (\<forall>e\<in>set new. error_code e \<noteq> ''PERMISSION_DENIED''))"
proof -
  let ?job1 = "job\<lparr>status := running\<rparr>"
  let ?eng1 = "emit MigrationStarted ?job1 eng"
  from run_phases_log[of env options "phase_plan options" ?job1 ?eng1]
  show ?thesis
    by (auto simp: executeMigration_def Let_def split_beta split: prod.splits sum.splits)
qed

lemma loop_body_permission:
  assumes "raised r = Some error" and "determineErrorCode error = ''PERMISSION_DENIED''"
  shows "\<exists>e job' eng'. loop_body r a ph k job eng = (Some (Inl e), job', eng')
           \<and> attempts_executed (recovery_emitted (recoveryEngine eng'))
               \<le> attempts_executed (recovery_emitted (recoveryEngine eng)) + 1
           \<and> (\<exists>f. error_log job' = error_log job @ [f] \<and> error_code f = ''PERMISSION_DENIED'')"
proof -
  let ?job1 = "updatePhaseStatus job ph ph_running"
  let ?eng1 = "emit (PhaseStarted ph) ?job1 eng"
  let ?job2 = "fst (run_executor r (cancel_served a) ?job1 ?eng1)"
  let ?eng2 = "snd (run_executor r (cancel_served a) ?job1 ?eng1)"
  have lb: "loop_body r a ph k job eng = catch_block error a ph k ?job2 ?eng2"
    using assms(1) by (simp add: loop_body_def Let_def split_beta)
  from catch_block_permission[OF assms(2), of a ph k ?job2 ?eng2]
  obtain e job' eng' where cb: "catch_block error a ph k ?job2 ?eng2 = (Some (Inl e), job', eng')"
    and att: "attempts_executed (recovery_emitted (recoveryEngine eng'))
               \<le> attempts_executed (recovery_emitted (recoveryEngine ?eng2)) + 1"
    and log: "error_log job' = error_log ?job2
               @ [fst (createMigrationError error ph (settled_at a) ?eng2)]"
    by blast
  have "error_code (fst (createMigrationError error ph (settled_at a) ?eng2)) = ''PERMISSION_DENIED''"
    using assms(2) by simp
  with lb cb att log show ?thesis by simp
qed

lemma executePhase_loop_permission:
  assumes "k \<le> 3" and "raised (executor k) = Some error"
      and "determineErrorCode error = ''PERMISSION_DENIED''"
  shows "\<exists>e job' eng'. executePhase_loop executor aenv ph k job eng = (Inl e, job', eng')
           \<and> attempts_executed (recovery_emitted (recoveryEngine eng'))
               \<le> attempts_executed (recovery_emitted (recoveryEngine eng)) + 1
           \<and> (\<exists>f. error_log job' = error_log job @ [f] \<and> error_code f = ''PERMISSION_DENIED'')"
proof -
  from loop_body_permission[OF assms(2,3), of "aenv k" ph k job eng]
  obtain e job' eng' where
    "loop_body (executor k) (aenv k) ph k job eng = (Some (Inl e), job', eng')"
    "attempts_executed (recovery_emitted (recoveryEngine eng'))
               \<le> attempts_executed (recovery_emitted (recoveryEngine eng)) + 1"
    "\<exists>f. error_log job' = error_log job @ [f] \<and> error_code f = ''PERMISSION_DENIED''"
    by blast
  with assms(1) show ?thesis
    by (subst executePhase_loop.simps) simp
qed

lemma first_fault_denied:
  assumes "raised (phase_executor options preparation (world (env preparation) 0)) = Some error"
      and "determineErrorCode error = ''PERMISSION_DENIED''"
  shows "\<exists>f\<in>set (new_faults job (fst (snd (executeMigration env options job eng)))).
           error_code f = ''PERMISSION_DENIED''"
proof -
  let ?job1 = "job\<lparr>status := running\<rparr>"
  let ?eng1 = "emit MigrationStarted ?job1 eng"
  let ?eng1' = "?eng1\<lparr>recoveryEngine := snd (createCheckpoint (checkpointId (env preparation))
                   (started (env preparation)) (job_id ?job1) preparation (progress ?job1)
                   (recoveryEngine ?eng1))\<rparr>"
  obtain rest where plan: "phase_plan options = preparation # rest"
    by (simp add: phase_plan_def)
  from executePhase_loop_permission[of 0 "\<lambda>k. phase_executor options preparation (world (env preparation) k)"
         error "attempt_env (env preparation)" preparation ?job1 ?eng1'] assms
  obtain e job' eng' f where
    lp: "executePhase_loop (\<lambda>k. phase_executor options preparation (world (env preparation) k))
           (attempt_env (env preparation)) preparation 0 ?job1 ?eng1' = (Inl e, job', eng')"
    and log: "error_log job' = error_log job @ [f]" "error_code f = ''PERMISSION_DENIED''"
    by auto
  have "executePhase (env preparation) (\<lambda>k. phase_executor options preparation (world (env preparation) k))
          preparation ?job1 ?eng1 = (Inl e, job', eng')"
    using lp by (simp add: executePhase_def split_beta)
  then have "error_log (fst (snd (executeMigration env options job eng))) = error_log job @ [f]"
    using log by (simp add: executeMigration_def plan Let_def)
  then show ?thesis
    using log by (simp add: new_faults_def)
qed

text \<open>
  Claim C4. For a fault that the classifier codes PERMISSION_DENIED, the decision of
  \<^verbatim>\<open>handleError\<close> is manual intervention, whatever the state of the recovery engine, and
  at most one strategy is executed for it. A call of a phase executor that throws such a
  fault ends the phase runner by a throw, with at most one strategy executed. A run of
  \<^verbatim>\<open>executeMigration\<close> that logged such a fault leaves the job failed.
\<close>

theorem permission_denied_needs_manual_intervention:
  assumes "determineErrorCode error = ''PERMISSION_DENIED''"
  shows "action (fst (handleError renv jid (fst (createMigrationError error ph now eng0)) ph reng))
           = manual_intervention
       \<and> attempts_executed (recovery_emitted
            (snd (handleError renv jid (fst (createMigrationError error ph now eng0)) ph reng)))
           \<le> attempts_executed (recovery_emitted reng) + 1
       \<and> (k \<le> 3 \<and> raised (executor k) = Some error \<longrightarrow>
            (\<exists>e. fst (executePhase_loop executor aenv ph k job eng) = Inl e)
          \<and> attempts_executed (recovery_emitted (recoveryEngine
                (snd (snd (executePhase_loop executor aenv ph k job eng)))))
              \<le> attempts_executed (recovery_emitted (recoveryEngine eng)) + 1)
       \<and> ((\<exists>f\<in>set (new_faults job (fst (snd (executeMigration env options job eng)))).
              error_code f = ''PERMISSION_DENIED'')
            \<longrightarrow> status (fst (snd (executeMigration env options job eng))) = failed)"
proof (intro conjI impI)
  have code: "error_code (fst (createMigrationError error ph now eng0)) = ''PERMISSION_DENIED''"
    using assms by simp
  note h = handleError_permission[OF code, of renv jid ph reng]
  from h show "action (fst (handleError renv jid (fst (createMigrationError error ph now eng0)) ph reng))
           = manual_intervention" by blast
  from h show "attempts_executed (recovery_emitted
            (snd (handleError renv jid (fst (createMigrationError error ph now eng0)) ph reng)))
           \<le> attempts_executed (recovery_emitted reng) + 1" by blast
next
  assume a: "k \<le> 3 \<and> raised (executor k) = Some error"
  from executePhase_loop_permission[of k executor error aenv ph job eng] a assms
  obtain e job' eng' where
    r: "executePhase_loop executor aenv ph k job eng = (Inl e, job', eng')"
    and att: "attempts_executed (recovery_emitted (recoveryEngine eng'))
               \<le> attempts_executed (recovery_emitted (recoveryEngine eng)) + 1"
    by blast
  from r show "\<exists>e. fst (executePhase_loop executor aenv ph k job eng) = Inl e" by simp
  from r att show "attempts_executed (recovery_emitted (recoveryEngine
                (snd (snd (executePhase_loop executor aenv ph k job eng)))))
              \<le> attempts_executed (recovery_emitted (recoveryEngine eng)) + 1" by simp
next
  assume f: "\<exists>f\<in>set (new_faults job (fst (snd (executeMigration env options job eng)))).
              error_code f = ''PERMISSION_DENIED''"
  from executeMigration_log[of env options job eng] obtain new where
    n: "error_log (fst (snd (executeMigration env options job eng))) = error_log job @ new"
       "fst (executeMigration env options job eng) = Inr ()
           \<longrightarrow> (\<forall>e\<in>set new. error_code e \<noteq> ''PERMISSION_DENIED'')" by blast
  from n(1) have "new_faults job (fst (snd (executeMigration env options job eng))) = new"
    by (simp add: new_faults_def)
  with f n(2) have "fst (executeMigration env options job eng) \<noteq> Inr ()" by auto
  then show "status (fst (snd (executeMigration env options job eng))) = failed"
    by (cases "fst (executeMigration env options job eng)") (simp_all add: executeMigration_status)
qed

theorem permission_denied_needs_manual_intervention_witness:
  "determineErrorCode (Error ''Failed to create target project: permission denied'')
     = ''PERMISSION_DENIED''
   \<and> raised (prepareTargetProject denied)
       = Some (Error ''Failed to create target project: permission denied'')
   \<and> action (fst (handleError (recovery calm) ''job-1''
        (fst (createMigrationError (Error ''Failed to create target project: permission denied'')
               preparation 0 new_MigrationEngine)) preparation new_ErrorRecoveryEngine))
       = manual_intervention
   \<and> (\<exists>e. fst (executePhase_loop (\<lambda>k. prepareTargetProject denied) (\<lambda>k. calm) preparation 0
               job_1 new_MigrationEngine) = Inl e)
   \<and> (\<exists>f\<in>set (new_faults job_1
          (fst (snd (executeMigration denied_run full_clone_options job_1 new_MigrationEngine)))).
         error_code f = ''PERMISSION_DENIED'')
   \<and> status (fst (snd (executeMigration denied_run full_clone_options job_1 new_MigrationEngine)))
       = failed"
proof -
  let ?error = "Error ''Failed to create target project: permission denied''"
  have code: "determineErrorCode ?error = ''PERMISSION_DENIED''"
    by (simp add: determineErrorCode_def)
  have thrown: "raised (prepareTargetProject denied) = Some ?error"
    by (simp add: prepareTargetProject_def denied_def all_answer_def)
  have first: "raised (phase_executor full_clone_options preparation
                  (world (denied_run preparation) 0)) = Some ?error"
    using thrown by (simp add: denied_run_def)
  note logged = first_fault_denied[of full_clone_options denied_run ?error job_1 new_MigrationEngine, OF first code]
  note inst = permission_denied_needs_manual_intervention
                [OF code, of "recovery calm" "''job-1''" preparation 0 new_MigrationEngine
                   new_ErrorRecoveryEngine 0 "\<lambda>k. prepareTargetProject denied" "\<lambda>k. calm" job_1
                   new_MigrationEngine denied_run full_clone_options]
  from inst thrown logged code show ?thesis by simp
qed

section \<open>Retries after a connection timeout\<close>

lemma catch_block_timeout_retry:
  assumes "determineErrorCode error = ''CONNECTION_TIMEOUT''" and "k < 3"
      and "activeRecoveries (recoveryEngine eng) (job_id job) = None"
  shows "\<exists>job' eng'. catch_block error a ph k job eng = (None, job', eng')
           \<and> timers eng' = timers eng @ [1000]
           \<and> activeRecoveries (recoveryEngine eng') (job_id job') = None"
proof -
  obtain me eng1 where c: "createMigrationError error ph (settled_at a) eng = (me, eng1)"
    by (cases "createMigrationError error ph (settled_at a) eng")
  have code: "error_code me = ''CONNECTION_TIMEOUT''"
    using createMigrationError_fields(1)[of error ph "settled_at a" eng] c assms(1) by simp
  have eng1: "recoveryEngine eng1 = recoveryEngine eng" "timers eng1 = timers eng"
    using createMigrationError_fields(2,4)[of error ph "settled_at a" eng] c by simp_all
  obtain res rec' where h:
    "handleError (recovery a) (job_id job) me ph (recoveryEngine eng) = (res, rec')"
    by (cases "handleError (recovery a) (job_id job) me ph (recoveryEngine eng)")
  from handleError_timeout[OF code assms(3), of "recovery a" ph] h
  have res: "success res" "action res = retry" "delayBeforeRetry res = Some 1000"
    and rec': "activeRecoveries rec' (job_id job) = None"
    by simp_all
  show ?thesis
    using c eng1 h res rec' assms(2) by (simp add: catch_block_def Let_def await_delay_def)
qed

lemma catch_block_last:
  "\<exists>job' eng'. catch_block error a ph 3 job eng = (Some (Inl error), job', eng')
           \<and> timers eng' = timers eng"
  by (simp add: catch_block_def Let_def split_beta)

lemma loop_body_timeout_retry:
  assumes "raised r = Some error" and "determineErrorCode error = ''CONNECTION_TIMEOUT''"
      and "k < 3" and "activeRecoveries (recoveryEngine eng) (job_id job) = None"
  shows "\<exists>job' eng'. loop_body r a ph k job eng = (None, job', eng')
           \<and> timers eng' = timers eng @ [1000]
           \<and> activeRecoveries (recoveryEngine eng') (job_id job') = None"
proof -
  let ?job1 = "updatePhaseStatus job ph ph_running"
  let ?eng1 = "emit (PhaseStarted ph) ?job1 eng"
  let ?job2 = "fst (run_executor r (cancel_served a) ?job1 ?eng1)"
  let ?eng2 = "snd (run_executor r (cancel_served a) ?job1 ?eng1)"
  have lb: "loop_body r a ph k job eng = catch_block error a ph k ?job2 ?eng2"
    using assms(1) by (simp add: loop_body_def Let_def split_beta)
  have "activeRecoveries (recoveryEngine ?eng2) (job_id ?job2) = None"
    using assms(4) by simp
  from catch_block_timeout_retry[OF assms(2,3) this, of a ph] lb
  show ?thesis by simp
qed

lemma loop_body_last:
  assumes "raised r = Some error"
  shows "\<exists>job' eng'. loop_body r a ph 3 job eng = (Some (Inl error), job', eng')
           \<and> timers eng' = timers eng"
proof -
  let ?job1 = "updatePhaseStatus job ph ph_running"
  let ?eng1 = "emit (PhaseStarted ph) ?job1 eng"
  let ?job2 = "fst (run_executor r (cancel_served a) ?job1 ?eng1)"
  let ?eng2 = "snd (run_executor r (cancel_served a) ?job1 ?eng1)"
  have lb: "loop_body r a ph 3 job eng = catch_block error a ph 3 ?job2 ?eng2"
    using assms(1) by (simp add: loop_body_def Let_def split_beta)
  from catch_block_last[of error a ph ?job2 ?eng2] lb
  show ?thesis by simp
qed

lemma loop_body_fault_logged:
  assumes "raised r = Some error" and "loop_body r a ph k job eng = (out, job', eng')"
  shows "\<exists>f. error_log job' = error_log job @ [f] \<and> error_code f = determineErrorCode error
             \<and> message f = (case error of Error msg \<Rightarrow> msg | NonError \<Rightarrow> ''Unknown error'')"
proof -
  let ?job1 = "updatePhaseStatus job ph ph_running"
  let ?eng1 = "emit (PhaseStarted ph) ?job1 eng"
  let ?job2 = "fst (run_executor r (cancel_served a) ?job1 ?eng1)"
  let ?eng2 = "snd (run_executor r (cancel_served a) ?job1 ?eng1)"
  have cb: "catch_block error a ph k ?job2 ?eng2 = (out, job', eng')"
    using assms by (simp add: loop_body_def Let_def split_beta)
  from catch_block_frame(4)[OF cb] show ?thesis
    by (simp add: createMigrationError_def)
qed

lemma executePhase_loop_timeouts:
  assumes raised: "\<And>k. raised (executor k) = Some error"
      and code: "determineErrorCode error = ''CONNECTION_TIMEOUT''"
      and none: "activeRecoveries (recoveryEngine eng) (job_id job) = None"
  shows "fst (executePhase_loop executor aenv ph 0 job eng) = Inl error
       \<and> timers (snd (snd (executePhase_loop executor aenv ph 0 job eng)))
           = timers eng @ [1000, 1000, 1000]
       \<and> (\<exists>fs. error_log (fst (snd (executePhase_loop executor aenv ph 0 job eng)))
                  = error_log job @ fs
               \<and> map error_code fs = replicate 4 ''CONNECTION_TIMEOUT'')"
proof -
  let ?I = "\<lambda>k j e. k \<le> 3 \<and> timers e = timers eng @ replicate k 1000
              \<and> activeRecoveries (recoveryEngine e) (job_id j) = None
              \<and> (\<exists>fs. error_log j = error_log job @ fs
                    \<and> map error_code fs = replicate k ''CONNECTION_TIMEOUT'')"
  let ?Q = "\<lambda>r j e. r = Inl error \<and> timers e = timers eng @ [1000, 1000, 1000]
              \<and> (\<exists>fs. error_log j = error_log job @ fs
                    \<and> map error_code fs = replicate 4 ''CONNECTION_TIMEOUT'')"
  have "?Q (fst (executePhase_loop executor aenv ph 0 job eng))
           (fst (snd (executePhase_loop executor aenv ph 0 job eng)))
           (snd (snd (executePhase_loop executor aenv ph 0 job eng)))"
  proof (rule executePhase_loop_rule[where I = ?I and Q = ?Q])
    fix k j e j' e'
    assume I: "?I k j e" and lb: "loop_body (executor k) (aenv k) ph k j e = (None, j', e')"
    have k3: "k < 3"
    proof (rule ccontr)
      assume "\<not> k < 3"
      with I have "k = 3" by simp
      with loop_body_last[OF raised[of k], of "aenv k" ph j e] lb show False by simp
    qed
    from I have none': "activeRecoveries (recoveryEngine e) (job_id j) = None" by simp
    from loop_body_timeout_retry[OF raised[of k] code k3 none', of "aenv k" ph] lb
    have t: "timers e' = timers e @ [1000]"
      and a: "activeRecoveries (recoveryEngine e') (job_id j') = None" by simp_all
    from loop_body_fault_logged[OF raised[of k] lb] code obtain f where
      f: "error_log j' = error_log j @ [f]" "error_code f = ''CONNECTION_TIMEOUT''" by auto
    from I obtain fs where fs: "error_log j = error_log job @ fs"
      "map error_code fs = replicate k ''CONNECTION_TIMEOUT''" by blast
    have "error_log j' = error_log job @ (fs @ [f])
          \<and> map error_code (fs @ [f]) = replicate (k + 1) ''CONNECTION_TIMEOUT''"
      using f fs by (simp add: replicate_append_same)
    then have "\<exists>fs. error_log j' = error_log job @ fs
                 \<and> map error_code fs = replicate (k + 1) ''CONNECTION_TIMEOUT''" by blast
    with k3 t a I show "?I (k + 1) j' e'"
      by (simp add: replicate_append_same)
  next
    fix k j e r j' e'
    assume I: "?I k j e" and lb: "loop_body (executor k) (aenv k) ph k j e = (Some r, j', e')"
    have k3: "k = 3"
    proof (rule ccontr)
      assume "k \<noteq> 3"
      with I have "k < 3" by simp
      from I have "activeRecoveries (recoveryEngine e) (job_id j) = None" by simp
      from loop_body_timeout_retry[OF raised[of k] code \<open>k < 3\<close> this, of "aenv k" ph] lb
      show False by simp
    qed
    from loop_body_last[OF raised[of k], of "aenv k" ph j e] lb k3
    have r: "r = Inl error" and t: "timers e' = timers e" by simp_all
    from loop_body_fault_logged[OF raised[of k] lb] code obtain f where
      f: "error_log j' = error_log j @ [f]" "error_code f = ''CONNECTION_TIMEOUT''" by auto
    from I obtain fs where fs: "error_log j = error_log job @ fs"
      "map error_code fs = replicate k ''CONNECTION_TIMEOUT''" by blast
    have "error_log j' = error_log job @ (fs @ [f])
          \<and> map error_code (fs @ [f]) = replicate 4 ''CONNECTION_TIMEOUT''"
      using f fs k3 by (simp add: numeral_eq_Suc)
    then have "\<exists>fs. error_log j' = error_log job @ fs
                 \<and> map error_code fs = replicate 4 ''CONNECTION_TIMEOUT''" by blast
    with r t I k3 show "?Q r j' e'"
      by (simp add: numeral_eq_Suc)
  next
    fix k j e assume "\<not> k \<le> 3" and "?I k j e"
    then show "?Q (Inr ()) j e" by simp
  next
    show "?I 0 job eng" using none by simp
  qed
  then show ?thesis by blast
qed

text \<open>
  Claim C5 (what the code does). In the run in which the target project never reports
  healthy, every call of the preparation executor throws a fault that the classifier codes
  CONNECTION_TIMEOUT. The phase is retried three times, the job ends failed and the four
  faults are in its error log; but the delays awaited before the three retries are 1000,
  1000 and 1000 milliseconds: the recovery context is deleted each time the strategy
  answers, so the exponent of the backoff never grows.
\<close>

theorem connection_timeout_retries_wait_a_constant_delay:
  "determineErrorCode (Error ''Target project failed to become ready within timeout period'')
     = ''CONNECTION_TIMEOUT''
   \<and> fst (executeMigration timeout_run full_clone_options job_1 new_MigrationEngine)
       = Inl (Error ''Target project failed to become ready within timeout period'')
   \<and> timers (snd (snd (executeMigration timeout_run full_clone_options job_1 new_MigrationEngine)))
       = [1000, 1000, 1000]
   \<and> status (fst (snd (executeMigration timeout_run full_clone_options job_1 new_MigrationEngine)))
       = failed
   \<and> map error_code
         (error_log (fst (snd (executeMigration timeout_run full_clone_options job_1
                                 new_MigrationEngine))))
       = [''CONNECTION_TIMEOUT'', ''CONNECTION_TIMEOUT'', ''CONNECTION_TIMEOUT'',
          ''CONNECTION_TIMEOUT'']"
proof -
  let ?error = "Error ''Target project failed to become ready within timeout period''"
  let ?executor = "\<lambda>k. phase_executor full_clone_options preparation
                           (world (timeout_run preparation) k)"
  let ?job1 = "job_1\<lparr>status := running\<rparr>"
  let ?eng1 = "emit MigrationStarted ?job1 new_MigrationEngine"
  let ?eng1' = "?eng1\<lparr>recoveryEngine := snd (createCheckpoint (checkpointId (timeout_run preparation))
                   (started (timeout_run preparation)) (job_id ?job1) preparation (progress ?job1)
                   (recoveryEngine ?eng1))\<rparr>"
  let ?loop = "executePhase_loop ?executor (attempt_env (timeout_run preparation)) preparation 0
                 ?job1 ?eng1'"
  have code: "determineErrorCode ?error = ''CONNECTION_TIMEOUT''"
    by (simp add: determineErrorCode_def)
  have raised: "raised (?executor k) = Some ?error" for k
    by (simp add: timeout_run_def smooth_run_def prepareTargetProject_def
          waitForProjectReady_def never_healthy_def all_answer_def list_ex_iff)
  have none: "activeRecoveries (recoveryEngine ?eng1') (job_id ?job1) = None"
    by (simp add: createCheckpoint_def Let_def emitR_def new_MigrationEngine_def
          new_ErrorRecoveryEngine_def)
  have tm: "timers ?eng1' = []"
    by (simp add: new_MigrationEngine_def)
  have lg: "error_log ?job1 = []"
    by (simp add: job_1_def)
  from executePhase_loop_timeouts[of ?executor ?error ?eng1' ?job1
         "attempt_env (timeout_run preparation)" preparation, OF raised code none]
  obtain fs where l: "fst ?loop = Inl ?error"
    "timers (snd (snd ?loop)) = [1000, 1000, 1000]"
    "error_log (fst (snd ?loop)) = fs"
    "map error_code fs = replicate 4 ''CONNECTION_TIMEOUT''"
    unfolding tm lg by auto
  obtain rest where plan: "phase_plan full_clone_options = preparation # rest"
    by (simp add: phase_plan_def)
  obtain job' eng' where lp: "?loop = (Inl ?error, job', eng')"
    using l(1) by (cases ?loop) auto
  have ex: "executePhase (timeout_run preparation) ?executor preparation ?job1 ?eng1
          = (Inl ?error, job', eng')"
    using lp by (simp add: executePhase_def split_beta)
  have em: "executeMigration timeout_run full_clone_options job_1 new_MigrationEngine
          = (Inl ?error, job'\<lparr>status := failed\<rparr>, emit MigrationFailed (job'\<lparr>status := failed\<rparr>) eng')"
    using ex by (simp add: executeMigration_def plan Let_def)
  from l lp have "timers eng' = [1000, 1000, 1000]"
    "map error_code (error_log job') = replicate 4 ''CONNECTION_TIMEOUT''" by simp_all
  with code show ?thesis
    by (simp add: em numeral_eq_Suc)
qed

section \<open>Rejected submissions\<close>

lemma valid_full_clone: "fst (validateMigrationConfig (options_configuration full_clone_options))"
  by (simp add: validateMigrationConfig_def full_clone_options_def)

lemma valid_name: "isValidProjectName (targetProjectName full_clone_options)"
  by code_simp

lemma valid_org: "isValidOrganizationId (organizationId full_clone_options)"
  by code_simp

lemma five: "length (filter (\<lambda>job. status job = running
                             \<and> organization_id job = organizationId full_clone_options)
                (map snd (activeJobs five_running))) = 5"
  by (simp add: five_running_def job_1_def)

text \<open>
  Claim C6. \<^verbatim>\<open>startMigration\<close> returns an error and leaves the whole engine unchanged
  (no job is registered, no registered job is touched, nothing is emitted and no phase
  runs) when the configuration does not validate, as it does not with 25 parallel threads,
  and when the organization already has 5 (or more) running jobs; in the second case the
  error is the concurrency limit whenever the other checks pass.
\<close>

theorem startMigration_rejects_without_effect:
  "(\<not> fst (validateMigrationConfig (options_configuration options)) \<longrightarrow>
      startMigration options jobId eng
        = (Inl (Configuration_validation_failed
                  (snd (validateMigrationConfig (options_configuration options)))), eng)
      \<and> start_and_run env now options jobId eng = startMigration options jobId eng)
   \<and> (parallel_threads (options_configuration options) < 1
        \<or> parallel_threads (options_configuration options) > 20 \<longrightarrow>
      \<not> fst (validateMigrationConfig (options_configuration options)))
   \<and> (length (filter (\<lambda>job. status job = running
                              \<and> organization_id job = organizationId options)
                 (map snd (activeJobs eng))) \<ge> maxConcurrentMigrations \<longrightarrow>
      (\<exists>e. startMigration options jobId eng = (Inl e, eng))
      \<and> start_and_run env now options jobId eng = startMigration options jobId eng
      \<and> (fst (validateMigrationConfig (options_configuration options))
           \<and> isValidProjectName (targetProjectName options)
           \<and> isValidOrganizationId (organizationId options) \<longrightarrow>
         startMigration options jobId eng = (Inl Maximum_concurrent_migrations_reached, eng)))"
proof (intro conjI impI)
  assume "\<not> fst (validateMigrationConfig (options_configuration options))"
  then show inv: "startMigration options jobId eng
        = (Inl (Configuration_validation_failed
                  (snd (validateMigrationConfig (options_configuration options)))), eng)"
    by (simp add: startMigration_def Let_def)
  then show "start_and_run env now options jobId eng = startMigration options jobId eng"
    by (simp add: start_and_run_def)
next
  assume "parallel_threads (options_configuration options) < 1
        \<or> parallel_threads (options_configuration options) > 20"
  then show "\<not> fst (validateMigrationConfig (options_configuration options))"
    by (auto simp: validateMigrationConfig_def Let_def)
next
  assume full: "length (filter (\<lambda>job. status job = running
                              \<and> organization_id job = organizationId options)
                 (map snd (activeJobs eng))) \<ge> maxConcurrentMigrations"
  then show rej: "\<exists>e. startMigration options jobId eng = (Inl e, eng)"
    by (simp add: startMigration_def Let_def)
  then show "start_and_run env now options jobId eng = startMigration options jobId eng"
    by (auto simp: start_and_run_def)
  assume "fst (validateMigrationConfig (options_configuration options))
           \<and> isValidProjectName (targetProjectName options)
           \<and> isValidOrganizationId (organizationId options)"
  with full show "startMigration options jobId eng = (Inl Maximum_concurrent_migrations_reached, eng)"
    by (simp add: startMigration_def Let_def)
qed

theorem startMigration_rejects_without_effect_witness:
  "startMigration
      (full_clone_options\<lparr>options_configuration :=
         (options_configuration full_clone_options)\<lparr>parallel_threads := 25\<rparr>\<rparr>)
      ''job-2'' five_running
     = (Inl (Configuration_validation_failed [Invalid_parallel_threads]), five_running)
   \<and> length (filter (\<lambda>job. status job = running
                             \<and> organization_id job = organizationId full_clone_options)
                (map snd (activeJobs five_running))) \<ge> maxConcurrentMigrations
   \<and> startMigration full_clone_options ''job-2'' five_running
       = (Inl Maximum_concurrent_migrations_reached, five_running)
   \<and> start_and_run smooth_run 0 full_clone_options ''job-2'' five_running
       = (Inl Maximum_concurrent_migrations_reached, five_running)"
proof -
  let ?bad = "full_clone_options\<lparr>options_configuration :=
         (options_configuration full_clone_options)\<lparr>parallel_threads := 25\<rparr>\<rparr>"
  have threads: "parallel_threads (options_configuration ?bad) < 1
        \<or> parallel_threads (options_configuration ?bad) > 20" by simp
  have errs: "snd (validateMigrationConfig (options_configuration ?bad)) = [Invalid_parallel_threads]"
    by (simp add: validateMigrationConfig_def full_clone_options_def)
  from startMigration_rejects_without_effect[of ?bad "''job-2''" five_running smooth_run 0] threads
  have a: "startMigration ?bad ''job-2'' five_running
     = (Inl (Configuration_validation_failed [Invalid_parallel_threads]), five_running)"
    unfolding errs by blast
  have full: "length (filter (\<lambda>job. status job = running
                             \<and> organization_id job = organizationId full_clone_options)
                (map snd (activeJobs five_running))) \<ge> maxConcurrentMigrations"
    unfolding five maxConcurrentMigrations_def by simp
  from startMigration_rejects_without_effect
         [of full_clone_options "''job-2''" five_running smooth_run 0]
       full valid_full_clone valid_name valid_org
  have b: "startMigration full_clone_options ''job-2'' five_running
       = (Inl Maximum_concurrent_migrations_reached, five_running)"
    and c: "start_and_run smooth_run 0 full_clone_options ''job-2'' five_running
       = startMigration full_clone_options ''job-2'' five_running"
    by blast+
  from a full b c show ?thesis by simp
qed

section \<open>Error patterns\<close>

lemma pattern_alerts_createAlert:
  "pattern_alerts key (createAlert now ty sev job err pat cnt mon)
     = pattern_alerts key mon
       @ (if ty = pattern_detected \<and> pat = Some key
          then [\<lparr>alert_type = ty, alert_severity = sev, alert_timestamp = now,
                 alert_jobId = job, alert_errorId = err, acknowledged = False,
                 resolvedAt = None, alert_patternId = pat, alert_count = cnt\<rparr>]
          else [])"
  by (simp add: pattern_alerts_def createAlert_def)

lemma errorPatterns_createAlert:
  "errorPatterns (createAlert now ty sev job err pat cnt mon) = errorPatterns mon"
  by (simp add: createAlert_def)

lemma checkForAlerts_patterns:
  "pattern_alerts key (checkForAlerts now e job mon) = pattern_alerts key mon"
  "errorPatterns (checkForAlerts now e job mon) = errorPatterns mon"
  by (simp_all add: checkForAlerts_def Let_def pattern_alerts_createAlert
        errorPatterns_createAlert)

text \<open>The pattern of a fault after the fault is counted.\<close>

lemma updateErrorPatterns_pattern:
  "errorPatterns (updateErrorPatterns now e mon) =
     (errorPatterns mon)(patternKey e \<mapsto>
        (case errorPatterns mon (patternKey e) of
           None \<Rightarrow> \<lparr>pattern_id = patternKey e, frequency = 1, lastOccurrence = timestamp e,
                     pattern_severity = severity e\<rparr>
         | Some p \<Rightarrow> p\<lparr>frequency := frequency p + 1, lastOccurrence := timestamp e\<rparr>))"
  by (simp add: updateErrorPatterns_def Let_def createAlert_def split: option.splits)

lemma updateErrorPatterns_alerts:
  "pattern_alerts key (updateErrorPatterns now e mon)
     = pattern_alerts key mon
       @ (case errorPatterns (updateErrorPatterns now e mon) (patternKey e) of
            None \<Rightarrow> []
          | Some p \<Rightarrow>
              if frequency p \<ge> 5 \<and> pattern_severity p = high \<and> pattern_id p = key
              then [\<lparr>alert_type = pattern_detected, alert_severity = high,
                     alert_timestamp = now, alert_jobId = None, alert_errorId = None,
                     acknowledged = False, resolvedAt = None,
                     alert_patternId = Some key, alert_count = Some (frequency p)\<rparr>]
              else [])"
  by (auto simp: updateErrorPatterns_def Let_def pattern_alerts_createAlert createAlert_def
      pattern_alerts_def split: option.splits)

lemma recordError_alerts:
  "pattern_alerts key (recordError now e job mon)
     = pattern_alerts key (updateErrorPatterns now e mon)"
  "errorPatterns (recordError now e job mon) = errorPatterns (updateErrorPatterns now e mon)"
proof -
  let ?mon = "mon\<lparr>errors := map_set (error_id e) e (errors mon)\<rparr>"
  have a: "pattern_alerts key (updateErrorPatterns now e ?mon)
           = pattern_alerts key (updateErrorPatterns now e mon)"
    by (simp add: updateErrorPatterns_def Let_def createAlert_def pattern_alerts_def
        split: option.splits)
  have b: "errorPatterns (updateErrorPatterns now e ?mon)
           = errorPatterns (updateErrorPatterns now e mon)"
    by (simp add: updateErrorPatterns_pattern)
  show "pattern_alerts key (recordError now e job mon)
     = pattern_alerts key (updateErrorPatterns now e mon)"
    by (simp add: recordError_def checkForAlerts_patterns a)
  show "errorPatterns (recordError now e job mon) = errorPatterns (updateErrorPatterns now e mon)"
    by (simp add: recordError_def checkForAlerts_patterns b)
qed

lemma record_all_counted:
  assumes "errorPatterns mon key = Some p" and "pattern_id p = key"
      and "pattern_severity p = high" and "\<forall>e\<in>set es. patternKey e = key"
  shows "length (pattern_alerts key (record_all now job es mon))
           = length (pattern_alerts key mon) + ((frequency p + length es - 4) - (frequency p - 4))
       \<and> (\<exists>p'. errorPatterns (record_all now job es mon) key = Some p'
              \<and> frequency p' = frequency p + length es)"
  using assms
proof (induction es arbitrary: mon p)
  case Nil
  then show ?case by (simp add: record_all_def)
next
  case (Cons e es)
  let ?mon1 = "recordError now e job mon"
  let ?p1 = "p\<lparr>frequency := frequency p + 1, lastOccurrence := timestamp e\<rparr>"
  have key: "patternKey e = key" using Cons.prems by simp
  have p1: "errorPatterns ?mon1 key = Some ?p1"
    using Cons.prems(1) key by (simp add: recordError_alerts updateErrorPatterns_pattern)
  have al: "length (pattern_alerts key ?mon1)
            = length (pattern_alerts key mon) + (if frequency p + 1 \<ge> 5 then 1 else 0)"
    using Cons.prems(1,2,3) key
    by (simp add: recordError_alerts updateErrorPatterns_alerts updateErrorPatterns_pattern)
  from Cons.IH[OF p1] Cons.prems
  have IH: "length (pattern_alerts key (record_all now job es ?mon1))
           = length (pattern_alerts key ?mon1) + ((frequency ?p1 + length es - 4) - (frequency ?p1 - 4))"
    "\<exists>p'. errorPatterns (record_all now job es ?mon1) key = Some p'
              \<and> frequency p' = frequency ?p1 + length es"
    by simp_all
  have unfold: "record_all now job (e # es) mon = record_all now job es ?mon1"
    by (simp add: record_all_def)
  show ?case
    unfolding unfold using IH al by (auto split: if_splits)
qed

lemma record_all_new_pattern:
  assumes "errorPatterns mon key = None" and "es \<noteq> []"
      and "\<forall>e\<in>set es. patternKey e = key" and "severity (hd es) = high"
  shows "length (pattern_alerts key (record_all now job es mon))
           = length (pattern_alerts key mon) + (length es - 4)"
proof -
  from assms(2) obtain e rest where es: "es = e # rest" by (cases es) auto
  let ?mon1 = "recordError now e job mon"
  let ?p = "\<lparr>pattern_id = key, frequency = 1, lastOccurrence = timestamp e,
             pattern_severity = high\<rparr>"
  have key: "patternKey e = key" and sev: "severity e = high"
    using assms(3,4) es by simp_all
  have p: "errorPatterns ?mon1 key = Some ?p"
    using assms(1) key sev by (simp add: recordError_alerts updateErrorPatterns_pattern)
  have al: "length (pattern_alerts key ?mon1) = length (pattern_alerts key mon)"
    using assms(1) key sev
    by (simp add: recordError_alerts updateErrorPatterns_alerts updateErrorPatterns_pattern)
  have rest: "\<forall>e\<in>set rest. patternKey e = key" using assms(3) es by simp
  from record_all_counted[OF p _ _ rest, of now job]
  have "length (pattern_alerts key (record_all now job rest ?mon1))
          = length (pattern_alerts key ?mon1) + ((1 + length rest - 4) - (1 - 4))"
    by simp
  moreover have "record_all now job es mon = record_all now job rest ?mon1"
    by (simp add: es record_all_def)
  ultimately show ?thesis using al es by simp
qed

lemma network_fault_key: "patternKey (network_fault k) = ''NETWORK_ERROR_data_migration''"
  by (simp add: patternKey_def network_fault_def)

text \<open>
  Claim C9 as stated fails: six high-severity faults with the same code and phase, recorded
  by a new monitoring system, leave two pattern-detected alerts for the pattern. The fifth
  occurrence raised the first one and the sixth a second one.
\<close>

theorem sixth_occurrence_raises_a_second_alert:
  "length (pattern_alerts ''NETWORK_ERROR_data_migration''
             (record_all 0 ''job-1'' (map network_fault [0, 1, 2, 3, 4])
                new_ErrorMonitoringSystem)) = 1
   \<and> length (pattern_alerts ''NETWORK_ERROR_data_migration''
             (record_all 0 ''job-1'' (map network_fault [0, 1, 2, 3, 4, 5])
                new_ErrorMonitoringSystem)) = 2"
proof -
  have none: "errorPatterns new_ErrorMonitoringSystem ''NETWORK_ERROR_data_migration'' = None"
    by (simp add: new_ErrorMonitoringSystem_def)
  have zero: "pattern_alerts ''NETWORK_ERROR_data_migration'' new_ErrorMonitoringSystem = []"
    by (simp add: pattern_alerts_def new_ErrorMonitoringSystem_def)
  have five: "length (pattern_alerts ''NETWORK_ERROR_data_migration''
             (record_all 0 ''job-1'' (map network_fault [0, 1, 2, 3, 4])
                new_ErrorMonitoringSystem)) = 1"
    by (subst record_all_new_pattern[OF none])
       (simp_all add: network_fault_key zero, simp add: network_fault_def)
  have six: "length (pattern_alerts ''NETWORK_ERROR_data_migration''
             (record_all 0 ''job-1'' (map network_fault [0, 1, 2, 3, 4, 5])
                new_ErrorMonitoringSystem)) = 2"
    by (subst record_all_new_pattern[OF none])
       (simp_all add: network_fault_key zero, simp add: network_fault_def)
  from five six show ?thesis by blast
qed

text \<open>
  Claim C9, amended. \<^verbatim>\<open>updateErrorPatterns\<close> raises one pattern-detected alert for
  every occurrence that leaves the frequency of the pattern at 5 or more while the
  severity of the pattern (that of the fault that created it) is high. So when the faults
  of a new pattern are recorded, the first of them of high severity, the fifth and every
  later occurrence raise one alert each: after \<open>n\<close> occurrences there are \<open>n - 4\<close>
  alerts for the pattern.
\<close>

theorem pattern_alert_for_every_occurrence_from_the_fifth:
  "pattern_alerts key (updateErrorPatterns now e mon)
     = pattern_alerts key mon
       @ (case errorPatterns (updateErrorPatterns now e mon) (patternKey e) of
            None \<Rightarrow> []
          | Some p \<Rightarrow>
              if frequency p \<ge> 5 \<and> pattern_severity p = high \<and> pattern_id p = key
              then [\<lparr>alert_type = pattern_detected, alert_severity = high,
                     alert_timestamp = now, alert_jobId = None, alert_errorId = None,
                     acknowledged = False, resolvedAt = None,
                     alert_patternId = Some key, alert_count = Some (frequency p)\<rparr>]
              else [])
   \<and> (errorPatterns mon key = None \<and> es \<noteq> [] \<and> (\<forall>e\<in>set es. patternKey e = key)
        \<and> severity (hd es) = high \<longrightarrow>
      length (pattern_alerts key (record_all now job es mon))
        = length (pattern_alerts key mon) + (length es - 4))"
  using updateErrorPatterns_alerts[of key now e mon] record_all_new_pattern[of mon key es now job]
  by blast

theorem pattern_alert_for_every_occurrence_from_the_fifth_witness:
  "errorPatterns new_ErrorMonitoringSystem ''NETWORK_ERROR_data_migration'' = None
   \<and> map patternKey (map network_fault [0, 1, 2, 3, 4, 5, 6])
       = replicate 7 ''NETWORK_ERROR_data_migration''
   \<and> severity (hd (map network_fault [0, 1, 2, 3, 4, 5, 6])) = high
   \<and> length (pattern_alerts ''NETWORK_ERROR_data_migration''
        (record_all 0 ''job-1'' (map network_fault [0, 1, 2, 3, 4, 5, 6])
           new_ErrorMonitoringSystem)) = 3"
proof -
  let ?es = "map network_fault [0, 1, 2, 3, 4, 5, 6]"
  have none: "errorPatterns new_ErrorMonitoringSystem ''NETWORK_ERROR_data_migration'' = None"
    by (simp add: new_ErrorMonitoringSystem_def)
  have keys: "\<forall>e\<in>set ?es. patternKey e = ''NETWORK_ERROR_data_migration''"
    by (simp add: network_fault_key)
  have sev: "severity (hd ?es) = high" by (simp add: network_fault_def)
  have zero: "pattern_alerts ''NETWORK_ERROR_data_migration'' new_ErrorMonitoringSystem = []"
    by (simp add: pattern_alerts_def new_ErrorMonitoringSystem_def)
  have ne: "?es \<noteq> []" by simp
  from pattern_alert_for_every_occurrence_from_the_fifth
         [of "''NETWORK_ERROR_data_migration''" 0 "network_fault 0" new_ErrorMonitoringSystem
             ?es "''job-1''"]
       none keys sev ne
  have "length (pattern_alerts ''NETWORK_ERROR_data_migration''
          (record_all 0 ''job-1'' ?es new_ErrorMonitoringSystem))
        = length (pattern_alerts ''NETWORK_ERROR_data_migration'' new_ErrorMonitoringSystem)
          + (length ?es - 4)"
    by blast
  then have "length (pattern_alerts ''NETWORK_ERROR_data_migration''
          (record_all 0 ''job-1'' ?es new_ErrorMonitoringSystem)) = 3"
    unfolding zero by simp
  moreover have "map patternKey ?es = replicate 7 ''NETWORK_ERROR_data_migration''"
    by (simp add: network_fault_key numeral_eq_Suc)
  ultimately show ?thesis using none sev by blast
qed

section \<open>The percentage over a run\<close>

lemma running_percentages_append [simp]:
  "running_percentages (xs @ ys) = running_percentages xs @ running_percentages ys"
  by (simp add: running_percentages_def)

lemma running_percentages_simps [simp]:
  "running_percentages [] = []"
  "running_percentages (e # es) =
     (if event_status e = running then event_percentage e # running_percentages es
      else running_percentages es)"
  by (simp_all add: running_percentages_def)

lemma obs_inv_snoc:
  assumes "obs_inv L st pct evs" and "event_status e = st" and "event_percentage e = pct"
  shows "obs_inv L st pct (evs @ [e])"
  using assms by (auto simp: obs_inv_def sorted_append)

lemma obs_inv_append:
  assumes "obs_inv L st pct evs"
      and "\<forall>e\<in>set new. event_status e = st \<and> event_percentage e = pct"
  shows "obs_inv L st pct (evs @ new)"
  using assms(2)
proof (induction new rule: rev_induct)
  case Nil
  then show ?case using assms(1) by simp
next
  case (snoc e new)
  then have "obs_inv L st pct (evs @ new)" by simp
  from obs_inv_snoc[OF this, of e] snoc.prems show ?case by simp
qed

lemma obs_inv_weaken: "obs_inv L st pct evs \<Longrightarrow> L \<le> L' \<Longrightarrow> obs_inv L' st pct evs"
  by (auto simp: obs_inv_def)

lemma obs_inv_raise:
  assumes "obs_inv L st pct evs" and "st = running \<longrightarrow> pct \<le> q \<and> q \<le> L'"
  shows "obs_inv L' st q evs"
  using assms by (fastforce simp: obs_inv_def)

lemma obs_inv_cancel:
  assumes "obs_inv L st pct evs"
  shows "obs_inv L' cancelled q evs"
  using assms by (auto simp: obs_inv_def)

lemma run_inv_emit:
  "run_inv n L job eng \<Longrightarrow> run_inv n L job (emit e job eng)"
  by (simp add: run_inv_def emit_def obs_inv_snoc)

lemma run_inv_phase_status [simp]:
  "run_inv n L (updatePhaseStatus job ph st) eng = run_inv n L job eng"
  by (simp add: run_inv_def)

lemma run_inv_weaken: "run_inv n L job eng \<Longrightarrow> L \<le> L' \<Longrightarrow> run_inv n L' job eng"
  by (auto simp: run_inv_def intro: obs_inv_weaken)

lemma run_inv_update:
  assumes "run_inv n L job eng"
      and "status job = running \<longrightarrow> overall_percentage (progress job) \<le> q \<and> q \<le> L'"
  shows "run_inv n L' (fst (updateProgress job q p eng)) (snd (updateProgress job q p eng))"
proof -
  from assms have "obs_inv L' (status job) q (drop n (emitted eng))"
    by (auto simp: run_inv_def intro: obs_inv_raise)
  then have "obs_inv L' (status job) q
               (drop n (emitted eng) @ [\<lparr>event = MigrationProgressed, event_job = job_id job,
                   event_status = status job, event_percentage = q\<rparr>])"
    by (rule obs_inv_snoc) simp_all
  with assms(1) show ?thesis
    by (simp add: run_inv_def updateProgress_def emit_def Let_def)
qed

lemma run_inv_cancel:
  assumes "run_inv n L job eng"
  shows "run_inv n L' (fst (snd (cancel_job job eng))) (snd (snd (cancel_job job eng)))"
proof -
  from assms have st: "status job = running \<or> status job = cancelled"
    and n: "n \<le> length (emitted eng)"
    and o: "obs_inv L (status job) (overall_percentage (progress job)) (drop n (emitted eng))"
    by (auto simp: run_inv_def obs_inv_def)
  have "obs_inv L' cancelled 0 (drop n (emitted eng))"
    by (rule obs_inv_cancel[OF o])
  then have "obs_inv L' cancelled 0
               (drop n (emitted eng) @
                 [\<lparr>event = MigrationProgressed, event_job = job_id job,
                    event_status = cancelled, event_percentage = 0\<rparr>,
                  \<lparr>event = MigrationCancelled, event_job = job_id job,
                    event_status = cancelled, event_percentage = 0\<rparr>])"
    by (rule obs_inv_append) simp
  with st n show ?thesis
    by (auto simp: run_inv_def cancel_job_def updateProgress_def emit_def Let_def)
qed

lemma run_inv_updates:
  assumes "run_inv n L job eng" and "sorted (map fst us)"
      and "\<forall>q\<in>set (map fst us). q \<le> L'" and "L \<le> L'"
      and "status job = running \<longrightarrow> (\<forall>q\<in>set (map fst us). overall_percentage (progress job) \<le> q)"
  shows "run_inv n L' (fst (run_updates us job eng)) (snd (run_updates us job eng))"
  using assms
proof (induction us arbitrary: job eng L)
  case Nil
  then show ?case by (simp add: run_inv_weaken)
next
  case (Cons u us)
  let ?job1 = "fst (updateProgress job (fst u) (Some (snd u)) eng)"
  let ?eng1 = "snd (updateProgress job (fst u) (Some (snd u)) eng)"
  have 1: "run_inv n L' ?job1 ?eng1"
    using Cons.prems by (intro run_inv_update[OF Cons.prems(1)]) auto
  have 2: "status ?job1 = running \<longrightarrow>
             (\<forall>q\<in>set (map fst us). overall_percentage (progress ?job1) \<le> q)"
    using Cons.prems(2) by auto
  from Cons.IH[OF 1 _ _ _ 2] Cons.prems(2,3)
  show ?case by (simp add: split_beta)
qed

lemma run_inv_executor:
  assumes "run_inv n L job eng" and "executor_in_band ph r" and "L \<le> band_start ph"
  shows "run_inv n (if raised r = None then band_end ph else band_start ph)
           (fst (run_executor r c job eng)) (snd (run_executor r c job eng))"
proof (cases "updates r")
  case Nil
  with assms have "raised r = None" by (auto simp: executor_in_band_def)
  moreover have "band_start ph \<le> band_end ph" by (cases ph) simp_all
  ultimately show ?thesis
    using assms Nil by (auto simp: run_executor_def intro: run_inv_weaken)
next
  case (Cons u us)
  let ?B = "if raised r = None then band_end ph else band_start ph"
  let ?job1 = "fst (updateProgress job (fst u) (Some (snd u)) eng)"
  let ?eng1 = "snd (updateProgress job (fst u) (Some (snd u)) eng)"
  let ?job2 = "if c then fst (snd (cancel_job ?job1 ?eng1)) else ?job1"
  let ?eng2 = "if c then snd (snd (cancel_job ?job1 ?eng1)) else ?eng1"
  have s: "sorted (fst u # map fst us)"
    and b: "\<forall>q\<in>set (fst u # map fst us). band_start ph \<le> q \<and> q \<le> band_end ph"
    and t: "raised r \<noteq> None \<longrightarrow> fst u = band_start ph \<and> us = []"
    using assms(2) Cons by (auto simp: executor_in_band_def)
  have bound: "\<forall>q\<in>set (fst u # map fst us). q \<le> ?B"
    using b t by auto
  have 1: "run_inv n ?B ?job1 ?eng1"
  proof (rule run_inv_update[OF assms(1)], intro impI conjI)
    assume "status job = running"
    with assms(1) have "overall_percentage (progress job) \<le> L"
      by (simp add: run_inv_def obs_inv_def)
    with assms(3) b show "overall_percentage (progress job) \<le> fst u" by auto
    show "fst u \<le> ?B" using bound by simp
  qed
  have 2: "run_inv n ?B ?job2 ?eng2"
    using 1 by (auto intro: run_inv_cancel)
  have 3: "status ?job2 = running \<longrightarrow>
             (\<forall>q\<in>set (map fst us). overall_percentage (progress ?job2) \<le> q)"
    using s by (auto simp: cancel_job_def split_beta Let_def)
  have 4: "run_inv n ?B (fst (run_updates us ?job2 ?eng2)) (snd (run_updates us ?job2 ?eng2))"
    by (rule run_inv_updates[OF 2 _ _ _ 3]) (use s bound in auto)
  have "run_executor r c job eng = run_updates us ?job2 ?eng2"
    using Cons by (cases c) (simp_all add: run_executor_def split_beta Let_def)
  with 4 show ?thesis by (simp only:)
qed

lemma run_inv_catch_block:
  assumes "run_inv n L job eng" and "catch_block error a ph k job eng = (out, job', eng')"
  shows "run_inv n L job' eng'"
proof -
  from catch_block_frame(6)[OF assms(2)] obtain evs where
    e: "emitted eng' = emitted eng @ evs"
       "\<forall>e\<in>set evs. event_status e = status job
           \<and> event_percentage e = overall_percentage (progress job)" by blast
  from assms(1) have n: "n \<le> length (emitted eng)"
    and o: "obs_inv L (status job) (overall_percentage (progress job)) (drop n (emitted eng))"
    by (simp_all add: run_inv_def)
  from obs_inv_append[OF o e(2)] n e(1)
  show ?thesis
    by (simp add: run_inv_def catch_block_frame(1,2)[OF assms(2)])
qed

lemma band_order: "band_start ph \<le> band_end ph"
  by (cases ph) simp_all

lemma run_inv_loop_body:
  assumes "run_inv n (band_start ph) job eng" and "executor_in_band ph r"
      and "loop_body r a ph k job eng = (out, job', eng')"
  shows "run_inv n (if out = None then band_start ph else band_end ph) job' eng'"
proof -
  let ?job1 = "updatePhaseStatus job ph ph_running"
  let ?eng1 = "emit (PhaseStarted ph) ?job1 eng"
  let ?job2 = "fst (run_executor r (cancel_served a) ?job1 ?eng1)"
  let ?eng2 = "snd (run_executor r (cancel_served a) ?job1 ?eng1)"
  have 1: "run_inv n (band_start ph) ?job1 ?eng1"
    using run_inv_emit[of n "band_start ph" ?job1 eng] assms(1) by simp
  note 2 = run_inv_executor[OF 1 assms(2) order_refl, of "cancel_served a"]
  show ?thesis
  proof (cases "raised r")
    case None
    let ?job3 = "updatePhaseStatus ?job2 ph ph_completed"
    from None 2 have "run_inv n (band_end ph) ?job3 ?eng2" by simp
    then have "run_inv n (band_end ph) ?job3 (emit (PhaseCompleted ph) ?job3 ?eng2)"
      by (rule run_inv_emit)
    moreover have "loop_body r a ph k job eng
                     = (Some (Inr ()), ?job3, emit (PhaseCompleted ph) ?job3 ?eng2)"
      using None by (simp add: loop_body_def Let_def split_beta)
    ultimately show ?thesis using assms(3) by auto
  next
    case (Some error)
    with 2 have 3: "run_inv n (band_start ph) ?job2 ?eng2" by simp
    have cb: "catch_block error a ph k ?job2 ?eng2 = (out, job', eng')"
      using assms(3) Some by (simp add: loop_body_def Let_def split_beta)
    from run_inv_catch_block[OF 3 cb]
    show ?thesis by (auto intro: run_inv_weaken band_order)
  qed
qed

lemma run_inv_executePhase_loop:
  assumes "run_inv n (band_start ph) job eng" and "\<And>k. executor_in_band ph (executor k)"
  shows "run_inv n (band_end ph)
           (fst (snd (executePhase_loop executor aenv ph k job eng)))
           (snd (snd (executePhase_loop executor aenv ph k job eng)))"
proof -
  let ?I = "\<lambda>(k::nat) j e. run_inv n (band_start ph) j e"
  let ?Q = "\<lambda>(r::thrown + unit) j e. run_inv n (band_end ph) j e"
  show ?thesis
  proof (rule executePhase_loop_rule[where I = ?I and Q = ?Q])
    fix k j e j' e'
    assume "?I k j e" and "loop_body (executor k) (aenv k) ph k j e = (None, j', e')"
    from run_inv_loop_body[OF this(1) assms(2) this(2)]
    show "?I (k + 1) j' e'" by simp
  next
    fix k j e r j' e'
    assume "?I k j e" and "loop_body (executor k) (aenv k) ph k j e = (Some r, j', e')"
    from run_inv_loop_body[OF this(1) assms(2) this(2)]
    show "?Q r j' e'" by simp
  next
    fix k j e assume "?I k j e"
    then show "?Q (Inr ()) j e" by (auto intro: run_inv_weaken band_order)
  next
    show "?I k job eng" by (rule assms(1))
  qed
qed

lemma run_inv_recoveryEngine [simp]:
  "run_inv n L job (eng\<lparr>recoveryEngine := r\<rparr>) = run_inv n L job eng"
  by (simp add: run_inv_def)

lemma run_inv_executePhase:
  assumes "run_inv n L job eng" and "L \<le> band_start ph"
      and "\<And>k. executor_in_band ph (executor k)"
  shows "run_inv n (band_end ph)
           (fst (snd (executePhase penv executor ph job eng)))
           (snd (snd (executePhase penv executor ph job eng)))"
  using run_inv_executePhase_loop[where aenv = "attempt_env penv" and k = 0 and executor = executor
          and ph = ph and n = n, OF _ assms(3)]
        run_inv_weaken[OF assms(1,2)]
  by (simp add: executePhase_def split_beta)

lemma sorted_map_upt:
  assumes "\<And>i j. i \<le> j \<Longrightarrow> j < n \<Longrightarrow> f i \<le> (f j :: rat)"
  shows "sorted (map f [0..<n])"
proof -
  have "sorted_wrt (\<lambda>i j. f i \<le> f j) [0..<n]"
    by (rule sorted_wrt_mono_rel[of _ "(<)"]) (use assms in \<open>auto\<close>)
  then show ?thesis by (simp add: sorted_map)
qed

lemma fraction_bounds:
  assumes "i < (n::nat)"
  shows "0 \<le> (of_nat (i + 1) / of_nat n :: rat)" and "(of_nat (i + 1) / of_nat n :: rat) \<le> 1"
  using assms by (simp_all add: field_simps)

lemma fraction_mono:
  assumes "i \<le> j" and "j < (n::nat)"
  shows "(of_nat (i + 1) / of_nat n :: rat) \<le> of_nat (j + 1) / of_nat n"
  using assms by (simp add: divide_right_mono)

lemma scaled_fraction:
  assumes "0 \<le> (x::rat)" and "x \<le> 1"
  shows "60 \<le> 60 + x * 10 \<and> 60 + x * 10 \<le> 70" and "75 \<le> 75 + x * 5 \<and> 75 + x * 5 \<le> 80"
  using assms by auto

lemma migrateStorage_in_band: "executor_in_band storage_migration (migrateStorage w)"
proof (cases "storageBuckets w")
  case None
  then show ?thesis by (simp add: migrateStorage_def executor_in_band_def)
next
  case (Some n)
  have s: "sorted (map (\<lambda>i. 60 + (of_nat (i + 1) / of_nat n :: rat) * 10) [0..<n])"
  proof (rule sorted_map_upt)
    fix i j assume "i \<le> j" "j < n"
    from fraction_mono[OF this]
    show "60 + (of_nat (i + 1) / of_nat n :: rat) * 10 \<le> 60 + of_nat (j + 1) / of_nat n * 10"
      by (intro add_left_mono mult_right_mono) simp_all
  qed
  have b: "60 \<le> 60 + (of_nat (i + 1) / of_nat n :: rat) * 10
           \<and> 60 + (of_nat (i + 1) / of_nat n :: rat) * 10 \<le> 70" if "i < n" for i
    by (rule scaled_fraction(1)[OF fraction_bounds[OF that]])
  from Some s b show ?thesis
    by (auto simp: migrateStorage_def executor_in_band_def comp_def)
qed

lemma migrateEdgeFunctions_in_band:
  "executor_in_band edge_functions_migration (migrateEdgeFunctions w)"
proof (cases "edgeFunctions w")
  case None
  then show ?thesis by (simp add: migrateEdgeFunctions_def executor_in_band_def)
next
  case (Some n)
  have s: "sorted (map (\<lambda>i. 75 + (of_nat (i + 1) / of_nat n :: rat) * 5) [0..<n])"
  proof (rule sorted_map_upt)
    fix i j assume "i \<le> j" "j < n"
    from fraction_mono[OF this]
    show "75 + (of_nat (i + 1) / of_nat n :: rat) * 5 \<le> 75 + of_nat (j + 1) / of_nat n * 5"
      by (intro add_left_mono mult_right_mono) simp_all
  qed
  have b: "75 \<le> 75 + (of_nat (i + 1) / of_nat n :: rat) * 5
           \<and> 75 + (of_nat (i + 1) / of_nat n :: rat) * 5 \<le> 80" if "i < n" for i
    by (rule scaled_fraction(2)[OF fraction_bounds[OF that]])
  from Some s b show ?thesis
    by (auto simp: migrateEdgeFunctions_def executor_in_band_def comp_def)
qed

lemma migrateData_in_band: "executor_in_band data_migration (migrateData options)"
proof -
  have s: "sorted (map (\<lambda>k. 35 + (of_nat (10 * k) :: rat) * (1 / 4)) [0..<11])"
    by (rule sorted_map_upt) simp
  have b: "35 \<le> 35 + (of_nat (10 * k) :: rat) * (1 / 4)
           \<and> 35 + (of_nat (10 * k) :: rat) * (1 / 4) \<le> 60" if "k < 11" for k
  proof -
    from that have "(of_nat k :: rat) \<le> 10" by simp
    then show ?thesis by simp
  qed
  from s b show ?thesis
    by (auto simp: migrateData_def executor_in_band_def comp_def)
qed

lemma phase_executor_in_band: "executor_in_band ph (phase_executor options ph w)"
proof (cases ph)
  case preparation
  then show ?thesis by (simp add: prepareTargetProject_def executor_in_band_def)
next
  case schema_migration
  then show ?thesis
    by (simp add: migrateSchema_def executor_in_band_def split: option.splits)
next
  case data_migration
  then show ?thesis by (simp add: migrateData_in_band)
next
  case storage_migration
  then show ?thesis by (simp add: migrateStorage_in_band)
next
  case configuration_migration
  then show ?thesis by (simp add: migrateConfiguration_def executor_in_band_def)
next
  case edge_functions_migration
  then show ?thesis by (simp add: migrateEdgeFunctions_in_band)
next
  case security_migration
  then show ?thesis by (simp add: migrateSecurity_def executor_in_band_def)
next
  case realtime_setup
  then show ?thesis by (simp add: setupRealtime_def executor_in_band_def)
next
  case validation
  then show ?thesis by (simp add: validateMigration_def executor_in_band_def)
next
  case cutover
  then show ?thesis by (simp add: performCutover_def executor_in_band_def)
qed

lemma phase_plan_in_order: "plan_in_order 5 (phase_plan options)"
  by (simp add: phase_plan_def)

lemma run_inv_run_phases:
  assumes "run_inv n L job eng" and "plan_in_order L plan"
  shows "\<exists>L'. run_inv n L' (fst (snd (run_phases env options plan job eng)))
                 (snd (snd (run_phases env options plan job eng)))"
  using assms
proof (induction plan arbitrary: L job eng)
  case Nil
  then show ?case by auto
next
  case (Cons ph rest)
  let ?ex = "executePhase (env ph) (\<lambda>k. phase_executor options ph (world (env ph) k)) ph job eng"
  obtain r job1 eng1 where ex: "?ex = (r, job1, eng1)" by (cases ?ex)
  from Cons.prems have L: "L \<le> band_start ph" and rest: "plan_in_order (band_end ph) rest"
    by simp_all
  from run_inv_executePhase[OF Cons.prems(1) L, of "\<lambda>k. phase_executor options ph (world (env ph) k)" "env ph"]
       phase_executor_in_band ex
  have 1: "run_inv n (band_end ph) job1 eng1" by simp
  show ?case
  proof (cases r)
    case (Inl e)
    with ex 1 show ?thesis by auto
  next
    case (Inr u)
    from Cons.IH[OF 1 rest] ex Inr show ?thesis by simp
  qed
qed

lemma executeMigration_percentages:
  assumes "overall_percentage (progress job) = 0"
  shows "sorted (running_percentages
                   (new_events eng (snd (snd (executeMigration env options job eng)))))
       \<and> (\<forall>e\<in>set (new_events eng (snd (snd (executeMigration env options job eng)))).
             event_status e = completed \<longrightarrow> event_percentage e = 100)
       \<and> (status (fst (snd (executeMigration env options job eng))) = completed \<longrightarrow>
             overall_percentage (progress (fst (snd (executeMigration env options job eng))))
               = 100)"
proof -
  let ?n = "length (emitted eng)"
  let ?job1 = "job\<lparr>status := running\<rparr>"
  let ?eng1 = "emit MigrationStarted ?job1 eng"
  have 1: "run_inv ?n 5 ?job1 ?eng1"
    using assms by (simp add: run_inv_def obs_inv_def emit_def)
  obtain r job2 eng2 where
    rp: "run_phases env options (phase_plan options) ?job1 ?eng1 = (r, job2, eng2)"
    by (cases "run_phases env options (phase_plan options) ?job1 ?eng1")
  from run_inv_run_phases[OF 1 phase_plan_in_order[of options], of env options] rp
  obtain L' where "run_inv ?n L' job2 eng2" by auto
  then have n: "?n \<le> length (emitted eng2)"
    and s: "sorted (running_percentages (drop ?n (emitted eng2)))"
    and c: "\<forall>e\<in>set (drop ?n (emitted eng2)). event_status e \<noteq> completed"
    by (simp_all add: run_inv_def obs_inv_def)
  show ?thesis
  proof (cases r)
    case (Inl error)
    let ?job3 = "job2\<lparr>status := failed\<rparr>"
    have em: "executeMigration env options job eng
                = (Inl error, ?job3, emit MigrationFailed ?job3 eng2)"
      using rp Inl by (simp add: executeMigration_def Let_def)
    have ne: "new_events eng (emit MigrationFailed ?job3 eng2)
               = drop ?n (emitted eng2)
                 @ [\<lparr>event = MigrationFailed, event_job = job_id job2, event_status = failed,
                      event_percentage = overall_percentage (progress job2)\<rparr>]"
      using n by (simp add: new_events_def emit_def)
    show ?thesis
      unfolding em fst_conv snd_conv ne using s c by simp
  next
    case (Inr u)
    let ?job3 = "job2\<lparr>status := completed\<rparr>"
    let ?job4 = "fst (updateProgress ?job3 100 None eng2)"
    let ?eng4 = "snd (updateProgress ?job3 100 None eng2)"
    let ?eng5 = "emit MigrationCompleted ?job4 ?eng4"
    let ?eng6 = "?eng5\<lparr>activeJobs := map_delete (job_id ?job4) (activeJobs ?eng5)\<rparr>"
    have em: "executeMigration env options job eng = (Inr (), ?job4, ?eng6)"
      using rp Inr by (simp add: executeMigration_def Let_def split_beta)
    have ne: "new_events eng ?eng6
               = drop ?n (emitted eng2)
                 @ [\<lparr>event = MigrationProgressed, event_job = job_id job2,
                      event_status = completed, event_percentage = 100\<rparr>,
                    \<lparr>event = MigrationCompleted, event_job = job_id job2,
                      event_status = completed, event_percentage = 100\<rparr>]"
      using n by (simp add: new_events_def emit_def updateProgress_def Let_def)
    have s4: "overall_percentage (progress ?job4) = 100" by simp
    show ?thesis
      unfolding em fst_conv snd_conv ne s4 using s c by auto
  qed
qed

section \<open>Runs without a fault, and cancellation\<close>

lemma run_updates_emitted:
  "emitted (snd (run_updates us job eng))
     = emitted eng @ map (\<lambda>u. progress_event (job_id job) (status job) (fst u)) us"
  by (induction us arbitrary: job eng)
     (simp_all add: split_beta updateProgress_def emit_def Let_def progress_event_def)

lemma run_executor_emitted:
  "\<exists>evs. emitted (snd (run_executor r c job eng)) = emitted eng @ evs
     \<and> (\<not> c \<longrightarrow> evs = map (\<lambda>u. progress_event (job_id job) (status job) (fst u)) (updates r))
     \<and> (c \<and> updates r \<noteq> [] \<and> status job \<noteq> completed \<and> status job \<noteq> failed
          \<longrightarrow> cancelled_event (job_id job) \<in> set evs)"
proof (cases "updates r")
  case Nil
  then show ?thesis by (simp add: run_executor_def)
next
  case (Cons u us)
  show ?thesis
  proof (cases c)
    case False
    with Cons show ?thesis
      by (simp add: run_executor_def split_beta run_updates_emitted updateProgress_def emit_def
            Let_def progress_event_def)
  next
    case True
    with Cons show ?thesis
      by (simp add: run_executor_def split_beta run_updates_emitted updateProgress_def emit_def
            Let_def cancel_job_def cancelled_event_def)
  qed
qed

lemma run_executor_status:
  "status (fst (run_executor r c job eng)) = status job
   \<or> status (fst (run_executor r c job eng)) = cancelled"
  "\<not> c \<Longrightarrow> status (fst (run_executor r c job eng)) = status job"
  by (auto simp: run_executor_def split_beta Let_def cancel_job_def split: list.splits)

lemma loop_body_success:
  assumes "raised r = None"
  shows "\<exists>job' eng' evs. loop_body r a ph k job eng = (Some (Inr ()), job', eng')
           \<and> job_id job' = job_id job
           \<and> (status job' = status job \<or> status job' = cancelled)
           \<and> emitted eng' = emitted eng @ evs
           \<and> PhaseCompleted ph \<in> event ` set evs
           \<and> (\<not> cancel_served a \<longrightarrow> status job' = status job
                 \<and> (\<forall>u\<in>set (updates r).
                       progress_event (job_id job) (status job) (fst u) \<in> set evs))
           \<and> (cancel_served a \<and> updates r \<noteq> [] \<and> status job \<noteq> completed
                 \<and> status job \<noteq> failed \<longrightarrow> cancelled_event (job_id job) \<in> set evs)"
proof -
  let ?job1 = "updatePhaseStatus job ph ph_running"
  let ?eng1 = "emit (PhaseStarted ph) ?job1 eng"
  let ?run = "run_executor r (cancel_served a) ?job1 ?eng1"
  let ?job3 = "updatePhaseStatus (fst ?run) ph ph_completed"
  let ?eng3 = "emit (PhaseCompleted ph) ?job3 (snd ?run)"
  have lb: "loop_body r a ph k job eng = (Some (Inr ()), ?job3, ?eng3)"
    using assms by (simp add: loop_body_def Let_def split_beta)
  from run_executor_emitted[of r "cancel_served a" ?job1 ?eng1] obtain evs where
    evs: "emitted (snd ?run) = emitted ?eng1 @ evs"
      "\<not> cancel_served a \<longrightarrow>
         evs = map (\<lambda>u. progress_event (job_id job) (status job) (fst u)) (updates r)"
      "cancel_served a \<and> updates r \<noteq> [] \<and> status job \<noteq> completed \<and> status job \<noteq> failed
          \<longrightarrow> cancelled_event (job_id job) \<in> set evs"
    by auto
  let ?all = "[\<lparr>event = PhaseStarted ph, event_job = job_id job, event_status = status job,
                 event_percentage = overall_percentage (progress job)\<rparr>] @ evs
              @ [\<lparr>event = PhaseCompleted ph, event_job = job_id ?job3,
                   event_status = status ?job3,
                   event_percentage = overall_percentage (progress ?job3)\<rparr>]"
  have em: "emitted ?eng3 = emitted eng @ ?all"
    using evs(1) by (simp add: emit_def)
  have st: "status ?job3 = status job \<or> status ?job3 = cancelled"
    using run_executor_status(1)[of r "cancel_served a" ?job1 ?eng1] by simp
  have st': "\<not> cancel_served a \<longrightarrow> status ?job3 = status job"
    using run_executor_status(2)[of "cancel_served a" r ?job1 ?eng1] by simp
  have pc: "PhaseCompleted ph \<in> event ` set ?all" by (simp add: image_iff)
  have up: "\<not> cancel_served a \<longrightarrow>
              (\<forall>u\<in>set (updates r). progress_event (job_id job) (status job) (fst u) \<in> set ?all)"
    using evs(2) by auto
  have cn: "cancel_served a \<and> updates r \<noteq> [] \<and> status job \<noteq> completed
                 \<and> status job \<noteq> failed \<longrightarrow> cancelled_event (job_id job) \<in> set ?all"
    using evs(3) by auto
  show ?thesis
    using lb em st st' pc up cn by (intro exI[of _ ?job3] exI[of _ ?eng3] exI[of _ ?all]) simp
qed

lemma executePhase_success:
  assumes "raised (executor 0) = None"
  shows "\<exists>job' eng' evs. executePhase penv executor ph job eng = (Inr (), job', eng')
           \<and> job_id job' = job_id job
           \<and> (status job' = status job \<or> status job' = cancelled)
           \<and> emitted eng' = emitted eng @ evs
           \<and> PhaseCompleted ph \<in> event ` set evs
           \<and> (\<not> cancel_served (attempt_env penv 0) \<longrightarrow> status job' = status job
                 \<and> (\<forall>u\<in>set (updates (executor 0)).
                       progress_event (job_id job) (status job) (fst u) \<in> set evs))
           \<and> (cancel_served (attempt_env penv 0) \<and> updates (executor 0) \<noteq> []
                 \<and> status job \<noteq> completed \<and> status job \<noteq> failed
                 \<longrightarrow> cancelled_event (job_id job) \<in> set evs)"
proof -
  let ?eng0 = "eng\<lparr>recoveryEngine := snd (createCheckpoint (checkpointId penv) (started penv)
                       (job_id job) ph (progress job) (recoveryEngine eng))\<rparr>"
  from loop_body_success[OF assms, of "attempt_env penv 0" ph 0 job ?eng0]
  obtain job' eng' evs where
    lb: "loop_body (executor 0) (attempt_env penv 0) ph 0 job ?eng0 = (Some (Inr ()), job', eng')"
    and rest: "job_id job' = job_id job"
      "status job' = status job \<or> status job' = cancelled"
      "emitted eng' = emitted ?eng0 @ evs"
      "PhaseCompleted ph \<in> event ` set evs"
      "\<not> cancel_served (attempt_env penv 0) \<longrightarrow> status job' = status job
                 \<and> (\<forall>u\<in>set (updates (executor 0)).
                       progress_event (job_id job) (status job) (fst u) \<in> set evs)"
      "cancel_served (attempt_env penv 0) \<and> updates (executor 0) \<noteq> []
                 \<and> status job \<noteq> completed \<and> status job \<noteq> failed
                 \<longrightarrow> cancelled_event (job_id job) \<in> set evs"
    by blast
  have "executePhase penv executor ph job eng = (Inr (), job', eng')"
    using lb by (simp add: executePhase_def split_beta) (subst executePhase_loop.simps, simp)
  with rest show ?thesis
    by (intro exI[of _ job'] exI[of _ eng'] exI[of _ evs]) simp
qed

lemma run_phases_success:
  assumes "\<forall>p\<in>set plan. raised (phase_executor options p (world (env p) 0)) = None"
  shows "\<exists>job' eng' evs. run_phases env options plan job eng = (Inr (), job', eng')
     \<and> job_id job' = job_id job
     \<and> (status job' = status job \<or> status job' = cancelled)
     \<and> emitted eng' = emitted eng @ evs
     \<and> (\<forall>p\<in>set plan. PhaseCompleted p \<in> event ` set evs)
     \<and> ((\<forall>p\<in>set plan. \<not> cancel_served (attempt_env (env p) 0)) \<longrightarrow>
           status job' = status job
           \<and> (\<forall>p\<in>set plan. \<forall>u\<in>set (updates (phase_executor options p (world (env p) 0))).
                 progress_event (job_id job) (status job) (fst u) \<in> set evs))
     \<and> (status job = running \<or> status job = cancelled \<longrightarrow>
           (\<forall>p\<in>set plan. cancel_served (attempt_env (env p) 0)
                \<and> updates (phase_executor options p (world (env p) 0)) \<noteq> []
              \<longrightarrow> cancelled_event (job_id job) \<in> set evs))"
  using assms
proof (induction plan arbitrary: job eng)
  case Nil
  then show ?case by simp
next
  case (Cons ph rest)
  let ?executor = "\<lambda>k. phase_executor options ph (world (env ph) k)"
  from Cons.prems have h: "raised (?executor 0) = None"
    and r: "\<forall>p\<in>set rest. raised (phase_executor options p (world (env p) 0)) = None"
    by simp_all
  from executePhase_success[of ?executor "env ph" ph job eng, OF h]
  obtain job1 eng1 evs1 where
    ex: "executePhase (env ph) ?executor ph job eng = (Inr (), job1, eng1)"
    and 1: "job_id job1 = job_id job"
      "status job1 = status job \<or> status job1 = cancelled"
      "emitted eng1 = emitted eng @ evs1"
      "PhaseCompleted ph \<in> event ` set evs1"
      "\<not> cancel_served (attempt_env (env ph) 0) \<longrightarrow> status job1 = status job
                 \<and> (\<forall>u\<in>set (updates (?executor 0)).
                       progress_event (job_id job) (status job) (fst u) \<in> set evs1)"
      "cancel_served (attempt_env (env ph) 0) \<and> updates (?executor 0) \<noteq> []
                 \<and> status job \<noteq> completed \<and> status job \<noteq> failed
                 \<longrightarrow> cancelled_event (job_id job) \<in> set evs1"
    by blast
  from Cons.IH[OF r, of job1 eng1]
  obtain job2 eng2 evs2 where
    rp: "run_phases env options rest job1 eng1 = (Inr (), job2, eng2)"
    and 2: "job_id job2 = job_id job1"
      "status job2 = status job1 \<or> status job2 = cancelled"
      "emitted eng2 = emitted eng1 @ evs2"
      "\<forall>p\<in>set rest. PhaseCompleted p \<in> event ` set evs2"
      "(\<forall>p\<in>set rest. \<not> cancel_served (attempt_env (env p) 0)) \<longrightarrow>
           status job2 = status job1
           \<and> (\<forall>p\<in>set rest. \<forall>u\<in>set (updates (phase_executor options p (world (env p) 0))).
                 progress_event (job_id job1) (status job1) (fst u) \<in> set evs2)"
      "status job1 = running \<or> status job1 = cancelled \<longrightarrow>
           (\<forall>p\<in>set rest. cancel_served (attempt_env (env p) 0)
                \<and> updates (phase_executor options p (world (env p) 0)) \<noteq> []
              \<longrightarrow> cancelled_event (job_id job1) \<in> set evs2)"
    by blast
  have run: "run_phases env options (ph # rest) job eng = (Inr (), job2, eng2)"
    using ex rp by simp
  have a: "job_id job2 = job_id job" using 1(1) 2(1) by simp
  have b: "status job2 = status job \<or> status job2 = cancelled" using 1(2) 2(2) by auto
  have c: "emitted eng2 = emitted eng @ (evs1 @ evs2)" using 1(3) 2(3) by simp
  have d: "\<forall>p\<in>set (ph # rest). PhaseCompleted p \<in> event ` set (evs1 @ evs2)"
    using 1(4) 2(4) by auto
  have e: "(\<forall>p\<in>set (ph # rest). \<not> cancel_served (attempt_env (env p) 0)) \<longrightarrow>
           status job2 = status job
           \<and> (\<forall>p\<in>set (ph # rest). \<forall>u\<in>set (updates (phase_executor options p (world (env p) 0))).
                 progress_event (job_id job) (status job) (fst u) \<in> set (evs1 @ evs2))"
    using 1(1,5) 2(5) by fastforce
  have f: "status job = running \<or> status job = cancelled \<longrightarrow>
           (\<forall>p\<in>set (ph # rest). cancel_served (attempt_env (env p) 0)
                \<and> updates (phase_executor options p (world (env p) 0)) \<noteq> []
              \<longrightarrow> cancelled_event (job_id job) \<in> set (evs1 @ evs2))"
    using 1(1,2,6) 2(6) by auto
  show ?case
    using run a b c d e f
    by (intro exI[of _ job2] exI[of _ eng2] exI[of _ "evs1 @ evs2"]) (simp only: simp_thms)
qed

lemma cutover_in_plan: "cutover \<in> set (phase_plan options)"
  by (simp add: phase_plan_def)

lemma executeMigration_success:
  assumes "\<forall>p\<in>set (phase_plan options).
             raised (phase_executor options p (world (env p) 0)) = None"
  shows "fst (executeMigration env options job eng) = Inr ()
     \<and> status (fst (snd (executeMigration env options job eng))) = completed
     \<and> overall_percentage (progress (fst (snd (executeMigration env options job eng)))) = 100
     \<and> (\<forall>p\<in>set (phase_plan options).
           PhaseCompleted p
             \<in> event ` set (new_events eng (snd (snd (executeMigration env options job eng)))))
     \<and> \<lparr>event = MigrationCompleted, event_job = job_id job, event_status = completed,
          event_percentage = 100\<rparr>
           \<in> set (new_events eng (snd (snd (executeMigration env options job eng))))
     \<and> ((\<forall>p\<in>set (phase_plan options). \<not> cancel_served (attempt_env (env p) 0)) \<longrightarrow>
           progress_event (job_id job) running 100
             \<in> set (new_events eng (snd (snd (executeMigration env options job eng)))))
     \<and> (\<forall>p\<in>set (phase_plan options). cancel_served (attempt_env (env p) 0)
              \<and> updates (phase_executor options p (world (env p) 0)) \<noteq> []
           \<longrightarrow> cancelled_event (job_id job)
                 \<in> set (new_events eng (snd (snd (executeMigration env options job eng)))))"
proof -
  let ?job1 = "job\<lparr>status := running\<rparr>"
  let ?eng1 = "emit MigrationStarted ?job1 eng"
  from run_phases_success[OF assms, of ?job1 ?eng1]
  obtain job2 eng2 evs where
    rp: "run_phases env options (phase_plan options) ?job1 ?eng1 = (Inr (), job2, eng2)"
    and 2: "job_id job2 = job_id job"
      "emitted eng2 = emitted ?eng1 @ evs"
      "\<forall>p\<in>set (phase_plan options). PhaseCompleted p \<in> event ` set evs"
      "(\<forall>p\<in>set (phase_plan options). \<not> cancel_served (attempt_env (env p) 0)) \<longrightarrow>
           (\<forall>p\<in>set (phase_plan options).
              \<forall>u\<in>set (updates (phase_executor options p (world (env p) 0))).
                 progress_event (job_id job) running (fst u) \<in> set evs)"
      "\<forall>p\<in>set (phase_plan options). cancel_served (attempt_env (env p) 0)
                \<and> updates (phase_executor options p (world (env p) 0)) \<noteq> []
              \<longrightarrow> cancelled_event (job_id job) \<in> set evs"
    by auto
  let ?job3 = "job2\<lparr>status := completed\<rparr>"
  let ?job4 = "fst (updateProgress ?job3 100 None eng2)"
  let ?eng4 = "snd (updateProgress ?job3 100 None eng2)"
  let ?eng5 = "emit MigrationCompleted ?job4 ?eng4"
  let ?eng6 = "?eng5\<lparr>activeJobs := map_delete (job_id ?job4) (activeJobs ?eng5)\<rparr>"
  have em: "executeMigration env options job eng = (Inr (), ?job4, ?eng6)"
    using rp by (simp add: executeMigration_def Let_def split_beta)
  let ?pre = "[\<lparr>event = MigrationStarted, event_job = job_id job, event_status = running,
                 event_percentage = overall_percentage (progress job)\<rparr>]"
  let ?post = "[\<lparr>event = MigrationProgressed, event_job = job_id job2,
                  event_status = completed, event_percentage = 100\<rparr>,
                \<lparr>event = MigrationCompleted, event_job = job_id job2,
                  event_status = completed, event_percentage = 100\<rparr>]"
  have "emitted ?eng6 = emitted eng @ ?pre @ evs @ ?post"
    using 2(2) by (simp add: emit_def updateProgress_def Let_def)
  then have ne: "new_events eng ?eng6 = ?pre @ evs @ ?post"
    by (simp add: new_events_def)
  have hundred: "progress_event (job_id job) running 100 \<in> set evs"
    if "\<forall>p\<in>set (phase_plan options). \<not> cancel_served (attempt_env (env p) 0)"
  proof -
    from 2(4) that cutover_in_plan[of options]
    have "\<forall>u\<in>set (updates (phase_executor options cutover (world (env cutover) 0))).
                 progress_event (job_id job) running (fst u) \<in> set evs" by blast
    then show ?thesis by (simp add: performCutover_def)
  qed
  have s4: "status ?job4 = completed" "overall_percentage (progress ?job4) = 100"
    by simp_all
  show ?thesis
    unfolding em fst_conv snd_conv ne s4 using 2(1,3,5) hundred by auto
qed

section \<open>The percentage and the status\<close>

lemma smooth_run_answers:
  "\<forall>p\<in>set (phase_plan options). raised (phase_executor options p (world (smooth_run p) 0)) = None"
  "\<forall>p\<in>set (phase_plan options). raised (phase_executor options p (world (cancelled_run p) 0)) = None"
proof -
  have ready: "waitForProjectReady all_answer"
    by (auto simp: waitForProjectReady_def all_answer_def list_ex_iff intro: exI[of _ 0])
  have "raised (phase_executor options p all_answer) = None" for p
    by (cases p)
       (simp_all add: prepareTargetProject_def ready migrateSchema_def
          migrateData_def migrateStorage_def migrateConfiguration_def migrateEdgeFunctions_def
          migrateSecurity_def setupRealtime_def validateMigration_def performCutover_def,
        simp_all add: all_answer_def)
  then show "\<forall>p\<in>set (phase_plan options).
               raised (phase_executor options p (world (smooth_run p) 0)) = None"
    "\<forall>p\<in>set (phase_plan options).
               raised (phase_executor options p (world (cancelled_run p) 0)) = None"
    by (simp_all add: smooth_run_def cancelled_run_def)
qed

lemma smooth_run_calm:
  "\<forall>p\<in>set (phase_plan options). \<not> cancel_served (attempt_env (smooth_run p) 0)"
  by (simp add: smooth_run_def calm_def)

text \<open>
  Claim C2 as stated fails: in the run in which every collaborator answers and nobody
  cancels, the cutover body sets the percentage to 100 and the progress event is emitted
  while the status of the job is still running.
\<close>

theorem hundred_percent_while_running:
  "progress_event ''job-1'' running 100
     \<in> set (new_events new_MigrationEngine
              (snd (snd (executeMigration smooth_run full_clone_options job_1
                           new_MigrationEngine))))"
proof -
  have "job_id job_1 = ''job-1''" by (simp add: job_1_def)
  with executeMigration_success[OF smooth_run_answers(1), of full_clone_options job_1
         new_MigrationEngine] smooth_run_calm[of full_clone_options]
  show ?thesis by simp
qed

text \<open>
  Claim C2, amended. Over a run of \<^verbatim>\<open>executeMigration\<close> on a job as
  \<^verbatim>\<open>startMigration\<close> creates it (percentage 0), whatever the collaborators answer and
  whenever cancellations are served: the percentages of the events emitted while the
  status is running never decrease; every event emitted with the status completed, and the
  job itself once completed, has the percentage 100. (The percentage 100 alone does not
  tell that the job is completed.)
\<close>

theorem percentage_monotone_while_running:
  "sorted (running_percentages
      (new_events eng (snd (snd (executeMigration env options
                                   (job\<lparr>progress := fst initializeProgress\<rparr>) eng)))))
   \<and> (\<forall>e\<in>set (new_events eng (snd (snd (executeMigration env options
                                   (job\<lparr>progress := fst initializeProgress\<rparr>) eng)))).
         event_status e = completed \<longrightarrow> event_percentage e = 100)
   \<and> (status (fst (snd (executeMigration env options
                          (job\<lparr>progress := fst initializeProgress\<rparr>) eng))) = completed \<longrightarrow>
         overall_percentage (progress (fst (snd (executeMigration env options
                          (job\<lparr>progress := fst initializeProgress\<rparr>) eng)))) = 100)"
  by (rule executeMigration_percentages) (simp add: initializeProgress_def)

theorem percentage_monotone_while_running_witness:
  "status (fst (snd (executeMigration smooth_run full_clone_options
                       (job_1\<lparr>progress := fst initializeProgress\<rparr>) new_MigrationEngine)))
     = completed
   \<and> overall_percentage (progress (fst (snd (executeMigration smooth_run full_clone_options
                       (job_1\<lparr>progress := fst initializeProgress\<rparr>) new_MigrationEngine))))
     = 100
   \<and> \<lparr>event = MigrationCompleted, event_job = ''job-1'', event_status = completed,
        event_percentage = 100\<rparr>
       \<in> set (new_events new_MigrationEngine (snd (snd (executeMigration smooth_run
                 full_clone_options (job_1\<lparr>progress := fst initializeProgress\<rparr>)
                 new_MigrationEngine))))
   \<and> sorted (running_percentages
        (new_events new_MigrationEngine (snd (snd (executeMigration smooth_run full_clone_options
                       (job_1\<lparr>progress := fst initializeProgress\<rparr>) new_MigrationEngine)))))"
proof -
  let ?job = "job_1\<lparr>progress := fst initializeProgress\<rparr>"
  have jid: "job_id ?job = ''job-1''" by (simp add: job_1_def)
  from executeMigration_success[OF smooth_run_answers(1), of full_clone_options ?job
         new_MigrationEngine]
  have compl: "status (fst (snd (executeMigration smooth_run full_clone_options ?job
                                  new_MigrationEngine))) = completed"
    and ev: "\<lparr>event = MigrationCompleted, event_job = ''job-1'', event_status = completed,
        event_percentage = 100\<rparr>
       \<in> set (new_events new_MigrationEngine (snd (snd (executeMigration smooth_run
                 full_clone_options ?job new_MigrationEngine))))"
    unfolding jid by blast+
  from percentage_monotone_while_running
         [of new_MigrationEngine smooth_run full_clone_options job_1] compl ev
  show ?thesis by blast
qed

section \<open>Cancellation\<close>









end
